theory Spec2Isabelle
  imports Complex_Main "HOL-Library.AList"
begin

section \<open>Python values and exceptions\<close>

text \<open>
  The exceptions the handlers of \<^verbatim>\<open>backend/api.py\<close> and the embedding script can
  meet. \<open>NotFound\<close> is \<^verbatim>\<open>google.cloud.exceptions.NotFound\<close>; \<open>OtherError\<close> stands for
  every exception class the source never names (a network failure of a client, a
  permission error of the store, ...).
\<close>

datatype exn =
    NotFound
  | TypeError
  | KeyError
  | AttributeError
  | NameError
  | ValueError
  | ZeroDivisionError
  | OverflowError
  | OtherError string

text \<open>
  JSON-like values: what the stores return, what the front end sends and what a
  \<^verbatim>\<open>JSONResponse\<close> carries. A dict keeps its insertion order, so it is an association
  list (\<open>map_of\<close> looks a key up). Numbers are integers here: no claim reads a
  fractional number.
\<close>

datatype json =
    JNull
  | JBool bool
  | JInt int
  | JStr string
  | JList "json list"
  | JObj "(string \<times> json) list"

type_synonym document = "(string \<times> json) list"

subsection \<open>Formatting integers\<close>

definition digit_char :: "nat \<Rightarrow> char" where
  "digit_char d = ''0123456789'' ! d"

fun digits :: "nat \<Rightarrow> string" where
  "digits n = (if n < 10 then [digit_char n] else digits (n div 10) @ [digit_char (n mod 10)])"

declare digits.simps [simp del]

text \<open>\<^verbatim>\<open>str(i)\<close> for an integer.\<close>

definition str_int :: "int \<Rightarrow> string" where
  "str_int i = (if i < 0 then CHR ''-'' # digits (nat (- i)) else digits (nat i))"

subsection \<open>True division of integers\<close>

text \<open>
  The page numbers are computed as \<^verbatim>\<open>int(skip / page_size) + 1\<close>. In Python 3 the
  operator \<^verbatim>\<open>/\<close> on two integers is true division: it raises
  \<^verbatim>\<open>ZeroDivisionError\<close> for a zero divisor and otherwise gives the binary64 float
  nearest to the exact quotient (ties to even), or raises \<^verbatim>\<open>OverflowError\<close> when that
  float would not be finite; \<^verbatim>\<open>int\<close> then truncates towards zero. The float is
  written here as a pair \<open>(m, x)\<close>, meaning \<open>m * 2 ^ x\<close>, of a significand of at
  most 53 bits and an exponent.

  \<open>bit_length\<close> is \<^verbatim>\<open>int.bit_length\<close>; \<open>quotient_exponent a b\<close> is the \<open>e\<close> with
  \<open>2 ^ e \<le> a / b < 2 ^ (e + 1)\<close>; \<open>round_half_even_div n d\<close> is the integer nearest
  to \<open>n / d\<close>, ties to even.
\<close>

fun bit_length :: "nat \<Rightarrow> nat" where
  "bit_length n = (if n = 0 then 0 else Suc (bit_length (n div 2)))"

declare bit_length.simps [simp del]

definition quotient_exponent :: "nat \<Rightarrow> nat \<Rightarrow> int" where
  "quotient_exponent a b =
     (let d = int (bit_length a) - int (bit_length b)
      in if (if 0 \<le> d then b * 2 ^ nat d \<le> a else b \<le> a * 2 ^ nat (- d)) then d else d - 1)"

definition round_half_even_div :: "nat \<Rightarrow> nat \<Rightarrow> nat" where
  "round_half_even_div n d =
     (let q = n div d; r = n mod d
      in if 2 * r < d then q else if d < 2 * r then q + 1 else if even q then q else q + 1)"

text \<open>
  \<open>truediv_nat a b\<close> is \<^verbatim>\<open>a / b\<close> for \<open>a \<ge> 0\<close> and \<open>b > 0\<close>. The exponent of the
  last place is \<open>e - 52\<close>, and never below \<open>- 1074\<close> (subnormal numbers).
\<close>

definition truediv_nat :: "nat \<Rightarrow> nat \<Rightarrow> exn + nat \<times> int" where
  "truediv_nat a b =
     (if a = 0 then Inr (0, 0)
      else
        let x = max (quotient_exponent a b) (- 1022) - 52;
            m = (if x \<le> 0 then round_half_even_div (a * 2 ^ nat (- x)) b
                 else round_half_even_div a (b * 2 ^ nat x))
        in if 0 \<le> x \<and> 2 ^ 1024 \<le> m * 2 ^ nat x then Inl OverflowError else Inr (m, x))"

text \<open>\<^verbatim>\<open>int(f)\<close> for a float \<open>f \<ge> 0\<close>: the integer part.\<close>

definition int_of_float :: "nat \<times> int \<Rightarrow> nat" where
  "int_of_float f = (case f of (m, x) \<Rightarrow> if 0 \<le> x then m * 2 ^ nat x else m div 2 ^ nat (- x))"

text \<open>\<^verbatim>\<open>int(a / b)\<close> for integers \<open>a\<close> and \<open>b\<close>.\<close>

definition py_int_truediv :: "int \<Rightarrow> int \<Rightarrow> exn + int" where
  "py_int_truediv a b =
     (if b = 0 then Inl ZeroDivisionError
      else case truediv_nat (nat \<bar>a\<bar>) (nat \<bar>b\<bar>) of
             Inl e \<Rightarrow> Inl e
           | Inr f \<Rightarrow>
               Inr (if (a < 0) \<noteq> (b < 0) then - int (int_of_float f) else int (int_of_float f)))"

subsection \<open>Operations on values\<close>

text \<open>\<^verbatim>\<open>xs[i:j]\<close>: a negative index counts from the end, and both are clamped.\<close>

definition py_slice :: "'a list \<Rightarrow> int \<Rightarrow> int \<Rightarrow> 'a list" where
  "py_slice xs i j =
     (let n = int (length xs);
          lo = (if i < 0 then max (i + n) 0 else min i n);
          hi = (if j < 0 then max (j + n) 0 else min j n)
      in take (nat (hi - lo)) (drop (nat lo) xs))"

text \<open>
  \<^verbatim>\<open>d[k]\<close> raises \<^verbatim>\<open>KeyError\<close> for a key the dict lacks, and \<^verbatim>\<open>TypeError\<close> when
  \<open>d\<close> is no dict (\<^verbatim>\<open>None\<close>, a list or a string indexed by a string, a number);
  \<^verbatim>\<open>d.get(k, dflt)\<close> raises \<^verbatim>\<open>AttributeError\<close> when \<open>d\<close> is no dict.
\<close>

definition py_getitem :: "json \<Rightarrow> string \<Rightarrow> exn + json" where
  "py_getitem d k =
     (case d of
        JObj kvs \<Rightarrow> (case map_of kvs k of None \<Rightarrow> Inl KeyError | Some v \<Rightarrow> Inr v)
      | _ \<Rightarrow> Inl TypeError)"

definition py_dict_get :: "json \<Rightarrow> string \<Rightarrow> json \<Rightarrow> exn + json" where
  "py_dict_get d k dflt =
     (case d of
        JObj kvs \<Rightarrow> (case map_of kvs k of None \<Rightarrow> Inr dflt | Some v \<Rightarrow> Inr v)
      | _ \<Rightarrow> Inl AttributeError)"

text \<open>
  \<^verbatim>\<open>d.update(e)\<close> on dicts: the keys of \<open>e\<close> in order, each replacing the value of a
  key \<open>d\<close> has and appended otherwise.
\<close>

definition dict_update :: "document \<Rightarrow> document \<Rightarrow> document" where
  "dict_update d e = fold (\<lambda>kv. AList.update (fst kv) (snd kv)) e d"

text \<open>
  Iterating over a value (\<^verbatim>\<open>for x in v\<close>, \<^verbatim>\<open>set(v)\<close>): the elements of a list, the
  characters of a string, the keys of a dict; \<^verbatim>\<open>TypeError\<close> for \<^verbatim>\<open>None\<close>, a boolean
  or a number.
\<close>

definition py_iter :: "json \<Rightarrow> exn + json list" where
  "py_iter v =
     (case v of
        JList xs \<Rightarrow> Inr xs
      | JStr s \<Rightarrow> Inr (map (\<lambda>c. JStr [c]) s)
      | JObj kvs \<Rightarrow> Inr (map (\<lambda>kv. JStr (fst kv)) kvs)
      | _ \<Rightarrow> Inl TypeError)"

text \<open>
  \<^verbatim>\<open>a + b\<close> and \<^verbatim>\<open>a - b\<close>. Lists and strings concatenate with \<^verbatim>\<open>+\<close>, numbers
  (booleans count as 0 and 1) add and subtract; every other pair of operands raises
  \<^verbatim>\<open>TypeError\<close>. In particular \<^verbatim>\<open>-\<close> is not defined on lists.
\<close>

definition py_num :: "json \<Rightarrow> int option" where
  "py_num v = (case v of JInt i \<Rightarrow> Some i | JBool b \<Rightarrow> Some (if b then 1 else 0) | _ \<Rightarrow> None)"

definition py_add :: "json \<Rightarrow> json \<Rightarrow> exn + json" where
  "py_add a b =
     (case (a, b) of
        (JList xs, JList ys) \<Rightarrow> Inr (JList (xs @ ys))
      | (JStr s, JStr t) \<Rightarrow> Inr (JStr (s @ t))
      | _ \<Rightarrow> (case (py_num a, py_num b) of
                (Some x, Some y) \<Rightarrow> Inr (JInt (x + y))
              | _ \<Rightarrow> Inl TypeError))"

definition py_sub :: "json \<Rightarrow> json \<Rightarrow> exn + json" where
  "py_sub a b =
     (case (py_num a, py_num b) of
        (Some x, Some y) \<Rightarrow> Inr (JInt (x - y))
      | _ \<Rightarrow> Inl TypeError)"

text \<open>
  \<^verbatim>\<open>list(set(v))\<close>: \<^verbatim>\<open>set\<close> raises \<^verbatim>\<open>TypeError\<close> when \<open>v\<close> cannot be iterated or
  holds an unhashable element (a list or a dict), and keeps one of each group of equal
  elements (\<^verbatim>\<open>True == 1\<close> and \<^verbatim>\<open>False == 0\<close> in Python; \<open>py_key\<close> maps equal values
  to one key). Python does not specify the order in which a set is listed; the model
  lists the elements in the order of their first occurrence, and the theorems below
  speak of the elements only.
\<close>

definition hashable :: "json \<Rightarrow> bool" where
  "hashable v = (case v of JList _ \<Rightarrow> False | JObj _ \<Rightarrow> False | _ \<Rightarrow> True)"

definition py_key :: "json \<Rightarrow> json" where
  "py_key v = (case v of JBool b \<Rightarrow> JInt (if b then 1 else 0) | _ \<Rightarrow> v)"

fun py_dedup :: "json list \<Rightarrow> json list \<Rightarrow> json list" where
  "py_dedup seen [] = []"
| "py_dedup seen (x # xs) =
     (if py_key x \<in> set seen then py_dedup seen xs else x # py_dedup (py_key x # seen) xs)"

definition py_list_set :: "json \<Rightarrow> exn + json list" where
  "py_list_set v =
     (case py_iter v of
        Inl e \<Rightarrow> Inl e
      | Inr xs \<Rightarrow> if list_all hashable xs then Inr (py_dedup [] xs) else Inl TypeError)"

section \<open>Calls to the outside world\<close>

text \<open>
  A handler talks to the identity provider, the document store, the search cluster, the
  table store and the mail service. \<open>'s\<close> is the state of all of them; a call takes the
  state and gives back an exception or a result, and the state after the call (a call
  that raises may have changed it). \<open>io_try\<close> is \<^verbatim>\<open>try: ... except: ...\<close> with a
  handler that decides, by the exception, what to do.
\<close>

type_synonym ('a, 's) io = "'s \<Rightarrow> (exn + 'a) \<times> 's"

definition io_return :: "'a \<Rightarrow> ('a, 's) io" where
  "io_return a = (\<lambda>s. (Inr a, s))"

definition io_raise :: "exn \<Rightarrow> ('a, 's) io" where
  "io_raise e = (\<lambda>s. (Inl e, s))"

definition io_lift :: "exn + 'a \<Rightarrow> ('a, 's) io" where
  "io_lift r = (\<lambda>s. (r, s))"

definition io_bind :: "('a, 's) io \<Rightarrow> ('a \<Rightarrow> ('b, 's) io) \<Rightarrow> ('b, 's) io" where
  "io_bind m f = (\<lambda>s. case m s of (Inl e, s') \<Rightarrow> (Inl e, s') | (Inr a, s') \<Rightarrow> f a s')"

definition io_try :: "('a, 's) io \<Rightarrow> (exn \<Rightarrow> ('a, 's) io) \<Rightarrow> ('a, 's) io" where
  "io_try m h = (\<lambda>s. case m s of (Inl e, s') \<Rightarrow> h e s' | (Inr a, s') \<Rightarrow> (Inr a, s'))"

text \<open>A list comprehension whose element expression calls out: left to right.\<close>

fun io_map :: "('a \<Rightarrow> ('b, 's) io) \<Rightarrow> 'a list \<Rightarrow> ('b list, 's) io" where
  "io_map f [] = io_return []"
| "io_map f (x # xs) = io_bind (f x) (\<lambda>y. io_bind (io_map f xs) (\<lambda>ys. io_return (y # ys)))"

section \<open>Responses and the environment of the handlers\<close>

text \<open>
  A \<^verbatim>\<open>JSONResponse\<close>: its status code and its content. \<^verbatim>\<open>JSONResponse(content=c)\<close>
  has status 200; \<^verbatim>\<open>JSONResponse(status_code=n)\<close> is given no content, which is
  \<^verbatim>\<open>None\<close> and is sent as the body \<^verbatim>\<open>null\<close>. A handler that ends without a
  \<^verbatim>\<open>return\<close>, or with \<^verbatim>\<open>return None\<close>, gives no response object at all: its result
  is \<open>None\<close> below.
\<close>

record response =
  status_code :: nat
  content :: json

definition JSONResponse_content :: "json \<Rightarrow> response" where
  "JSONResponse_content c = \<lparr>status_code = 200, content = c\<rparr>"

definition JSONResponse_status :: "nat \<Rightarrow> response" where
  "JSONResponse_status n = \<lparr>status_code = n, content = JNull\<rparr>"

abbreviation HTTP_200_OK :: nat where "HTTP_200_OK \<equiv> 200"
abbreviation HTTP_400_BAD_REQUEST :: nat where "HTTP_400_BAD_REQUEST \<equiv> 400"
abbreviation HTTP_401_UNAUTHORIZED :: nat where "HTTP_401_UNAUTHORIZED \<equiv> 401"
abbreviation HTTP_404_NOT_FOUND :: nat where "HTTP_404_NOT_FOUND \<equiv> 404"

text \<open>
  The module \<^verbatim>\<open>utils\<close> of the back end (\<^verbatim>\<open>get_user_info\<close>, \<^verbatim>\<open>get_data\<close>,
  \<^verbatim>\<open>set_data\<close>, \<^verbatim>\<open>update_data\<close> and the search helpers) is not among the sources,
  and the clients of the search cluster, the table store and the mail service are
  libraries. The handlers take all of them as parameters, the fields of \<open>env\<close>, together
  with the configuration read when the module is loaded. Each call may raise.

  \<^item> \<open>get_user_info\<close> gives the claims of a verified identity token (a dict that may
    hold \<^verbatim>\<open>user_id\<close> and \<^verbatim>\<open>email\<close>), or \<^verbatim>\<open>None\<close>.
  \<^item> \<open>get_data document_id collection\<close> gives a document or \<^verbatim>\<open>None\<close>;
    \<open>set_data data document_id collection\<close> and \<open>update_data\<close> write one. The
    document id is the \<^verbatim>\<open>user_id\<close> of the claims, \<^verbatim>\<open>None\<close> when they hold none.
  \<^item> \<open>utils_get_abstract\<close> is called with the keyword \<^verbatim>\<open>index=\<close> everywhere but in
    the votes of all editions, which calls it with \<^verbatim>\<open>edition=\<close>.
  \<^item> \<open>es_count index\<close> is \<^verbatim>\<open>Search(using=es, index=index).count()\<close>.
  \<^item> \<open>table_get base_id table_name\<close>, \<open>table_create\<close> and \<open>table_update\<close> are
    the methods of \<^verbatim>\<open>Table(api_key, base_id, table_name)\<close>.
  \<^item> \<open>embeddings\<close> and \<open>nbrs_models\<close> are the module's dicts of loaded files, bound
    only when such files exist (\<open>None\<close>: the name is unbound).
  \<^item> \<open>pd_to_datetime s\<close> is \<^verbatim>\<open>str(pd.to_datetime(s))\<close>.
\<close>

typedecl nbrs_model

datatype abstract_kw = Index | Edition

record 's env =
  user_collection :: string
  preference_collection :: string
  SENDGRID_API :: string
  es_config :: json
  embeddings :: "json option"
  nbrs_models :: "(string \<times> nbrs_model) list option"
  get_user_info :: "string option \<Rightarrow> ((string \<times> string) list option, 's) io"
  get_data :: "string option \<Rightarrow> string \<Rightarrow> (document option, 's) io"
  set_data :: "json \<Rightarrow> string option \<Rightarrow> string \<Rightarrow> (unit, 's) io"
  update_data :: "json \<Rightarrow> string option \<Rightarrow> string \<Rightarrow> (unit, 's) io"
  utils_query_affiliations :: "string \<Rightarrow> int \<Rightarrow> (json, 's) io"
  utils_get_abstract :: "abstract_kw \<Rightarrow> string \<Rightarrow> json \<Rightarrow> (json, 's) io"
  utils_get_agenda :: "string \<Rightarrow> string \<Rightarrow> (json, 's) io"
  utils_convert_utc :: "string \<Rightarrow> (string, 's) io"
  utils_query_abstracts :: "string option \<Rightarrow> string \<Rightarrow> (json list, 's) io"
  utils_filter_startend_time :: "json list \<Rightarrow> string option \<Rightarrow> string option \<Rightarrow> (json list, 's) io"
  utils_generate_recommendations :: "json \<Rightarrow> json \<Rightarrow> string \<Rightarrow> nbrs_model \<Rightarrow> (json list, 's) io"
  utils_generate_personalized_recommendations :: "json \<Rightarrow> json \<Rightarrow> string \<Rightarrow> nbrs_model \<Rightarrow> (json list, 's) io"
  es_count :: "string \<Rightarrow> (nat, 's) io"
  table_get :: "json \<Rightarrow> json \<Rightarrow> string \<Rightarrow> (json, 's) io"
  table_create :: "json \<Rightarrow> json \<Rightarrow> document \<Rightarrow> (json, 's) io"
  table_update :: "json \<Rightarrow> json \<Rightarrow> string \<Rightarrow> document \<Rightarrow> (json, 's) io"
  load_email_content :: "(json, 's) io"
  sendgrid_post :: "json \<Rightarrow> (nat, 's) io"
  pd_to_datetime :: "string \<Rightarrow> exn + string"

section \<open>The handlers of the profile and of the votes\<close>

text \<open>
  Each handler is the function of \<^verbatim>\<open>backend/api.py\<close> of the same name, statement by
  statement; its result is the response it returns (\<open>None\<close>: no response object) or
  the exception it lets through. The \<^verbatim>\<open>print\<close> calls write to the log only and are
  left out.
\<close>

definition get_affiliations :: "'s env \<Rightarrow> string option \<Rightarrow> int option \<Rightarrow> (response option, 's) io" where
  "get_affiliations U q n_results =
     (let n_results = (case n_results of None \<Rightarrow> 10 | Some n \<Rightarrow> n) in
      io_bind
        (case q of
           Some qs \<Rightarrow> utils_query_affiliations U qs n_results
         | None \<Rightarrow> io_return (JList []))
        (\<lambda>queries. io_return (Some (JSONResponse_content (JObj [(''data'', queries)])))))"

text \<open>
  \<^verbatim>\<open>for d in data["personalizations"]: d.update({"to": [{"email": email}]})\<close>: each
  \<open>d\<close> must be a dict (\<^verbatim>\<open>AttributeError\<close> otherwise), and is changed in place, so
  \<open>data\<close> holds the changed dicts when \<^verbatim>\<open>data["personalizations"]\<close> is a list.
\<close>

definition personalize :: "json \<Rightarrow> json \<Rightarrow> exn + json" where
  "personalize email d =
     (case d of
        JObj kvs \<Rightarrow> Inr (JObj (dict_update kvs [(''to'', JList [JObj [(''email'', email)]])]))
      | _ \<Rightarrow> Inl AttributeError)"

definition send_confirmation_email :: "'s env \<Rightarrow> string \<Rightarrow> string option \<Rightarrow> (response option, 's) io" where
  "send_confirmation_email U email_type authorization =
     (if SENDGRID_API U \<noteq> [] then
        io_bind (get_user_info U authorization) (\<lambda>user_info.
          case user_info of
            None \<Rightarrow> io_raise AttributeError
          | Some ui \<Rightarrow>
              let email = (case map_of ui ''email'' of None \<Rightarrow> JNull | Some a \<Rightarrow> JStr a) in
              io_bind (load_email_content U) (\<lambda>email_content.
              io_bind (io_lift (py_dict_get email_content email_type JNull)) (\<lambda>data.
              io_bind (io_lift (py_getitem data ''personalizations'')) (\<lambda>personalizations.
              io_bind (io_lift (py_iter personalizations)) (\<lambda>ds.
              io_bind (io_map (\<lambda>d. io_lift (personalize email d)) ds) (\<lambda>ds'.
                let data' =
                  (case (data, personalizations) of
                     (JObj kvs, JList _) \<Rightarrow> JObj (AList.update ''personalizations'' (JList ds') kvs)
                   | _ \<Rightarrow> data)
                in io_bind (sendgrid_post U data') (\<lambda>response_status_code.
                     io_return (Some (JSONResponse_status response_status_code)))))))))
      else io_return None)"

definition migrate :: "'s env \<Rightarrow> string option \<Rightarrow> (response option, 's) io" where
  "migrate U authorization = io_return None"

definition get_user :: "'s env \<Rightarrow> string option \<Rightarrow> (response option, 's) io" where
  "get_user U authorization =
     io_bind (get_user_info U authorization) (\<lambda>user_info.
       case user_info of
         Some ui \<Rightarrow>
           (let user_id = map_of ui ''user_id'' in
            io_bind (get_data U user_id (user_collection U)) (\<lambda>user.
              case user of
                Some doc \<Rightarrow> io_return (Some (JSONResponse_content (JObj [(''data'', JObj doc)])))
              | None \<Rightarrow> io_return (Some (JSONResponse_content (JObj [(''data'', JObj [])])))))
       | None \<Rightarrow> io_return (Some (JSONResponse_status HTTP_401_UNAUTHORIZED)))"

text \<open>
  \<^verbatim>\<open>user_data\<close> is the request body, a dict or \<^verbatim>\<open>None\<close>
  (\<^verbatim>\<open>Optional[dict]\<close>). \<^verbatim>\<open>create_user\<close> stores \<^verbatim>\<open>user_data["payload"]\<close>,
  \<^verbatim>\<open>update_user\<close> hands \<^verbatim>\<open>user_data\<close> itself to \<^verbatim>\<open>update_data\<close>; neither
  returns a response when the identity is valid.
\<close>

definition json_of_body :: "document option \<Rightarrow> json" where
  "json_of_body user_data = (case user_data of None \<Rightarrow> JNull | Some d \<Rightarrow> JObj d)"

definition create_user :: "'s env \<Rightarrow> document option \<Rightarrow> string option \<Rightarrow> (response option, 's) io" where
  "create_user U user_data authorization =
     io_bind (get_user_info U authorization) (\<lambda>user_info.
       case user_info of
         Some ui \<Rightarrow>
           (let user_id = map_of ui ''user_id'' in
            io_bind (io_lift (py_getitem (json_of_body user_data) ''payload'')) (\<lambda>payload.
            io_bind (set_data U payload user_id (user_collection U)) (\<lambda>_.
              io_return None)))
       | None \<Rightarrow> io_return (Some (JSONResponse_status HTTP_401_UNAUTHORIZED)))"

definition update_user :: "'s env \<Rightarrow> document option \<Rightarrow> string option \<Rightarrow> (response option, 's) io" where
  "update_user U user_data authorization =
     io_bind (get_user_info U authorization) (\<lambda>user_info.
       case user_info of
         Some ui \<Rightarrow>
           (let user_id = map_of ui ''user_id'' in
            io_bind (update_data U (json_of_body user_data) user_id (user_collection U)) (\<lambda>_.
              io_return None))
       | None \<Rightarrow> io_return (Some (JSONResponse_status HTTP_401_UNAUTHORIZED)))"

text \<open>
  The two handlers named \<^verbatim>\<open>get_user_votes\<close>: the votes of all editions
  (\<^verbatim>\<open>/api/user/preference/\<close>) and those of one edition
  (\<^verbatim>\<open>/api/user/preference/{edition}\<close>).
\<close>

definition get_user_votes_all :: "'s env \<Rightarrow> string option \<Rightarrow> (response option, 's) io" where
  "get_user_votes_all U authorization =
     io_bind (get_user_info U authorization) (\<lambda>user_info.
       case user_info of
         Some ui \<Rightarrow>
           (let user_id = map_of ui ''user_id'' in
            io_bind (get_data U user_id (preference_collection U)) (\<lambda>user_preference.
            io_bind
              (case user_preference of
                 Some pref \<Rightarrow>
                   io_map
                     (\<lambda>kv. io_bind (utils_get_abstract U Edition (''agenda-'' @ fst kv) (snd kv))
                        (\<lambda>a. io_return (JObj [(''edition'', JStr (fst kv)), (''abstracts'', a)])))
                     pref
               | None \<Rightarrow> io_return [])
              (\<lambda>abstracts.
                 io_return (Some (JSONResponse_content (JObj [(''data'', JList abstracts)]))))))
       | None \<Rightarrow> io_return (Some (JSONResponse_status HTTP_401_UNAUTHORIZED)))"

definition get_user_votes :: "'s env \<Rightarrow> string \<Rightarrow> string option \<Rightarrow> (response option, 's) io" where
  "get_user_votes U edition authorization =
     io_bind (get_user_info U authorization) (\<lambda>user_info.
       case user_info of
         Some ui \<Rightarrow>
           (let user_id = map_of ui ''user_id'' in
            io_bind (get_data U user_id (preference_collection U)) (\<lambda>user_preference.
            io_bind
              (case user_preference of
                 Some pref \<Rightarrow>
                   io_bind (io_lift (py_getitem (JObj pref) edition)) (\<lambda>ids.
                   io_bind (io_lift (py_iter ids)) (\<lambda>idxs.
                   io_bind (io_map (utils_get_abstract U Index (''agenda-'' @ edition)) idxs) (\<lambda>found.
                     io_return (JObj [(''edition'', JStr edition), (''abstracts'', JList found)]))))
               | None \<Rightarrow> io_return (JList []))
              (\<lambda>abstracts.
                 io_return (Some (JSONResponse_content (JObj [(''data'', abstracts)]))))))
       | None \<Rightarrow> io_return (Some (JSONResponse_status HTTP_401_UNAUTHORIZED)))"

text \<open>
  \<^verbatim>\<open>update_user_votes\<close>. The \<^verbatim>\<open>try\<close> blocks hold the call to the store only, with
  \<^verbatim>\<open>except (google.cloud.exceptions.NotFound, TypeError)\<close> answering 404
  (\<open>store_error_404\<close>); reading the preferences and computing the new list stand
  outside them. The like branch computes
  \<^verbatim>\<open>list(set(current_pref + [submission_id]))\<close>, the dislike branch
  \<^verbatim>\<open>list(set(current_pref - [submission_id]))\<close>. Without an exception the function ends
  with no \<^verbatim>\<open>return\<close>.
\<close>

definition store_error_404 :: "exn \<Rightarrow> (response option, 's) io" where
  "store_error_404 e =
     (if e = NotFound \<or> e = TypeError
      then io_return (Some (JSONResponse_status HTTP_404_NOT_FOUND))
      else io_raise e)"

definition update_user_votes ::
  "'s env \<Rightarrow> string \<Rightarrow> string \<Rightarrow> string option \<Rightarrow> string option \<Rightarrow> (response option, 's) io" where
  "update_user_votes U edition submission_id action authorization =
     io_bind (get_user_info U authorization) (\<lambda>user_info.
       case user_info of
         None \<Rightarrow> io_return (Some (JSONResponse_status HTTP_401_UNAUTHORIZED))
       | Some ui \<Rightarrow>
           (let user_id = map_of ui ''user_id'' in
            io_bind (get_data U user_id (preference_collection U)) (\<lambda>user_preference.
              if action = Some ''like'' \<and> user_id \<noteq> None then
                (case user_preference of
                   None \<Rightarrow>
                     io_try
                       (io_bind
                          (set_data U (JObj [(edition, JList [JStr submission_id])]) user_id
                             (preference_collection U))
                          (\<lambda>_. io_return None))
                       store_error_404
                 | Some pref \<Rightarrow>
                     io_bind (io_lift (py_getitem (JObj pref) edition)) (\<lambda>current_pref.
                     io_bind (io_lift (py_add current_pref (JList [JStr submission_id]))) (\<lambda>joined.
                     io_bind (io_lift (py_list_set joined)) (\<lambda>update_pref.
                       io_try
                         (io_bind
                            (update_data U (JObj [(edition, JList update_pref)]) user_id
                               (preference_collection U))
                            (\<lambda>_. io_return None))
                         store_error_404))))
              else if action = Some ''dislike'' \<and> user_id \<noteq> None then
                (case user_preference of
                   None \<Rightarrow> io_return (Some (JSONResponse_status HTTP_404_NOT_FOUND))
                 | Some pref \<Rightarrow>
                     io_bind (io_lift (py_getitem (JObj pref) edition)) (\<lambda>current_pref.
                     io_bind (io_lift (py_sub current_pref (JList [JStr submission_id]))) (\<lambda>remaining.
                     io_bind (io_lift (py_list_set remaining)) (\<lambda>update_pref.
                       io_try
                         (io_bind
                            (update_data U (JObj [(edition, JList update_pref)]) user_id
                               (preference_collection U))
                            (\<lambda>_. io_return None))
                         store_error_404))))
              else io_return (Some (JSONResponse_status HTTP_400_BAD_REQUEST)))))"

section \<open>Building query strings\<close>

text \<open>
  The values \<^verbatim>\<open>get_abstracts\<close> hands to \<^verbatim>\<open>query_params_builder\<close> are strings
  (view, query, start and end time) and integers (skip, limit), or \<^verbatim>\<open>None\<close>;
  \<^verbatim>\<open>f"{v}"\<close> formats them.
\<close>

datatype qval = QStr string | QInt int

fun py_format :: "qval \<Rightarrow> string" where
  "py_format (QStr s) = s"
| "py_format (QInt i) = str_int i"

text \<open>
  \<^verbatim>\<open>
  def query_params_builder(base_endpoint: str, kvs: Optional[tuple] = None):
      if kvs is not None:
          for (k, v) in kvs:
              if v is not None:
                  separator = "?" if "?" not in base_endpoint else "&"
                  base_endpoint += f"{separator}{k}={v}"
      return base_endpoint
  \<close>
  The loop is \<open>query_params_loop\<close>, with the accumulated \<open>base_endpoint\<close> as its
  first argument.
\<close>

fun query_params_loop :: "string \<Rightarrow> (string \<times> qval option) list \<Rightarrow> string" where
  "query_params_loop base_endpoint [] = base_endpoint"
| "query_params_loop base_endpoint ((k, v) # kvs) =
     (case v of
        None \<Rightarrow> query_params_loop base_endpoint kvs
      | Some x \<Rightarrow>
          (let separator = (if CHR ''?'' \<notin> set base_endpoint then ''?'' else ''&'')
           in query_params_loop (base_endpoint @ separator @ k @ ''='' @ py_format x) kvs))"

definition query_params_builder :: "string \<Rightarrow> (string \<times> qval option) list option \<Rightarrow> string" where
  "query_params_builder base_endpoint kvs =
     (case kvs of None \<Rightarrow> base_endpoint | Some l \<Rightarrow> query_params_loop base_endpoint l)"

text \<open>
  The claim's own words, for comparison: the pairs whose value is not \<^verbatim>\<open>None\<close>, kept in
  their order (\<open>present_params\<close>), each appended to the endpoint accumulated so far
  with \<open>?\<close> when that endpoint holds no \<open>?\<close> and \<open>&\<close> otherwise (\<open>append_param\<close>).
\<close>

fun present_params :: "(string \<times> qval option) list \<Rightarrow> (string \<times> qval) list" where
  "present_params [] = []"
| "present_params ((k, None) # kvs) = present_params kvs"
| "present_params ((k, Some x) # kvs) = (k, x) # present_params kvs"

definition append_param :: "string \<Rightarrow> string \<times> qval \<Rightarrow> string" where
  "append_param endpoint kv =
     endpoint @ (if CHR ''?'' \<in> set endpoint then ''&'' else ''?'') @ fst kv @ ''='' @ py_format (snd kv)"

definition query_params_spec :: "string \<Rightarrow> (string \<times> qval option) list \<Rightarrow> string" where
  "query_params_spec base_endpoint kvs = foldl append_param base_endpoint (present_params kvs)"

section \<open>The handlers of the agenda and of the abstracts\<close>

definition get_agenda :: "'s env \<Rightarrow> string \<Rightarrow> string option \<Rightarrow> (response option, 's) io" where
  "get_agenda U edition starttime =
     io_bind
       (case starttime of
          Some t \<Rightarrow> utils_get_agenda U (''agenda-'' @ edition) t
        | None \<Rightarrow> io_return (JList []))
       (\<lambda>abstracts. io_return (Some (JSONResponse_content (JObj [(''data'', abstracts)]))))"

subsection \<open>Listing abstracts by page\<close>

text \<open>
  The first statement of \<^verbatim>\<open>get_abstracts\<close> reads the votes of the user inside
  \<^verbatim>\<open>try: ... except: user_preference = []\<close>. The \<^verbatim>\<open>except\<close> names no exception
  class, so it catches all of them, also the \<^verbatim>\<open>AttributeError\<close> of calling
  \<^verbatim>\<open>.get\<close> on \<^verbatim>\<open>None\<close> when there is no identity or no document. The key read
  is the literal string \<^verbatim>\<open>"edition"\<close>.
\<close>

definition get_abstracts_preference :: "'s env \<Rightarrow> string option \<Rightarrow> (json, 's) io" where
  "get_abstracts_preference U authorization =
     io_try
       (io_bind (get_user_info U authorization) (\<lambda>user_info.
          case user_info of
            None \<Rightarrow> io_raise AttributeError
          | Some ui \<Rightarrow>
              (let user_id = map_of ui ''user_id'' in
               io_bind (get_data U user_id (preference_collection U)) (\<lambda>doc.
                 case doc of
                   None \<Rightarrow> io_raise AttributeError
                 | Some d \<Rightarrow> io_lift (py_dict_get (JObj d) ''edition'' (JList []))))))
       (\<lambda>e. io_return (JList []))"

definition page_meta :: "int \<Rightarrow> int \<Rightarrow> int \<Rightarrow> json" where
  "page_meta current_page total_page page_size =
     JObj [(''currentPage'', JInt current_page),
           (''totalPage'', JInt total_page),
           (''pageSize'', JInt page_size)]"

text \<open>
  The \<^verbatim>\<open>links\<close> of a page: \<^verbatim>\<open>current\<close> and \<^verbatim>\<open>next\<close> are built by
  \<open>query_params_builder\<close> from the parameters of the view, followed by \<^verbatim>\<open>skip\<close>
  (\<^verbatim>\<open>skip + page_size\<close> for the next page) and \<^verbatim>\<open>limit\<close>.
\<close>

definition page_links :: "string \<Rightarrow> (string \<times> qval option) list \<Rightarrow> int \<Rightarrow> int \<Rightarrow> json" where
  "page_links edition params skip page_size =
     JObj [(''current'',
              JStr (query_params_builder (''/api/abstract/'' @ edition)
                (Some (params @ [(''skip'', Some (QInt skip)), (''limit'', Some (QInt page_size))])))),
           (''next'',
              JStr (query_params_builder (''/api/abstract/'' @ edition)
                (Some (params @ [(''skip'', Some (QInt (skip + page_size))),
                                 (''limit'', Some (QInt page_size))]))))]"

definition page_response :: "json \<Rightarrow> json \<Rightarrow> json list \<Rightarrow> response" where
  "page_response meta links submissions =
     JSONResponse_content (JObj [(''meta'', meta), (''links'', links), (''data'', JList submissions)])"

text \<open>
  The views \<^verbatim>\<open>your-votes\<close>, \<^verbatim>\<open>recommendations\<close> and \<^verbatim>\<open>personalized\<close> end
  alike: the page numbers are computed anew, the total from the length of the list of
  the view, and the data is \<^verbatim>\<open>submissions[skip : skip + limit] if len(submissions) > 0
  else []\<close>.
\<close>

definition view_page ::
  "string \<Rightarrow> (string \<times> qval option) list \<Rightarrow> int \<Rightarrow> int \<Rightarrow> json list \<Rightarrow> (response option, 's) io" where
  "view_page edition params skip limit submissions =
     (let page_size = limit in
      io_bind (io_lift (py_int_truediv skip page_size)) (\<lambda>p.
      io_bind (io_lift (py_int_truediv (int (length submissions)) page_size)) (\<lambda>np.
        io_return (Some (page_response
          (page_meta (p + 1) (np + 1) page_size)
          (page_links edition params skip page_size)
          (if length submissions > 0 then py_slice submissions skip (skip + limit) else []))))))"

text \<open>
  \<^verbatim>\<open>nbrs_models[f"agenda-{edition}"]\<close> and \<^verbatim>\<open>embeddings\<close>: \<^verbatim>\<open>NameError\<close> when
  the module never bound the name, \<^verbatim>\<open>KeyError\<close> when no model was loaded for the
  edition. The arguments are evaluated in the order written: \<^verbatim>\<open>data=embeddings\<close>
  before \<^verbatim>\<open>nbrs_model=...\<close>.
\<close>

definition loaded_embeddings :: "'s env \<Rightarrow> (json, 's) io" where
  "loaded_embeddings U = io_lift (case embeddings U of None \<Rightarrow> Inl NameError | Some d \<Rightarrow> Inr d)"

definition loaded_nbrs_model :: "'s env \<Rightarrow> string \<Rightarrow> (nbrs_model, 's) io" where
  "loaded_nbrs_model U index =
     io_lift (case nbrs_models U of
                None \<Rightarrow> Inl NameError
              | Some ms \<Rightarrow> (case map_of ms index of None \<Rightarrow> Inl KeyError | Some m \<Rightarrow> Inr m))"

text \<open>
  \<^verbatim>\<open>get_abstracts\<close> in two parts. \<open>get_abstracts_page\<close> is the second: what the
  function does once it has the votes of the user, the two page numbers and the
  converted times, from \<^verbatim>\<open>if current_page > n_page\<close> on.
\<close>

definition get_abstracts_page ::
  "'s env \<Rightarrow> string \<Rightarrow> string option \<Rightarrow> string option \<Rightarrow> string option \<Rightarrow> string option \<Rightarrow>
     int \<Rightarrow> int \<Rightarrow> json \<Rightarrow> int \<Rightarrow> int \<Rightarrow> (response option, 's) io" where
  "get_abstracts_page U edition q view starttime endtime skip limit user_preference current_page n_page =
     (let page_size = limit in
      if current_page > n_page then
        io_return (Some (JSONResponse_content
          (JObj [(''meta'', page_meta current_page n_page page_size), (''data'', JList [])])))
      else if view = Some ''default'' then
        io_bind (utils_query_abstracts U q (''agenda-'' @ edition)) (\<lambda>found.
        io_bind (utils_filter_startend_time U found starttime endtime) (\<lambda>submissions.
          io_return (Some (page_response
            (page_meta current_page n_page page_size)
            (page_links edition
               [(''view'', map_option QStr view), (''query'', map_option QStr q),
                (''starttime'', map_option QStr starttime), (''endtime'', map_option QStr endtime)]
               skip page_size)
            (py_slice submissions skip (skip + limit))))))
      else if view = Some ''your-votes'' then
        io_bind (io_lift (py_iter user_preference)) (\<lambda>submission_ids.
        io_bind (io_map (utils_get_abstract U Index (''agenda-'' @ edition)) submission_ids) (\<lambda>submissions.
          view_page edition [(''view'', map_option QStr view)] skip limit submissions))
      else if view = Some ''recommendations'' then
        io_bind (loaded_embeddings U) (\<lambda>data.
        io_bind (loaded_nbrs_model U (''agenda-'' @ edition)) (\<lambda>nbrs_model.
        io_bind (utils_generate_recommendations U user_preference data (''agenda-'' @ edition) nbrs_model) (\<lambda>found.
        io_bind (utils_filter_startend_time U found starttime endtime) (\<lambda>submissions.
          view_page edition
            [(''view'', map_option QStr view),
             (''starttime'', map_option QStr starttime), (''endtime'', map_option QStr endtime)]
            skip limit submissions))))
      else if view = Some ''personalized'' then
        io_bind (loaded_embeddings U) (\<lambda>data.
        io_bind (loaded_nbrs_model U (''agenda-'' @ edition)) (\<lambda>nbrs_model.
        io_bind (utils_generate_personalized_recommendations U user_preference data (''agenda-'' @ edition) nbrs_model) (\<lambda>found.
        io_bind (utils_filter_startend_time U found starttime endtime) (\<lambda>submissions.
          view_page edition
            [(''view'', map_option QStr view),
             (''starttime'', map_option QStr starttime), (''endtime'', map_option QStr endtime)]
            skip limit submissions))))
      else
        io_return (Some (page_response
          (page_meta current_page n_page page_size)
          (page_links edition [(''view'', Some (QStr ''default''))] skip page_size)
          [])))"

text \<open>
  The first part: the votes, the count of the index, \<^verbatim>\<open>current_page = int(skip /
  page_size) + 1\<close> and \<^verbatim>\<open>n_page = int(n_submissions / page_size) + 1\<close>, and the
  conversion of the two times when both are given.
\<close>

definition get_abstracts ::
  "'s env \<Rightarrow> string \<Rightarrow> string option \<Rightarrow> string option \<Rightarrow> string option \<Rightarrow> string option \<Rightarrow>
     int \<Rightarrow> int \<Rightarrow> string option \<Rightarrow> (response option, 's) io" where
  "get_abstracts U edition q view starttime endtime skip limit authorization =
     io_bind (get_abstracts_preference U authorization) (\<lambda>user_preference.
     io_bind (es_count U (''agenda-'' @ edition)) (\<lambda>n_submissions.
     let page_size = limit in
     io_bind (io_lift (py_int_truediv skip page_size)) (\<lambda>p.
     let current_page = p + 1 in
     io_bind (io_lift (py_int_truediv (int n_submissions) page_size)) (\<lambda>np.
     let n_page = np + 1 in
     io_bind
       (case (starttime, endtime) of
          (Some st, Some et) \<Rightarrow>
            io_bind (utils_convert_utc U st) (\<lambda>st'.
            io_bind (utils_convert_utc U et) (\<lambda>et'.
              io_return (Some st', Some et')))
        | _ \<Rightarrow> io_return (starttime, endtime))
       (\<lambda>times.
          get_abstracts_page U edition q view (fst times) (snd times) skip limit
            user_preference current_page n_page)))))"

text \<open>
  The times as \<^verbatim>\<open>get_abstracts\<close> hands them to the views:
  \<^verbatim>\<open>if starttime is not None and endtime is not None\<close>, both are rewritten by
  \<^verbatim>\<open>utils.convert_utc\<close>, the start first.
\<close>

definition converted_times ::
  "'s env \<Rightarrow> string option \<Rightarrow> string option \<Rightarrow> (string option \<times> string option, 's) io" where
  "converted_times U starttime endtime =
     (case (starttime, endtime) of
        (Some st, Some et) \<Rightarrow>
          io_bind (utils_convert_utc U st) (\<lambda>st'.
          io_bind (utils_convert_utc U et) (\<lambda>et'.
            io_return (Some st', Some et')))
      | _ \<Rightarrow> io_return (starttime, endtime))"

subsection \<open>One abstract: get, create, update\<close>

text \<open>
  \<^verbatim>\<open>es_config["editions"][edition].get(key)\<close>, read from the configuration of the
  search cluster; \<^verbatim>\<open>airtable_id\<close> is \<^verbatim>\<open>None\<close> for an edition kept in a CSV file only.
\<close>

definition edition_setting :: "'s env \<Rightarrow> string \<Rightarrow> string \<Rightarrow> (json, 's) io" where
  "edition_setting U edition k =
     io_bind (io_lift (py_getitem (es_config U) ''editions'')) (\<lambda>editions.
     io_bind (io_lift (py_getitem editions edition)) (\<lambda>cfg.
       io_lift (py_dict_get cfg k JNull)))"

definition get_abstract :: "'s env \<Rightarrow> string \<Rightarrow> string \<Rightarrow> (response option, 's) io" where
  "get_abstract U edition submission_id =
     io_bind (edition_setting U edition ''airtable_id'') (\<lambda>base_id.
     io_bind (edition_setting U edition ''table_name'') (\<lambda>table_name.
     io_bind
       (if base_id = JNull then utils_get_abstract U Index (''agenda-'' @ edition) (JStr submission_id)
        else io_bind (table_get U base_id table_name submission_id) (\<lambda>record.
               io_lift (py_dict_get record ''fields'' (JObj []))))
       (\<lambda>abstract.
          let abstract = (if abstract = JNull then JObj [] else abstract) in
          io_return (Some (JSONResponse_content (JObj [(''data'', abstract)]))))))"

text \<open>
  The request body of the two writing handlers, \<^verbatim>\<open>class Submission(BaseModel)\<close>, and
  its \<^verbatim>\<open>.dict()\<close>.
\<close>

record Submission =
  title :: string
  abstract :: string
  fullname :: string
  coauthors :: "string option"
  institution :: "string option"
  talk_format :: "string option"
  arxiv :: "string option"
  available_dt :: "string option"
  starttime :: "string option"
  endtime :: "string option"
  url :: "string option"
  track :: "string option"

text \<open>The defaults of the fields: a submission with nothing filled in.\<close>

definition Submission_default :: Submission where
  "Submission_default =
     \<lparr>title = [], abstract = [], fullname = [], coauthors = None, institution = None,
      talk_format = None, arxiv = None, available_dt = None, starttime = None, endtime = None,
      url = None, track = None\<rparr>"

definition json_opt :: "string option \<Rightarrow> json" where
  "json_opt v = (case v of None \<Rightarrow> JNull | Some s \<Rightarrow> JStr s)"

definition Submission_dict :: "Submission \<Rightarrow> document" where
  "Submission_dict submission =
     [(''title'', JStr (title submission)),
      (''abstract'', JStr (abstract submission)),
      (''fullname'', JStr (fullname submission)),
      (''coauthors'', json_opt (coauthors submission)),
      (''institution'', json_opt (institution submission)),
      (''talk_format'', json_opt (talk_format submission)),
      (''arxiv'', json_opt (arxiv submission)),
      (''available_dt'', json_opt (available_dt submission)),
      (''starttime'', json_opt (starttime submission)),
      (''endtime'', json_opt (endtime submission)),
      (''url'', json_opt (url submission)),
      (''track'', json_opt (track submission))]"

text \<open>
  The request body as \<^verbatim>\<open>create_abstract\<close> hands it to the table store: the dict of
  the submission, with both times rewritten by \<^verbatim>\<open>str(pd.to_datetime(...))\<close> when
  neither is \<^verbatim>\<open>""\<close> or \<^verbatim>\<open>None\<close>.
\<close>

definition dated_submission :: "'s env \<Rightarrow> Submission \<Rightarrow> exn + document" where
  "dated_submission U submission =
     (case (starttime submission, endtime submission) of
        (Some st, Some et) \<Rightarrow>
          if st \<noteq> [] \<and> et \<noteq> [] then
            (case pd_to_datetime U st of
               Inl e \<Rightarrow> Inl e
             | Inr st' \<Rightarrow>
                 (case pd_to_datetime U et of
                    Inl e \<Rightarrow> Inl e
                  | Inr et' \<Rightarrow>
                      Inr (dict_update (Submission_dict submission)
                             [(''starttime'', JStr st'), (''endtime'', JStr et')])))
          else Inr (Submission_dict submission)
      | _ \<Rightarrow> Inr (Submission_dict submission))"

text \<open>
  \<^verbatim>\<open>create_abstract\<close> rewrites both times with \<^verbatim>\<open>str(pd.to_datetime(...))\<close> when
  neither is \<^verbatim>\<open>""\<close> or \<^verbatim>\<open>None\<close>, creates the record in the table store, and only
  then looks at the identity.
\<close>

definition create_abstract ::
  "'s env \<Rightarrow> Submission \<Rightarrow> string \<Rightarrow> string option \<Rightarrow> (response option, 's) io" where
  "create_abstract U submission edition authorization =
     io_bind (get_user_info U authorization) (\<lambda>user_info.
     io_bind
       (case (starttime submission, endtime submission) of
          (Some st, Some et) \<Rightarrow>
            if st \<noteq> [] \<and> et \<noteq> [] then
              io_bind (io_lift (pd_to_datetime U st)) (\<lambda>st'.
              io_bind (io_lift (pd_to_datetime U et)) (\<lambda>et'.
                io_return (dict_update (Submission_dict submission)
                  [(''starttime'', JStr st'), (''endtime'', JStr et')])))
            else io_return (Submission_dict submission)
        | _ \<Rightarrow> io_return (Submission_dict submission))
       (\<lambda>submission.
     io_bind (edition_setting U edition ''airtable_id'') (\<lambda>base_id.
     io_bind (edition_setting U edition ''table_name'') (\<lambda>table_name.
       if base_id = JNull then io_return (Some (JSONResponse_status HTTP_400_BAD_REQUEST))
       else
         io_bind (table_create U base_id table_name submission) (\<lambda>r.
         io_bind (io_lift (py_getitem r ''id'')) (\<lambda>_.
           case user_info of
             Some ui \<Rightarrow>
               (let user_id = map_of ui ''user_id'' in
                io_bind (io_lift (py_getitem r ''id'')) (\<lambda>record_id.
                io_bind (update_data U (JObj [(''submission_id'', record_id)]) user_id (user_collection U)) (\<lambda>_.
                  io_return (Some (JSONResponse_status HTTP_200_OK)))))
           | None \<Rightarrow> io_return (Some (JSONResponse_status HTTP_401_UNAUTHORIZED))))))))"

text \<open>\<^verbatim>\<open>update_abstract\<close> takes no \<^verbatim>\<open>authorization\<close> header.\<close>

definition update_abstract ::
  "'s env \<Rightarrow> string \<Rightarrow> Submission \<Rightarrow> string \<Rightarrow> (response option, 's) io" where
  "update_abstract U submission_id submission edition =
     io_bind (edition_setting U edition ''airtable_id'') (\<lambda>base_id.
     io_bind (edition_setting U edition ''table_name'') (\<lambda>table_name.
       if base_id = JNull then io_return (Some (JSONResponse_status HTTP_400_BAD_REQUEST))
       else
         io_bind (table_update U base_id table_name submission_id (Submission_dict submission)) (\<lambda>r.
         io_bind (io_lift (py_getitem r ''id'')) (\<lambda>_.
           io_return (Some (JSONResponse_status HTTP_200_OK))))))"

section \<open>The document store\<close>

text \<open>
  The store holds, per collection and document id, one document.
\<close>

type_synonym firebase = "string \<times> string \<Rightarrow> document option"

text \<open>
  Modelled from the spec: \<^verbatim>\<open>utils.get_data\<close>, \<^verbatim>\<open>utils.set_data\<close> and
  \<^verbatim>\<open>utils.update_data\<close> are not among the sources. The spec describes a key-value
  document store: a profile is "an unstructured key-value document stored verbatim", a
  preference document is a "per-user mapping from conference edition to a set of
  submission IDs", and a handler is to "fetch/mutate a document in the external store".
  So \<open>fb_get_data\<close> gives the stored document, or \<^verbatim>\<open>None\<close> when there is none, and
  \<open>fb_set_data\<close> stores the document given in place of the old one. \<open>fb_update_data\<close>
  sets the fields given and keeps the others, as its callers need: \<^verbatim>\<open>update_user_votes\<close>
  hands it the list of one edition of a document that holds all editions, and
  \<^verbatim>\<open>create_abstract\<close> the single field \<^verbatim>\<open>submission_id\<close> of a profile. It fails
  with \<^verbatim>\<open>NotFound\<close> when there is no document to update, and both writes fail with
  \<^verbatim>\<open>TypeError\<close> for data that is no dict: the two exceptions that the \<^verbatim>\<open>except\<close>
  clauses of \<^verbatim>\<open>update_user_votes\<close> expect of these calls. A missing document id
  (\<^verbatim>\<open>None\<close>) names no stored document: reading gives \<^verbatim>\<open>None\<close>, \<open>fb_set_data\<close>
  changes no document that an id names, \<open>fb_update_data\<close> finds nothing to update.
\<close>

definition fb_get_data :: "string option \<Rightarrow> string \<Rightarrow> (document option, firebase) io" where
  "fb_get_data document_id collection =
     (\<lambda>s. (Inr (case document_id of None \<Rightarrow> None | Some i \<Rightarrow> s (collection, i)), s))"

text \<open>
  Modelled from the spec: \<^verbatim>\<open>utils.set_data\<close> is not among the sources. The document is
  "stored verbatim", in place of the one the id named before.
\<close>

definition fb_set_data :: "json \<Rightarrow> string option \<Rightarrow> string \<Rightarrow> (unit, firebase) io" where
  "fb_set_data data document_id collection =
     (\<lambda>s. case data of
            JObj d \<Rightarrow>
              (Inr (), case document_id of None \<Rightarrow> s | Some i \<Rightarrow> s((collection, i) \<mapsto> d))
          | _ \<Rightarrow> (Inl TypeError, s))"

text \<open>
  Modelled from the spec: \<^verbatim>\<open>utils.update_data\<close> is not among the sources. It mutates
  the stored document: the fields given are set (\<open>dict_update\<close>), the others stay; a
  document that does not exist is \<^verbatim>\<open>NotFound\<close>.
\<close>

definition fb_update_data :: "json \<Rightarrow> string option \<Rightarrow> string \<Rightarrow> (unit, firebase) io" where
  "fb_update_data data document_id collection =
     (\<lambda>s. case data of
            JObj d \<Rightarrow>
              (case document_id of
                 None \<Rightarrow> (Inl NotFound, s)
               | Some i \<Rightarrow>
                   (case s (collection, i) of
                      None \<Rightarrow> (Inl NotFound, s)
                    | Some old \<Rightarrow> (Inr (), s((collection, i) \<mapsto> dict_update old d))))
          | _ \<Rightarrow> (Inl TypeError, s))"

text \<open>An environment whose store is this one.\<close>

definition firebase_store :: "firebase env \<Rightarrow> bool" where
  "firebase_store U \<longleftrightarrow>
     get_data U = fb_get_data \<and> set_data U = fb_set_data \<and> update_data U = fb_update_data"

subsection \<open>An environment in memory\<close>

text \<open>
  Modelled from the spec: the search helpers of \<^verbatim>\<open>utils\<close> are not among the sources
  either. This is a small environment on which the handlers can be run, with "search
  against Elasticsearch" reduced to a list per index: the store above, an identity
  provider \<open>identity\<close> (from the \<^verbatim>\<open>Authorization\<close> header to the claims of the token),
  and a fixed agenda, per index the submissions with their ids. Its search finds the
  submissions whose title is the query (all of them without a query) and filters
  nothing by time; there are no loaded embeddings, no table store and no mail service
  (\<^verbatim>\<open>SENDGRID_API\<close> holds the default string of the module).
\<close>

definition agenda_index :: "(string \<times> (string \<times> json) list) list \<Rightarrow> string \<Rightarrow> (string \<times> json) list" where
  "agenda_index agenda index = (case map_of agenda index of None \<Rightarrow> [] | Some subs \<Rightarrow> subs)"

definition memory_env ::
  "(string option \<Rightarrow> exn + (string \<times> string) list option) \<Rightarrow>
   (string \<times> (string \<times> json) list) list \<Rightarrow> firebase env" where
  "memory_env identity agenda =
     \<lparr>user_collection = ''users'',
      preference_collection = ''preferences'',
      SENDGRID_API = ''You did not specify Sendgrid API'',
      es_config = JObj [(''editions'',
                    JObj (map (\<lambda>kv. (drop 7 (fst kv), JObj [(''path'', JStr (fst kv))])) agenda))],
      embeddings = None,
      nbrs_models = None,
      get_user_info = (\<lambda>authorization. io_lift (identity authorization)),
      get_data = fb_get_data,
      set_data = fb_set_data,
      update_data = fb_update_data,
      utils_query_affiliations = (\<lambda>q n_results. io_return (JList [])),
      utils_get_abstract = (\<lambda>kw index i.
         io_return (case i of
                      JStr k \<Rightarrow> (case map_of (agenda_index agenda index) k of
                                    None \<Rightarrow> JNull | Some a \<Rightarrow> a)
                    | _ \<Rightarrow> JNull)),
      utils_get_agenda = (\<lambda>index t. io_return (JList (map snd (agenda_index agenda index)))),
      utils_convert_utc = (\<lambda>t. io_return t),
      utils_query_abstracts = (\<lambda>q index.
         io_return (filter (\<lambda>a. case q of
                                  None \<Rightarrow> True
                                | Some t \<Rightarrow> py_getitem a ''title'' = Inr (JStr t))
                      (map snd (agenda_index agenda index)))),
      utils_filter_startend_time = (\<lambda>submissions t1 t2. io_return submissions),
      utils_generate_recommendations = (\<lambda>ids data index model. io_return []),
      utils_generate_personalized_recommendations = (\<lambda>ids data index model. io_return []),
      es_count = (\<lambda>index. io_return (length (agenda_index agenda index))),
      table_get = (\<lambda>base_id table_name i. io_raise (OtherError ''no table store'')),
      table_create = (\<lambda>base_id table_name d. io_raise (OtherError ''no table store'')),
      table_update = (\<lambda>base_id table_name i d. io_raise (OtherError ''no table store'')),
      load_email_content = io_raise (OtherError ''no mail service''),
      sendgrid_post = (\<lambda>data. io_raise (OtherError ''no mail service'')),
      pd_to_datetime = (\<lambda>t. Inr t)\<rparr>"

text \<open>
  An identity provider that knows one token, and an agenda of one edition with two
  submissions, to run the handlers on.
\<close>

definition demo_identity :: "string option \<Rightarrow> exn + (string \<times> string) list option" where
  "demo_identity authorization =
     (if authorization = Some ''Bearer ada''
      then Inr (Some [(''user_id'', ''ada''), (''email'', ''ada@example.org'')])
      else Inr None)"

definition demo_agenda :: "(string \<times> (string \<times> json) list) list" where
  "demo_agenda =
     [(''agenda-2020-1'',
       [(''rec1'', JObj [(''title'', JStr ''Spikes''), (''submission_id'', JStr ''rec1'')]),
        (''rec2'', JObj [(''title'', JStr ''Waves''), (''submission_id'', JStr ''rec2'')])])]"

definition demo_env :: "firebase env" where
  "demo_env = memory_env demo_identity demo_agenda"

text \<open>An identity provider that cannot be reached: every call raises.\<close>

definition failing_identity :: "string option \<Rightarrow> exn + (string \<times> string) list option" where
  "failing_identity authorization = Inl (OtherError ''identity provider unreachable'')"

text \<open>A store in which the user \<open>ada\<close> has voted for nothing yet in the edition 2020-1.\<close>

definition demo_store :: firebase where
  "demo_store = Map.empty((''preferences'', ''ada'') \<mapsto> [(''2020-1'', JList [])])"

text \<open>
  The environment \<open>demo_env\<close> with a table store for the edition 2020-1, kept in the
  same memory: the base \<open>appDemo\<close> with the table \<open>submissions\<close>, where every
  record created gets the id \<open>recNew\<close>.
\<close>

definition table_env :: "firebase env" where
  "table_env =
     demo_env
       \<lparr>es_config :=
          JObj [(''editions'',
            JObj [(''2020-1'', JObj [(''airtable_id'', JStr ''appDemo''),
                                     (''table_name'', JStr ''submissions'')])])],
        table_create := (\<lambda>base_id table_name d s.
          (Inr (JObj [(''id'', JStr ''recNew''), (''fields'', JObj d)]),
           s((''submissions'', ''recNew'') \<mapsto> d)))\<rparr>"

section \<open>The embedding script\<close>

text \<open>
  \<^verbatim>\<open>calculate_embeddings(df, option="lsa")\<close> of \<^verbatim>\<open>scripts/embeddings.py\<close>. Its
  docstring assumes that the dataframe has the columns \<^verbatim>\<open>title\<close> and \<^verbatim>\<open>abstract\<close>
  (and the code reads \<^verbatim>\<open>df.submission_id\<close>), so a dataframe is the list of its rows;
  the empty dataframe is \<open>[]\<close>.
\<close>

record df_row =
  df_submission_id :: string
  df_title :: string
  df_abstract :: string

type_synonym dataframe = "df_row list"

text \<open>One dict \<^verbatim>\<open>{"submission_id": pid, "embedding": list(embedding)}\<close> of the result.\<close>

record paper_embedding =
  submission_id :: string
  embedding :: "real list"

text \<open>
  The work is done by libraries, parameters here: the sentence-embedding model
  (\<^verbatim>\<open>SentenceTransformer(name)\<close>, which downloads it, and \<^verbatim>\<open>model.encode\<close>), and
  \<^verbatim>\<open>fit_transform\<close> of the TF-IDF vectorizer and of the truncated SVD, each with the
  settings the source fixes. Each call may raise.
\<close>

record 'model embedding_libs =
  SentenceTransformer :: "string \<Rightarrow> exn + 'model"
  encode :: "'model \<Rightarrow> string list \<Rightarrow> exn + real list list"
  tfidf_fit_transform :: "string list \<Rightarrow> exn + real list list"
  svd_fit_transform :: "real list list \<Rightarrow> exn + real list list"

text \<open>\<^verbatim>\<open>text.lower()\<close>, on the letters A to Z.\<close>

definition char_lower :: "char \<Rightarrow> char" where
  "char_lower c =
     (let n = (of_char c :: nat) in if 65 \<le> n \<and> n \<le> 90 then char_of (n + 32) else c)"

definition preprocess :: "string \<Rightarrow> string" where
  "preprocess t = map char_lower t"

definition paper_embeddings_of :: "dataframe \<Rightarrow> real list list \<Rightarrow> paper_embedding list" where
  "paper_embeddings_of df vectors =
     map (\<lambda>pe. \<lparr>submission_id = fst pe, embedding = snd pe\<rparr>) (zip (map df_submission_id df) vectors)"

text \<open>
  The result is what the script printed, and the exception raised or the value returned
  (\<open>None\<close> for \<^verbatim>\<open>paper_embeddings = None\<close>).
\<close>

definition calculate_embeddings ::
  "'model embedding_libs \<Rightarrow> dataframe \<Rightarrow> string \<Rightarrow> string list \<times> (exn + paper_embedding list option)" where
  "calculate_embeddings L df option =
     (if option = ''sent_embed'' then
        ([''Download model and produce embedding''],
         case SentenceTransformer L ''allenai-specter'' of
           Inl e \<Rightarrow> Inl e
         | Inr model \<Rightarrow>
             (let papers = map (\<lambda>r. df_title r @ ''[SEP]'' @ df_abstract r) df in
              case encode L model papers of
                Inl e \<Rightarrow> Inl e
              | Inr vectors \<Rightarrow> Inr (Some (paper_embeddings_of df vectors))))
      else if option = ''lsa'' then
        ([],
         let papers = map (\<lambda>r. preprocess (df_title r @ '' '' @ df_abstract r)) df in
         case tfidf_fit_transform L papers of
           Inl e \<Rightarrow> Inl e
         | Inr X_tfidf \<Rightarrow>
             (case svd_fit_transform L X_tfidf of
                Inl e \<Rightarrow> Inl e
              | Inr X_topic \<Rightarrow> Inr (Some (paper_embeddings_of df X_topic))))
      else
        ([''Please specify option as ``lsa`` or ``sent_embed``''], Inr None))"

text \<open>
  Libraries to run the script on: the TF-IDF vectorizer refuses a corpus that leaves it
  with no term (scikit-learn raises \<^verbatim>\<open>ValueError\<close>, "empty vocabulary"), as the empty
  corpus does; every other call gives one vector per paper.
\<close>

definition sklearn_libs :: "unit embedding_libs" where
  "sklearn_libs =
     \<lparr>SentenceTransformer = (\<lambda>name. Inr ()),
      encode = (\<lambda>model papers. Inr (map (\<lambda>p. [real (length p)]) papers)),
      tfidf_fit_transform = (\<lambda>papers.
         if concat papers = [] then Inl ValueError else Inr (map (\<lambda>p. [real (length p)]) papers)),
      svd_fit_transform = (\<lambda>X. Inr X)\<rparr>"

section \<open>The shapes of a response body\<close>

text \<open>
  The keys of the JSON object a response carries, in order (\<open>None\<close> when the content is
  no object). \<open>data_envelope\<close> is \<^verbatim>\<open>{"data": ...}\<close> with status 200;
  \<open>page_envelope\<close> is \<^verbatim>\<open>{"meta": ..., "links": ..., "data": ...}\<close> with status 200,
  or the same without \<^verbatim>\<open>links\<close>; \<open>no_body\<close> is a response given no content.
\<close>

definition body_keys :: "response \<Rightarrow> string list option" where
  "body_keys r = (case content r of JObj kvs \<Rightarrow> Some (map fst kvs) | _ \<Rightarrow> None)"

definition data_envelope :: "response \<Rightarrow> bool" where
  "data_envelope r \<longleftrightarrow> status_code r = 200 \<and> body_keys r = Some [''data'']"

definition page_envelope :: "response \<Rightarrow> bool" where
  "page_envelope r \<longleftrightarrow>
     status_code r = 200 \<and>
     (body_keys r = Some [''meta'', ''links'', ''data''] \<or> body_keys r = Some [''meta'', ''data''])"

definition no_body :: "response \<Rightarrow> bool" where
  "no_body r \<longleftrightarrow> content r = JNull"

text \<open>The value found in a JSON value by following keys.\<close>

fun json_at :: "json \<Rightarrow> string list \<Rightarrow> json option" where
  "json_at v [] = Some v"
| "json_at v (k # ks) =
     (case v of
        JObj kvs \<Rightarrow> (case map_of kvs k of None \<Rightarrow> None | Some w \<Rightarrow> json_at w ks)
      | _ \<Rightarrow> None)"

section \<open>Letting an exception through\<close>

text \<open>
  A computation \<open>h\<close>, started in the state \<open>s\<close>, lets the call \<open>m\<close> through when
  \<open>m\<close> is made in the state \<open>t\<close>: if the call raises, \<open>h\<close> raises the same
  exception, and the outside world is left as the call left it.
\<close>

definition lets_through :: "('a, 's) io \<Rightarrow> 's \<Rightarrow> ('b, 's) io \<Rightarrow> 's \<Rightarrow> bool" where
  "lets_through h s m t \<longleftrightarrow> (\<forall>e t'. m t = (Inl e, t') \<longrightarrow> h s = (Inl e, t'))"

section \<open>Laws of the calls\<close>

lemma io_bind_return [simp]: "io_bind (io_return a) f = f a"
  by (simp add: io_bind_def io_return_def)

lemma io_bind_raise [simp]: "io_bind (io_raise e) f = io_raise e"
  by (simp add: io_bind_def io_raise_def)

lemma io_lift_Inr [simp]: "io_lift (Inr a) = io_return a"
  by (simp add: io_lift_def io_return_def)

lemma io_lift_Inl [simp]: "io_lift (Inl e) = io_raise e"
  by (simp add: io_lift_def io_raise_def)

lemma io_return_apply [simp]: "io_return a s = (Inr a, s)"
  by (simp add: io_return_def)

lemma io_raise_apply [simp]: "io_raise e s = (Inl e, s)"
  by (simp add: io_raise_def)

lemma io_bind_Inr: "m s = (Inr a, s1) \<Longrightarrow> io_bind m f s = f a s1"
  by (simp add: io_bind_def)

lemma io_bind_Inl: "m s = (Inl e, s1) \<Longrightarrow> io_bind m f s = (Inl e, s1)"
  by (simp add: io_bind_def)

lemma io_bind_InrE:
  assumes "io_bind m f s = (Inr r, s')"
  obtains a s1 where "m s = (Inr a, s1)" and "f a s1 = (Inr r, s')"
  using assms by (auto simp: io_bind_def split: prod.splits sum.splits)

lemma io_try_Inr: "m s = (Inr a, s1) \<Longrightarrow> io_try m h s = (Inr a, s1)"
  by (simp add: io_try_def)

lemma io_try_Inl: "m s = (Inl e, s1) \<Longrightarrow> io_try m h s = h e s1"
  by (simp add: io_try_def)

lemma io_try_return [simp]: "io_try (io_return a) h = io_return a"
  by (simp add: io_try_def io_return_def)

lemma io_try_raise [simp]: "io_try (io_raise e) h = h e"
  by (simp add: io_try_def io_raise_def)

section \<open>True division below \<open>2 ^ 53\<close>\<close>

text \<open>
  For a dividend and a divisor below \<open>2 ^ 53\<close> the float nearest to the quotient has
  the quotient's integer part: \<^verbatim>\<open>int(a / b)\<close> is \<open>a div b\<close>. The proof follows
  the rounding: with \<open>k\<close> bits after the binary point in the last place, rounding up
  reaches the next integer only if \<open>2 ^ (k + 1) \<le> b\<close>, which the size of \<open>b\<close>
  excludes.
\<close>

lemma bit_length_bounds: "0 < n \<Longrightarrow> 2 ^ (bit_length n - 1) \<le> n \<and> n < 2 ^ bit_length n"
proof (induction n rule: bit_length.induct)
  case (1 n)
  show ?case
  proof (cases "n div 2 = 0")
    case True
    with "1.prems" have "n = 1" by auto
    then show ?thesis by (simp add: bit_length.simps)
  next
    case False
    then have pos: "0 < n div 2" by simp
    from "1.IH" [OF _ pos] "1.prems"
    have ih: "2 ^ (bit_length (n div 2) - 1) \<le> n div 2" "n div 2 < 2 ^ bit_length (n div 2)"
      by auto
    have bl: "bit_length n = Suc (bit_length (n div 2))"
      using "1.prems" by (subst bit_length.simps) simp
    have blpos: "0 < bit_length (n div 2)"
      using pos by (subst bit_length.simps) simp
    define P where "P = (2::nat) ^ (bit_length (n div 2) - 1)"
    have p1: "(2::nat) ^ bit_length (n div 2) = 2 * P"
      using blpos unfolding P_def by (cases "bit_length (n div 2)") auto
    have "P \<le> n div 2" "n div 2 < 2 * P"
      using ih p1 by (simp_all add: P_def)
    then have "2 * P \<le> n" "n < 4 * P" by arith+
    moreover have "(2::nat) ^ (bit_length n - 1) = 2 * P" "(2::nat) ^ bit_length n = 4 * P"
      using bl p1 by simp_all
    ultimately show ?thesis by simp
  qed
qed

lemma round_half_even_div_cases:
  "round_half_even_div n d = n div d \<or> (round_half_even_div n d = n div d + 1 \<and> d \<le> 2 * (n mod d))"
  by (auto simp: round_half_even_div_def Let_def)

lemma round_div_core:
  assumes b: "0 < b" and bk: "b < 2 ^ Suc k"
  shows "round_half_even_div (a * 2 ^ k) b div 2 ^ k = a div b"
proof -
  let ?N = "a * 2 ^ k"
  have q: "(?N div b) div 2 ^ k = a div b"
    by (metis div_mult2_eq div_mult_mult2 lessI less_nat_zero_code
    numeral_2_eq_2 power_gt_expt)
  define Q where "Q = a div b"
  define q where "q = ?N div b"
  define r where "r = ?N mod b"
  have N: "?N = q * b + r" and rb: "r < b" using b by (simp_all add: q_def r_def)
  have aQ: "a < (Q + 1) * b" using b unfolding Q_def
    using dividend_less_div_times by force
  have qQ: "q div 2 ^ k = Q" using q by (simp add: q_def Q_def)
  show ?thesis
  proof (cases "round_half_even_div ?N b = q")
    case True
    then show ?thesis using qQ Q_def by simp
  next
    case False
    then have up: "round_half_even_div ?N b = q + 1" and half: "b \<le> 2 * r"
      using round_half_even_div_cases [of ?N b] by (auto simp: q_def r_def)
    define K where "K = (2::nat) ^ k"
    have bK: "b < 2 * K" using bk by (simp add: K_def)
    have NK: "a * K = q * b + r" using N by (simp add: K_def)
    have "q + 1 < (Q + 1) * K"
    proof (rule ccontr)
      assume "\<not> q + 1 < (Q + 1) * K"
      then have "(Q + 1) * K \<le> q + 1" by simp
      then have "(Q + 1) * K * b \<le> (q + 1) * b" by (rule mult_le_mono1)
      then have "(Q + 1) * b * K \<le> (q + 1) * b" by (simp only: mult_ac)
      moreover have "(a + 1) * K \<le> (Q + 1) * b * K"
        using aQ by (intro mult_le_mono1) simp
      ultimately have "(a + 1) * K \<le> (q + 1) * b" by (rule order_trans [rotated])
      then have "a * K + K \<le> q * b + b" by (simp add: algebra_simps)
      with NK have "r + K \<le> b" by simp
      with half bK show False by arith
    qed
    moreover have "Q * K \<le> q + 1"
      using div_times_less_eq_dividend qQ trans_le_add1 unfolding K_def by blast
    ultimately have "(q + 1) div K = Q"
      by (intro div_nat_eqI) (simp_all add: mult_ac)
    then have "(q + 1) div 2 ^ k = Q" by (simp add: K_def)
    with up show ?thesis by (simp add: Q_def)
  qed
qed


lemma quotient_exponent_bounds:
  assumes a: "0 < a" and b: "0 < b" and a53: "a < 2 ^ 53" and b53: "b < 2 ^ 53"
  shows "- 53 \<le> quotient_exponent a b"
    and "quotient_exponent a b \<le> 52"
    and "0 \<le> quotient_exponent a b \<Longrightarrow> b * 2 ^ nat (quotient_exponent a b) \<le> a"
proof -
  define la where "la = bit_length a"
  define lb where "lb = bit_length b"
  have A: "2 ^ (la - 1) \<le> a" "a < 2 ^ la" and B: "2 ^ (lb - 1) \<le> b" "b < 2 ^ lb"
    using bit_length_bounds [OF a] bit_length_bounds [OF b] by (simp_all add: la_def lb_def)
  have la_pos: "0 < la" using a A(2) by (cases la) auto
  have lb_pos: "0 < lb" using b B(2) by (cases lb) auto
  have "(2::nat) ^ (la - 1) < 2 ^ 53" using A(1) a53 by (rule le_less_trans)
  then have "la - 1 < 53" by (rule power_less_imp_less_exp [rotated]) simp
  then have la53: "la \<le> 53" by simp
  have "(2::nat) ^ (lb - 1) < 2 ^ 53" using B(1) b53 by (rule le_less_trans)
  then have "lb - 1 < 53" by (rule power_less_imp_less_exp [rotated]) simp
  then have lb53: "lb \<le> 53" by simp
  define d where "d = int la - int lb"
  have e_cases: "quotient_exponent a b = d \<or> quotient_exponent a b = d - 1"
    by (simp add: quotient_exponent_def Let_def d_def la_def lb_def)
  show "- 53 \<le> quotient_exponent a b"
    using e_cases la_pos lb53 by (auto simp: d_def)
  show "quotient_exponent a b \<le> 52"
    using e_cases la53 lb_pos by (auto simp: d_def)
  show "b * 2 ^ nat (quotient_exponent a b) \<le> a" if nonneg: "0 \<le> quotient_exponent a b"
  proof (cases "quotient_exponent a b = d")
    case True
    with nonneg have "0 \<le> d" by simp
    with True show ?thesis
      by (simp add: quotient_exponent_def Let_def d_def la_def lb_def split: if_splits)
  next
    case False
    with e_cases have e: "quotient_exponent a b = d - 1" by simp
    with nonneg have d1: "1 \<le> d" by simp
    then have n: "nat (d - 1) + lb = la - 1" by (simp add: d_def)
    have "b * 2 ^ nat (d - 1) < 2 ^ lb * 2 ^ nat (d - 1)"
      using B(2) by simp
    also have "\<dots> = 2 ^ (la - 1)"
      using n by (simp add: power_add [symmetric] add.commute)
    finally show ?thesis using A(1) e by simp
  qed
qed

lemma truediv_nat_exact:
  assumes b: "0 < b" and a53: "a < 2 ^ 53" and b53: "b < 2 ^ 53"
  shows "\<exists>f. truediv_nat a b = Inr f \<and> int_of_float f = a div b"
proof (cases "a = 0")
  case True
  then show ?thesis by (simp add: truediv_nat_def int_of_float_def)
next
  case False
  then have a: "0 < a" by simp
  define e where "e = quotient_exponent a b"
  note eb = quotient_exponent_bounds [OF a b a53 b53, folded e_def]
  define k where "k = nat (52 - e)"
  have x: "max e (- 1022) - 52 = - int k" using eb(1,2) by (simp add: k_def)
  have bk: "b < 2 ^ Suc k"
  proof (cases "0 \<le> e")
    case True
    then have "b * 2 ^ nat e \<le> a" by (rule eb(3))
    then have "b * 2 ^ nat e < 2 ^ 53" using a53 by (rule le_less_trans)
    moreover have "Suc k + nat e = 53" using True eb(2) by (simp add: k_def)
    then have "(2::nat) ^ 53 = 2 ^ Suc k * 2 ^ nat e"
      by (simp only: power_add [symmetric])
    ultimately have "b * 2 ^ nat e < 2 ^ Suc k * 2 ^ nat e" by (simp only:)
    then show ?thesis by (simp only: mult_less_cancel2)
  next
    case False
    then have "53 \<le> Suc k" by (simp add: k_def)
    then have "(2::nat) ^ 53 \<le> 2 ^ Suc k" by (intro power_increasing) simp_all
    with b53 show ?thesis by (rule less_le_trans)
  qed
  define m where "m = round_half_even_div (a * 2 ^ k) b"
  have core: "m div 2 ^ k = a div b"
    unfolding m_def by (rule round_div_core [OF b bk])
  have small: "a div b < 2 ^ 53" using a53 by (meson div_le_dividend le_less_trans)
  have td: "truediv_nat a b =
      (if 0 \<le> - int k \<and> 2 ^ 1024 \<le> m * 2 ^ nat (- int k) then Inl OverflowError else Inr (m, - int k))"
  proof -
    have nk: "nat (- (- int k)) = k" "(- int k \<le> 0) = True" by simp_all
    show ?thesis
      unfolding truediv_nat_def Let_def e_def [symmetric] x m_def nk
      using False by (simp only: if_False if_True)
  qed
  show ?thesis
  proof (cases "k = 0")
    case True
    with core have "m = a div b" by simp
    moreover have "(2::nat) ^ 53 \<le> 2 ^ 1024" by (intro power_increasing) simp_all
    ultimately have "m < 2 ^ 1024" using small by (simp only: less_le_trans)
    then have "\<not> 2 ^ 1024 \<le> m * 2 ^ nat (- int k)" using True by (simp add: not_le del: power_numeral)
    with td have "truediv_nat a b = Inr (m, - int k)" by (simp only: simp_thms if_False)
    with True \<open>m = a div b\<close> show ?thesis by (simp add: int_of_float_def)
  next
    case False
    then have "\<not> 0 \<le> - int k" by simp
    with td have "truediv_nat a b = Inr (m, - int k)" by (simp only: simp_thms if_False)
    with False core show ?thesis by (simp add: int_of_float_def)
  qed
qed


lemma py_int_truediv_exact:
  assumes "0 \<le> a" and "0 < b" and "a < 2 ^ 53" and "b < 2 ^ 53"
  shows "py_int_truediv a b = Inr (a div b)"
proof -
  have "nat a < 2 ^ 53" "nat b < 2 ^ 53" "0 < nat b"
    using assms by (simp_all add: nat_less_iff)
  from truediv_nat_exact [OF this(3,1,2)]
  obtain f where "truediv_nat (nat a) (nat b) = Inr f" "int_of_float f = nat a div nat b"
    by blast
  then show ?thesis
    using assms by (simp add: py_int_truediv_def zdiv_int nat_div_distrib)
qed

section \<open>Running the handlers in memory\<close>

text \<open>The equations that evaluate a handler on the environment in memory.\<close>

lemmas io_eval = io_bind_def io_try_def io_lift_def

lemmas env_eval = demo_env_def memory_env_def demo_identity_def demo_agenda_def agenda_index_def
  fb_get_data_def fb_set_data_def fb_update_data_def

lemmas py_eval = py_getitem_def py_dict_get_def py_iter_def py_add_def py_sub_def py_num_def
  py_list_set_def hashable_def py_key_def py_slice_def dict_update_def

lemmas page_eval = page_meta_def page_links_def page_response_def view_page_def
  query_params_builder_def str_int_def digits.simps digit_char_def
  JSONResponse_content_def JSONResponse_status_def

lemmas truediv_eval = py_int_truediv_def truediv_nat_def quotient_exponent_def bit_length.simps
  round_half_even_div_def int_of_float_def Let_def

lemma demo_identity_ada:
  "get_user_info demo_env (Some ''Bearer ada'') s
     = (Inr (Some [(''user_id'', ''ada''), (''email'', ''ada@example.org'')]), s)"
  by (simp add: demo_env_def memory_env_def demo_identity_def)

lemma demo_identity_none: "get_user_info demo_env None s = (Inr None, s)"
  by (simp add: demo_env_def memory_env_def demo_identity_def)

lemma demo_env_store [simp]:
  "get_data demo_env = fb_get_data" "set_data demo_env = fb_set_data"
  "update_data demo_env = fb_update_data"
  "user_collection demo_env = ''users''" "preference_collection demo_env = ''preferences''"
  by (simp_all add: demo_env_def memory_env_def)

lemma demo_env_firebase_store: "firebase_store demo_env"
  by (simp add: firebase_store_def)

section \<open>Lists without repetitions, and the difference of lists\<close>

lemma py_dedup_subset: "set (py_dedup seen xs) \<subseteq> set xs"
  by (induction xs arbitrary: seen) auto

lemma py_dedup_set:
  "\<forall>v \<in> set xs. py_key v = v \<Longrightarrow> set (py_dedup seen xs) = set xs - set seen"
  by (induction xs arbitrary: seen) auto

lemma py_dedup_distinct:
  "\<forall>v \<in> set xs. py_key v = v \<Longrightarrow> distinct (py_dedup seen xs)"
proof (induction xs arbitrary: seen)
  case Nil
  show ?case by simp
next
  case (Cons x xs)
  then have "set (py_dedup (py_key x # seen) xs) = set xs - set (py_key x # seen)"
    by (intro py_dedup_set) simp
  with Cons show ?case by auto
qed

lemma py_key_JStr [simp]: "py_key (JStr t) = JStr t"
  by (simp add: py_key_def)

lemma hashable_JStr [simp]: "hashable (JStr t)"
  by (simp add: hashable_def)

lemma py_list_set_strings:
  "\<exists>l. py_list_set (JList (map JStr ids)) = Inr l \<and> set l = JStr ` set ids \<and> distinct l"
proof -
  have k: "\<forall>v \<in> set (map JStr ids). py_key v = v" by auto
  have "py_list_set (JList (map JStr ids)) = Inr (py_dedup [] (map JStr ids))"
    by (simp add: py_list_set_def py_iter_def list_all_iff)
  moreover have "set (py_dedup [] (map JStr ids)) = JStr ` set ids"
    using py_dedup_set [OF k, of "[]"] by simp
  moreover have "distinct (py_dedup [] (map JStr ids))"
    using py_dedup_distinct [OF k] .
  ultimately show ?thesis by blast
qed

lemma map_of_AList_update_same: "map_of (AList.update k v al) k = Some v"
  by (simp add: update_conv')

lemma py_sub_list [simp]: "py_sub v (JList ys) = Inl TypeError"
  by (simp add: py_sub_def py_num_def split: json.splits option.splits)




section \<open>The body \<^verbatim>\<open>create_abstract\<close> stores\<close>

text \<open>
  The rewriting of the two times in \<^verbatim>\<open>create_abstract\<close> is \<open>dated_submission\<close>: the
  handler reads the identity, computes the body to store, reads the two settings of the
  edition, and goes on as written.
\<close>

lemma create_abstract_dated:
  "create_abstract U sub ed a =
     io_bind (get_user_info U a) (\<lambda>user_info.
     io_bind (io_lift (dated_submission U sub)) (\<lambda>submission.
     io_bind (edition_setting U ed ''airtable_id'') (\<lambda>base_id.
     io_bind (edition_setting U ed ''table_name'') (\<lambda>table_name.
       if base_id = JNull then io_return (Some (JSONResponse_status HTTP_400_BAD_REQUEST))
       else
         io_bind (table_create U base_id table_name submission) (\<lambda>r.
         io_bind (io_lift (py_getitem r ''id'')) (\<lambda>_.
           case user_info of
             Some ui \<Rightarrow>
               (let user_id = map_of ui ''user_id'' in
                io_bind (io_lift (py_getitem r ''id'')) (\<lambda>record_id.
                io_bind (update_data U (JObj [(''submission_id'', record_id)]) user_id (user_collection U)) (\<lambda>_.
                  io_return (Some (JSONResponse_status HTTP_200_OK)))))
           | None \<Rightarrow> io_return (Some (JSONResponse_status HTTP_401_UNAUTHORIZED))))))))"
proof -
  have "(case (starttime sub, endtime sub) of
          (Some st, Some et) \<Rightarrow>
            if st \<noteq> [] \<and> et \<noteq> [] then
              io_bind (io_lift (pd_to_datetime U st)) (\<lambda>st'.
              io_bind (io_lift (pd_to_datetime U et)) (\<lambda>et'.
                io_return (dict_update (Submission_dict sub)
                  [(''starttime'', JStr st'), (''endtime'', JStr et')])))
            else io_return (Submission_dict sub)
        | _ \<Rightarrow> io_return (Submission_dict sub)) = (io_lift (dated_submission U sub) :: (document, 'a) io)"
    by (auto simp: dated_submission_def fun_eq_iff io_bind_def io_lift_def split: option.splits sum.splits)
  then show ?thesis by (simp add: create_abstract_def)
qed

section \<open>The responses of each handler\<close>

lemmas shape_defs = data_envelope_def page_envelope_def no_body_def body_keys_def
  JSONResponse_content_def JSONResponse_status_def

lemma get_affiliations_shape:
  "get_affiliations U q n s = (Inr (Some r), s') \<Longrightarrow> data_envelope r"
  by (auto simp: get_affiliations_def Let_def shape_defs elim!: io_bind_InrE)

lemma get_agenda_shape:
  "get_agenda U ed t s = (Inr (Some r), s') \<Longrightarrow> data_envelope r"
  by (auto simp: get_agenda_def Let_def shape_defs elim!: io_bind_InrE)

lemma get_abstract_shape:
  "get_abstract U ed x s = (Inr (Some r), s') \<Longrightarrow> data_envelope r"
  by (auto simp: get_abstract_def Let_def shape_defs elim!: io_bind_InrE)

lemma get_user_shape:
  "get_user U a s = (Inr (Some r), s') \<Longrightarrow> data_envelope r \<or> r = JSONResponse_status 401"
  by (auto simp: get_user_def Let_def shape_defs elim!: io_bind_InrE split: option.splits)

lemma get_user_votes_all_shape:
  "get_user_votes_all U a s = (Inr (Some r), s') \<Longrightarrow> data_envelope r \<or> r = JSONResponse_status 401"
  by (auto simp: get_user_votes_all_def Let_def shape_defs elim!: io_bind_InrE split: option.splits)

lemma get_user_votes_shape:
  "get_user_votes U ed a s = (Inr (Some r), s') \<Longrightarrow> data_envelope r \<or> r = JSONResponse_status 401"
  by (auto simp: get_user_votes_def Let_def shape_defs elim!: io_bind_InrE split: option.splits)

lemma create_user_shape:
  "create_user U d a s = (Inr (Some r), s') \<Longrightarrow> r = JSONResponse_status 401"
  by (auto simp: create_user_def Let_def elim!: io_bind_InrE split: option.splits)

lemma update_user_shape:
  "update_user U d a s = (Inr (Some r), s') \<Longrightarrow> r = JSONResponse_status 401"
  by (auto simp: update_user_def Let_def elim!: io_bind_InrE split: option.splits)

lemma io_try_store_error_shape:
  "io_try (io_bind m (\<lambda>_. io_return None)) store_error_404 s = (Inr (Some r), s')
     \<Longrightarrow> r = JSONResponse_status 404"
  by (auto simp: io_try_def io_bind_def store_error_404_def split: prod.splits sum.splits if_splits)

lemma update_user_votes_shape:
  "update_user_votes U ed x act a s = (Inr (Some r), s') \<Longrightarrow>
     r = JSONResponse_status 401 \<or> r = JSONResponse_status 404 \<or> r = JSONResponse_status 400"
  by (auto simp: update_user_votes_def Let_def elim!: io_bind_InrE dest!: io_try_store_error_shape
        split: option.splits if_splits)

lemma send_confirmation_email_shape:
  "send_confirmation_email U t a s = (Inr (Some r), s') \<Longrightarrow> no_body r"
  by (auto simp: send_confirmation_email_def Let_def shape_defs elim!: io_bind_InrE
        split: option.splits if_splits)

lemma view_page_shape:
  "view_page ed ps skip limit subs s = (Inr (Some r), s') \<Longrightarrow> page_envelope r"
  by (auto simp: view_page_def Let_def page_response_def shape_defs elim!: io_bind_InrE)

lemma get_abstracts_shape:
  "get_abstracts U ed q v t1 t2 skip limit a s = (Inr (Some r), s') \<Longrightarrow> page_envelope r"
  unfolding get_abstracts_def get_abstracts_page_def Let_def
  by (elim io_bind_InrE) (auto simp: page_response_def shape_defs dest!: view_page_shape elim!: io_bind_InrE split: if_splits)

lemma create_abstract_shape:
  "create_abstract U sub ed a s = (Inr (Some r), s') \<Longrightarrow>
     r = JSONResponse_status 400 \<or> r = JSONResponse_status 200 \<or> r = JSONResponse_status 401"
  by (auto simp: create_abstract_def Let_def elim!: io_bind_InrE split: option.splits if_splits)

lemma update_abstract_shape:
  "update_abstract U x sub ed s = (Inr (Some r), s') \<Longrightarrow>
     r = JSONResponse_status 400 \<or> r = JSONResponse_status 200"
  by (auto simp: update_abstract_def elim!: io_bind_InrE split: if_splits)

section \<open>Withdrawing a vote\<close>

text \<open>
  The dislike branch of \<^verbatim>\<open>update_user_votes\<close> computes
  \<^verbatim>\<open>current_pref - [submission_id]\<close>. Whatever the store holds for the edition, the
  right operand is a list, on which Python defines no \<^verbatim>\<open>-\<close>; the statement stands
  outside the \<^verbatim>\<open>try\<close>, so the \<^verbatim>\<open>TypeError\<close> leaves the handler before the store is
  written.
\<close>

lemma dislike_raises_TypeError:
  assumes "get_user_info U a s = (Inr (Some ui), s1)"
      and "map_of ui ''user_id'' = Some uid"
      and "get_data U (Some uid) (preference_collection U) s1 = (Inr (Some pref), s2)"
      and "map_of pref ed = Some v"
  shows "update_user_votes U ed x (Some ''dislike'') a s = (Inl TypeError, s2)"
  using assms
  by (simp add: update_user_votes_def Let_def io_bind_def py_getitem_def)

text \<open>
  C1 on the code. The user \<open>ada\<close> likes the submission \<open>rec1\<close> of the edition 2020-1,
  which stores it, and then dislikes it: the handler raises \<^verbatim>\<open>TypeError\<close> and the
  stored list still holds \<open>rec1\<close>.
\<close>

theorem dislike_after_like_keeps_the_vote:
  "update_user_votes demo_env ''2020-1'' ''rec1'' (Some ''like'') (Some ''Bearer ada'') demo_store
     = (Inr None, demo_store((''preferences'', ''ada'') \<mapsto> [(''2020-1'', JList [JStr ''rec1''])]))
   \<and> update_user_votes demo_env ''2020-1'' ''rec1'' (Some ''dislike'') (Some ''Bearer ada'')
        (demo_store((''preferences'', ''ada'') \<mapsto> [(''2020-1'', JList [JStr ''rec1''])]))
     = (Inl TypeError, demo_store((''preferences'', ''ada'') \<mapsto> [(''2020-1'', JList [JStr ''rec1''])]))"
  by (simp add: update_user_votes_def Let_def demo_store_def store_error_404_def env_eval py_eval io_eval)

section \<open>Embeddings of an empty table, or by an unknown option\<close>

text \<open>
  C2, as the code has it. With an option other than \<^verbatim>\<open>sent_embed\<close> and \<^verbatim>\<open>lsa\<close>,
  \<^verbatim>\<open>calculate_embeddings\<close> prints its message and returns \<^verbatim>\<open>None\<close>, whatever the
  dataframe, and calls no library. With one of the two options it has no guard for an
  empty dataframe: it hands the empty list of papers to the libraries, returns the
  empty list when they return, and raises what they raise.
\<close>

theorem calculate_embeddings_results:
  "(opt \<noteq> ''sent_embed'' \<and> opt \<noteq> ''lsa'' \<longrightarrow>
      calculate_embeddings L df opt
        = ([''Please specify option as ``lsa`` or ``sent_embed``''], Inr None))
   \<and> (tfidf_fit_transform L [] = Inl e \<longrightarrow> snd (calculate_embeddings L [] ''lsa'') = Inl e)
   \<and> (tfidf_fit_transform L [] = Inr X \<and> svd_fit_transform L X = Inl e \<longrightarrow>
        snd (calculate_embeddings L [] ''lsa'') = Inl e)
   \<and> (tfidf_fit_transform L [] = Inr X \<and> svd_fit_transform L X = Inr T \<longrightarrow>
        snd (calculate_embeddings L [] ''lsa'') = Inr (Some []))
   \<and> (SentenceTransformer L ''allenai-specter'' = Inl e \<longrightarrow>
        snd (calculate_embeddings L [] ''sent_embed'') = Inl e)
   \<and> (SentenceTransformer L ''allenai-specter'' = Inr m \<and> encode L m [] = Inl e \<longrightarrow>
        snd (calculate_embeddings L [] ''sent_embed'') = Inl e)
   \<and> (SentenceTransformer L ''allenai-specter'' = Inr m \<and> encode L m [] = Inr T \<longrightarrow>
        snd (calculate_embeddings L [] ''sent_embed'') = Inr (Some []))"
  by (simp add: calculate_embeddings_def paper_embeddings_of_def)

text \<open>The theorem at the empty dataframe, with an unknown option and with \<^verbatim>\<open>sent_embed\<close>.\<close>

theorem calculate_embeddings_results_witness:
  "calculate_embeddings sklearn_libs [] ''tfidf''
     = ([''Please specify option as ``lsa`` or ``sent_embed``''], Inr None)
   \<and> snd (calculate_embeddings sklearn_libs [] ''sent_embed'') = Inr (Some [])"
  using calculate_embeddings_results
      [where opt = "''tfidf''" and L = sklearn_libs and df = "[]" and m = "()" and T = "[]"]
  by (simp add: sklearn_libs_def)

text \<open>
  C2 as stated fails for the empty dataframe: with the default option \<^verbatim>\<open>lsa\<close> the
  TF-IDF vectorizer is fitted to an empty corpus, and its \<^verbatim>\<open>ValueError\<close> comes out
  of \<^verbatim>\<open>calculate_embeddings\<close>.
\<close>

theorem empty_dataframe_raises:
  "calculate_embeddings sklearn_libs [] ''lsa'' = ([], Inl ValueError)"
  by (simp add: calculate_embeddings_def sklearn_libs_def)

section \<open>The pages of the abstracts\<close>

text \<open>
  A run of \<^verbatim>\<open>get_abstracts\<close> that ends in a response has read the votes, counted the
  index and computed both page numbers, and then ran \<open>get_abstracts_page\<close>, every
  branch of which reports \<^verbatim>\<open>int(skip / page_size) + 1\<close> as the current page.
\<close>

lemma py_slice_beyond: "0 \<le> i \<Longrightarrow> int (length xs) \<le> i \<Longrightarrow> py_slice xs i j = []"
  by (simp add: py_slice_def Let_def min_def)

lemma py_slice_Nil [simp]: "py_slice [] i j = []"
  by (simp add: py_slice_def Let_def)

lemma io_lift_InrE:
  assumes "io_lift x s = (Inr r, s')"
  obtains "x = Inr r" and "s' = s"
  using assms by (simp add: io_lift_def)

lemma view_page_current:
  assumes "view_page ed ps skip limit subs s = (Inr (Some r), s')"
  shows "\<exists>p. py_int_truediv skip limit = Inr p
           \<and> json_at (content r) [''meta'', ''currentPage''] = Some (JInt (p + 1))"
  using assms
  by (auto simp: view_page_def Let_def page_response_def page_meta_def JSONResponse_content_def
        elim!: io_bind_InrE io_lift_InrE)

lemma get_abstracts_page_current:
  assumes run: "get_abstracts_page U ed q v t1 t2 skip limit up (p + 1) np s = (Inr (Some r), s')"
      and p: "py_int_truediv skip limit = Inr p"
  shows "json_at (content r) [''meta'', ''currentPage''] = Some (JInt (p + 1))"
  using run view_page_current [of ed _ skip limit _ _ r s'] p
  unfolding get_abstracts_page_def Let_def
  by (auto simp: page_response_def page_meta_def JSONResponse_content_def
        elim!: io_bind_InrE split: if_splits)

text \<open>
  The run, step by step: with the votes read, the index counted and the times
  converted, the response is that of \<open>get_abstracts_page\<close>, started where the
  conversion of the times ended.
\<close>

lemma get_abstracts_steps:
  assumes run: "get_abstracts U ed q v t1 t2 skip limit a s = (Inr (Some r), s')"
      and pref: "get_abstracts_preference U a s = (Inr up, sA)"
      and cnt: "es_count U (''agenda-'' @ ed) sA = (Inr n, sB)"
      and conv: "converted_times U t1 t2 sB = (Inr tm, sE)"
  obtains p np
    where "py_int_truediv skip limit = Inr p"
      and "py_int_truediv (int n) limit = Inr np"
      and "get_abstracts_page U ed q v (fst tm) (snd tm) skip limit up (p + 1) (np + 1) sE
             = (Inr (Some r), s')"
proof -
  from run pref cnt
  have "io_bind (io_lift (py_int_truediv skip limit)) (\<lambda>p.
          io_bind (io_lift (py_int_truediv (int n) limit)) (\<lambda>np.
            io_bind (converted_times U t1 t2) (\<lambda>tm.
              get_abstracts_page U ed q v (fst tm) (snd tm) skip limit up (p + 1) (np + 1)))) sB
        = (Inr (Some r), s')"
    by (simp add: get_abstracts_def converted_times_def Let_def io_bind_Inr)
  then obtain p sC
    where p: "io_lift (py_int_truediv skip limit) sB = (Inr p, sC)"
      and r1: "io_bind (io_lift (py_int_truediv (int n) limit)) (\<lambda>np.
            io_bind (converted_times U t1 t2) (\<lambda>tm.
              get_abstracts_page U ed q v (fst tm) (snd tm) skip limit up (p + 1) (np + 1))) sC
            = (Inr (Some r), s')"
    by (rule io_bind_InrE) blast
  from r1 obtain np sD
    where np: "io_lift (py_int_truediv (int n) limit) sC = (Inr np, sD)"
      and rest: "io_bind (converted_times U t1 t2) (\<lambda>tm.
              get_abstracts_page U ed q v (fst tm) (snd tm) skip limit up (p + 1) (np + 1)) sD
            = (Inr (Some r), s')"
    by (rule io_bind_InrE) blast
  from p have p': "py_int_truediv skip limit = Inr p" "sC = sB" by (auto elim: io_lift_InrE)
  from np have np': "py_int_truediv (int n) limit = Inr np" "sD = sC" by (auto elim: io_lift_InrE)
  from rest conv p'(2) np'(2)
  have "get_abstracts_page U ed q v (fst tm) (snd tm) skip limit up (p + 1) (np + 1) sE
          = (Inr (Some r), s')"
    by (simp add: io_bind_Inr)
  with p'(1) np'(1) show ?thesis by (rule that)
qed

text \<open>
  The data of the response, branch by branch. Past the last page it is empty, for every
  view; so it is for a view the function does not know. Otherwise it is the slice
  \<^verbatim>\<open>[skip : skip + limit]\<close> of a list: in the default view, of the submissions that
  the search of this request found; in the three other views, of the list of the view.
\<close>

lemma view_page_data:
  assumes "view_page ed ps skip limit subs s = (Inr (Some r), s')"
  shows "json_at (content r) [''data''] = Some (JList (py_slice subs skip (skip + limit)))"
    and "s' = s"
  using assms
  by (auto simp: view_page_def Let_def page_response_def JSONResponse_content_def
        elim!: io_bind_InrE io_lift_InrE)

lemma page_data_past_last:
  assumes "get_abstracts_page U ed q v t1 t2 skip limit up cp np s = (Inr (Some r), s')"
      and "np < cp"
  shows "json_at (content r) [''data''] = Some (JList [])"
  using assms by (auto simp: get_abstracts_page_def JSONResponse_content_def)

lemma page_data_unknown_view:
  assumes "get_abstracts_page U ed q v t1 t2 skip limit up cp np s = (Inr (Some r), s')"
      and "v \<noteq> Some ''default''" "v \<noteq> Some ''your-votes''"
      and "v \<noteq> Some ''recommendations''" "v \<noteq> Some ''personalized''"
  shows "json_at (content r) [''data''] = Some (JList [])"
  using assms
  by (auto simp: get_abstracts_page_def Let_def page_response_def JSONResponse_content_def
        split: if_splits)

lemma page_data_default:
  assumes "get_abstracts_page U ed q (Some ''default'') t1 t2 skip limit up cp np s = (Inr (Some r), s')"
      and "\<not> np < cp"
  shows "\<exists>found s3 subs.
           utils_query_abstracts U q (''agenda-'' @ ed) s = (Inr found, s3)
         \<and> utils_filter_startend_time U found t1 t2 s3 = (Inr subs, s')
         \<and> json_at (content r) [''data''] = Some (JList (py_slice subs skip (skip + limit)))"
  using assms
  by (auto simp: get_abstracts_page_def Let_def page_response_def JSONResponse_content_def
        elim!: io_bind_InrE)

lemma page_data_your_votes:
  assumes "get_abstracts_page U ed q (Some ''your-votes'') t1 t2 skip limit up cp np s = (Inr (Some r), s')"
      and "\<not> np < cp"
  shows "\<exists>ids subs.
           py_iter up = Inr ids
         \<and> io_map (utils_get_abstract U Index (''agenda-'' @ ed)) ids s = (Inr subs, s')
         \<and> json_at (content r) [''data''] = Some (JList (py_slice subs skip (skip + limit)))"
proof -
  from assms obtain ids subs s2 ps
    where i: "py_iter up = Inr ids"
      and m: "io_map (utils_get_abstract U Index (''agenda-'' @ ed)) ids s = (Inr subs, s2)"
      and vp: "view_page ed ps skip limit subs s2 = (Inr (Some r), s')"
    by (auto simp: get_abstracts_page_def Let_def elim!: io_bind_InrE io_lift_InrE)
  from view_page_data [OF vp] i m show ?thesis by blast
qed

lemma page_data_recommendations:
  assumes "get_abstracts_page U ed q (Some ''recommendations'') t1 t2 skip limit up cp np s
             = (Inr (Some r), s')"
      and "\<not> np < cp"
  shows "\<exists>emb ms m found s3 subs.
           embeddings U = Some emb \<and> nbrs_models U = Some ms \<and> map_of ms (''agenda-'' @ ed) = Some m
         \<and> utils_generate_recommendations U up emb (''agenda-'' @ ed) m s = (Inr found, s3)
         \<and> utils_filter_startend_time U found t1 t2 s3 = (Inr subs, s')
         \<and> json_at (content r) [''data''] = Some (JList (py_slice subs skip (skip + limit)))"
proof -
  from assms obtain emb ms m found s3 subs s4 ps
    where e: "embeddings U = Some emb" "nbrs_models U = Some ms" "map_of ms (''agenda-'' @ ed) = Some m"
      and g: "utils_generate_recommendations U up emb (''agenda-'' @ ed) m s = (Inr found, s3)"
      and f: "utils_filter_startend_time U found t1 t2 s3 = (Inr subs, s4)"
      and vp: "view_page ed ps skip limit subs s4 = (Inr (Some r), s')"
    by (auto simp: get_abstracts_page_def Let_def loaded_embeddings_def loaded_nbrs_model_def
          elim!: io_bind_InrE io_lift_InrE split: option.splits)
  from view_page_data [OF vp] e g f show ?thesis by blast
qed

lemma page_data_personalized:
  assumes "get_abstracts_page U ed q (Some ''personalized'') t1 t2 skip limit up cp np s
             = (Inr (Some r), s')"
      and "\<not> np < cp"
  shows "\<exists>emb ms m found s3 subs.
           embeddings U = Some emb \<and> nbrs_models U = Some ms \<and> map_of ms (''agenda-'' @ ed) = Some m
         \<and> utils_generate_personalized_recommendations U up emb (''agenda-'' @ ed) m s = (Inr found, s3)
         \<and> utils_filter_startend_time U found t1 t2 s3 = (Inr subs, s')
         \<and> json_at (content r) [''data''] = Some (JList (py_slice subs skip (skip + limit)))"
proof -
  from assms obtain emb ms m found s3 subs s4 ps
    where e: "embeddings U = Some emb" "nbrs_models U = Some ms" "map_of ms (''agenda-'' @ ed) = Some m"
      and g: "utils_generate_personalized_recommendations U up emb (''agenda-'' @ ed) m s = (Inr found, s3)"
      and f: "utils_filter_startend_time U found t1 t2 s3 = (Inr subs, s4)"
      and vp: "view_page ed ps skip limit subs s4 = (Inr (Some r), s')"
    by (auto simp: get_abstracts_page_def Let_def loaded_embeddings_def loaded_nbrs_model_def
          elim!: io_bind_InrE io_lift_InrE split: option.splits)
  from view_page_data [OF vp] e g f show ?thesis by blast
qed

text \<open>
  C3, as the code has it. Let a request to \<^verbatim>\<open>get_abstracts\<close> with \<open>0 \<le> skip\<close> and
  \<open>0 < limit\<close>, both below \<open>2 ^ 53\<close>, end in a response. Let \<open>up\<close> be the votes it
  read, \<open>n\<close> the count of the index of the edition, \<open>tm\<close> the two times as
  converted, and \<open>sE\<close> the state in which the conversion ended.
  \<^item> Its \<^verbatim>\<open>currentPage\<close> is \<open>skip div limit + 1\<close>.
  \<^item> In every view, its \<^verbatim>\<open>data\<close> is the empty array when \<open>skip\<close> lies on a later
    page than the count: \<open>n div limit < skip div limit\<close>.
  \<^item> For a view that is none of \<^verbatim>\<open>default\<close>, \<^verbatim>\<open>your-votes\<close>,
    \<^verbatim>\<open>recommendations\<close> and \<^verbatim>\<open>personalized\<close>, its data is the empty array.
  \<^item> In the default view, let \<open>subs\<close> be what the search of this very request gives:
    the query in \<open>sE\<close>, then the filter by the converted times. The data is the empty
    array or the slice \<^verbatim>\<open>subs[skip : skip + limit]\<close>; it is the slice when \<open>skip\<close>
    is not on a later page than the count (for a count below \<open>2 ^ 53\<close>); and it is
    empty when \<open>subs\<close> has no more than \<open>skip\<close> elements, so in particular when
    this search gives no more submissions than the index counts and \<open>skip\<close> is at
    least the count.
  \<^item> The three other views page through their own list in the same way: \<open>subs\<close> is
    the list of the abstracts of the votes of the user, or the recommendations filtered
    by the converted times, and the data is empty when that list has no more than
    \<open>skip\<close> elements, whatever the index counts.
\<close>

theorem get_abstracts_pages:
  assumes run: "get_abstracts U ed q v t1 t2 skip limit a s = (Inr (Some r), s')"
      and skip: "0 \<le> skip" "skip < 2 ^ 53"
      and limit: "0 < limit" "limit < 2 ^ 53"
      and pref: "get_abstracts_preference U a s = (Inr up, sA)"
      and cnt: "es_count U (''agenda-'' @ ed) sA = (Inr n, sB)"
      and conv: "converted_times U t1 t2 sB = (Inr tm, sE)"
  shows "json_at (content r) [''meta'', ''currentPage''] = Some (JInt (skip div limit + 1))
       \<and> (int n div limit < skip div limit \<longrightarrow> json_at (content r) [''data''] = Some (JList []))
       \<and> (v \<noteq> Some ''default'' \<and> v \<noteq> Some ''your-votes''
            \<and> v \<noteq> Some ''recommendations'' \<and> v \<noteq> Some ''personalized''
          \<longrightarrow> json_at (content r) [''data''] = Some (JList []))
       \<and> (v = Some ''default'' \<longrightarrow>
            (\<forall>found s3 subs s4.
                utils_query_abstracts U q (''agenda-'' @ ed) sE = (Inr found, s3)
              \<and> utils_filter_startend_time U found (fst tm) (snd tm) s3 = (Inr subs, s4) \<longrightarrow>
                (json_at (content r) [''data''] = Some (JList [])
                \<or> json_at (content r) [''data''] = Some (JList (py_slice subs skip (skip + limit))))
              \<and> (int n < 2 ^ 53 \<and> \<not> int n div limit < skip div limit \<longrightarrow>
                  json_at (content r) [''data''] = Some (JList (py_slice subs skip (skip + limit))))
              \<and> (int (length subs) \<le> skip \<longrightarrow> json_at (content r) [''data''] = Some (JList []))
              \<and> (length subs \<le> n \<and> int n \<le> skip \<longrightarrow> json_at (content r) [''data''] = Some (JList []))))
       \<and> (v = Some ''your-votes'' \<longrightarrow>
            (\<forall>ids subs s4.
                py_iter up = Inr ids
              \<and> io_map (utils_get_abstract U Index (''agenda-'' @ ed)) ids sE = (Inr subs, s4) \<longrightarrow>
                (json_at (content r) [''data''] = Some (JList [])
                \<or> json_at (content r) [''data''] = Some (JList (py_slice subs skip (skip + limit))))
              \<and> (int n < 2 ^ 53 \<and> \<not> int n div limit < skip div limit \<longrightarrow>
                  json_at (content r) [''data''] = Some (JList (py_slice subs skip (skip + limit))))
              \<and> (int (length subs) \<le> skip \<longrightarrow> json_at (content r) [''data''] = Some (JList []))))
       \<and> (v = Some ''recommendations'' \<longrightarrow>
            (\<forall>emb ms m found s3 subs s4.
                embeddings U = Some emb \<and> nbrs_models U = Some ms \<and> map_of ms (''agenda-'' @ ed) = Some m
              \<and> utils_generate_recommendations U up emb (''agenda-'' @ ed) m sE = (Inr found, s3)
              \<and> utils_filter_startend_time U found (fst tm) (snd tm) s3 = (Inr subs, s4) \<longrightarrow>
                (json_at (content r) [''data''] = Some (JList [])
                \<or> json_at (content r) [''data''] = Some (JList (py_slice subs skip (skip + limit))))
              \<and> (int n < 2 ^ 53 \<and> \<not> int n div limit < skip div limit \<longrightarrow>
                  json_at (content r) [''data''] = Some (JList (py_slice subs skip (skip + limit))))
              \<and> (int (length subs) \<le> skip \<longrightarrow> json_at (content r) [''data''] = Some (JList []))))
       \<and> (v = Some ''personalized'' \<longrightarrow>
            (\<forall>emb ms m found s3 subs s4.
                embeddings U = Some emb \<and> nbrs_models U = Some ms \<and> map_of ms (''agenda-'' @ ed) = Some m
              \<and> utils_generate_personalized_recommendations U up emb (''agenda-'' @ ed) m sE = (Inr found, s3)
              \<and> utils_filter_startend_time U found (fst tm) (snd tm) s3 = (Inr subs, s4) \<longrightarrow>
                (json_at (content r) [''data''] = Some (JList [])
                \<or> json_at (content r) [''data''] = Some (JList (py_slice subs skip (skip + limit))))
              \<and> (int n < 2 ^ 53 \<and> \<not> int n div limit < skip div limit \<longrightarrow>
                  json_at (content r) [''data''] = Some (JList (py_slice subs skip (skip + limit))))
              \<and> (int (length subs) \<le> skip \<longrightarrow> json_at (content r) [''data''] = Some (JList []))))"
proof -
  let ?D = "json_at (content r) [''data'']"
  from run pref cnt conv obtain p np
    where p: "py_int_truediv skip limit = Inr p"
      and np: "py_int_truediv (int n) limit = Inr np"
      and page: "get_abstracts_page U ed q v (fst tm) (snd tm) skip limit up (p + 1) (np + 1) sE
                   = (Inr (Some r), s')"
    by (rule get_abstracts_steps)
  have "py_int_truediv skip limit = Inr (skip div limit)"
    using skip limit by (intro py_int_truediv_exact) simp_all
  with p have pd: "p = skip div limit" by simp
  have npd: "np = int n div limit" if "int n < 2 ^ 53"
  proof -
    from that have "py_int_truediv (int n) limit = Inr (int n div limit)"
      using limit by (intro py_int_truediv_exact) simp_all
    with np show ?thesis by simp
  qed
  have past: "?D = Some (JList [])" if "np + 1 < p + 1"
    using page that by (rule page_data_past_last)
  have one: "json_at (content r) [''meta'', ''currentPage''] = Some (JInt (skip div limit + 1))"
    using get_abstracts_page_current [OF page p] pd by simp
  have two: "?D = Some (JList [])" if late: "int n div limit < skip div limit"
  proof -
    have "int n < skip"
    proof (rule ccontr)
      assume "\<not> int n < skip"
      then have "skip div limit \<le> int n div limit"
        using limit(1) by (intro zdiv_mono1) simp_all
      with late show False by simp
    qed
    with skip(2) have "int n < 2 ^ 53" by simp
    from npd [OF this] late pd have "np + 1 < p + 1" by simp
    then show ?thesis by (rule past)
  qed
  have three: "?D = Some (JList [])"
    if "v \<noteq> Some ''default''" "v \<noteq> Some ''your-votes''"
       "v \<noteq> Some ''recommendations''" "v \<noteq> Some ''personalized''"
    using page that by (rule page_data_unknown_view)
  have sliced: "(?D = Some (JList []) \<or> ?D = Some (JList (py_slice subs skip (skip + limit))))
              \<and> (int n < 2 ^ 53 \<and> \<not> int n div limit < skip div limit \<longrightarrow>
                  ?D = Some (JList (py_slice subs skip (skip + limit))))
              \<and> (int (length subs) \<le> skip \<longrightarrow> ?D = Some (JList []))"
    if d: "\<not> np + 1 < p + 1 \<Longrightarrow> ?D = Some (JList (py_slice subs skip (skip + limit)))"
    for subs :: "json list"
  proof (cases "np + 1 < p + 1")
    case True
    from past [OF True] have e: "?D = Some (JList [])" .
    have "int n div limit < skip div limit" if "int n < 2 ^ 53"
      using npd [OF that] True pd by simp
    with e show ?thesis by blast
  next
    case False
    from d [OF False] have e: "?D = Some (JList (py_slice subs skip (skip + limit)))" .
    have "py_slice subs skip (skip + limit) = []" if "int (length subs) \<le> skip"
      using skip(1) that by (rule py_slice_beyond)
    with e show ?thesis by simp
  qed
  have four: "(json_at (content r) [''data''] = Some (JList [])
                \<or> json_at (content r) [''data''] = Some (JList (py_slice subs skip (skip + limit))))
              \<and> (int n < 2 ^ 53 \<and> \<not> int n div limit < skip div limit \<longrightarrow>
                  json_at (content r) [''data''] = Some (JList (py_slice subs skip (skip + limit))))
              \<and> (int (length subs) \<le> skip \<longrightarrow> json_at (content r) [''data''] = Some (JList []))
              \<and> (length subs \<le> n \<and> int n \<le> skip \<longrightarrow> ?D = Some (JList []))"
    if v: "v = Some ''default''"
      and f: "utils_query_abstracts U q (''agenda-'' @ ed) sE = (Inr found, s3)"
      and g: "utils_filter_startend_time U found (fst tm) (snd tm) s3 = (Inr subs, s4)"
    for found s3 subs s4
  proof -
    have "?D = Some (JList (py_slice subs skip (skip + limit)))" if "\<not> np + 1 < p + 1"
      using page_data_default [OF page [unfolded v] that] f g by auto
    from sliced [OF this] show ?thesis by auto
  qed
  have five: "(json_at (content r) [''data''] = Some (JList [])
                \<or> json_at (content r) [''data''] = Some (JList (py_slice subs skip (skip + limit))))
              \<and> (int n < 2 ^ 53 \<and> \<not> int n div limit < skip div limit \<longrightarrow>
                  json_at (content r) [''data''] = Some (JList (py_slice subs skip (skip + limit))))
              \<and> (int (length subs) \<le> skip \<longrightarrow> json_at (content r) [''data''] = Some (JList []))"
    if v: "v = Some ''your-votes''"
      and f: "py_iter up = Inr ids"
      and g: "io_map (utils_get_abstract U Index (''agenda-'' @ ed)) ids sE = (Inr subs, s4)"
    for ids subs s4
  proof -
    have "?D = Some (JList (py_slice subs skip (skip + limit)))" if "\<not> np + 1 < p + 1"
      using page_data_your_votes [OF page [unfolded v] that] f g by auto
    from sliced [OF this] show ?thesis .
  qed
  have six: "(json_at (content r) [''data''] = Some (JList [])
                \<or> json_at (content r) [''data''] = Some (JList (py_slice subs skip (skip + limit))))
              \<and> (int n < 2 ^ 53 \<and> \<not> int n div limit < skip div limit \<longrightarrow>
                  json_at (content r) [''data''] = Some (JList (py_slice subs skip (skip + limit))))
              \<and> (int (length subs) \<le> skip \<longrightarrow> json_at (content r) [''data''] = Some (JList []))"
    if v: "v = Some ''recommendations''"
      and e: "embeddings U = Some emb" "nbrs_models U = Some ms" "map_of ms (''agenda-'' @ ed) = Some m"
      and f: "utils_generate_recommendations U up emb (''agenda-'' @ ed) m sE = (Inr found, s3)"
      and g: "utils_filter_startend_time U found (fst tm) (snd tm) s3 = (Inr subs, s4)"
    for emb ms m found s3 subs s4
  proof -
    have "?D = Some (JList (py_slice subs skip (skip + limit)))" if "\<not> np + 1 < p + 1"
      using page_data_recommendations [OF page [unfolded v] that] e f g by auto
    from sliced [OF this] show ?thesis .
  qed
  have seven: "(json_at (content r) [''data''] = Some (JList [])
                \<or> json_at (content r) [''data''] = Some (JList (py_slice subs skip (skip + limit))))
              \<and> (int n < 2 ^ 53 \<and> \<not> int n div limit < skip div limit \<longrightarrow>
                  json_at (content r) [''data''] = Some (JList (py_slice subs skip (skip + limit))))
              \<and> (int (length subs) \<le> skip \<longrightarrow> json_at (content r) [''data''] = Some (JList []))"
    if v: "v = Some ''personalized''"
      and e: "embeddings U = Some emb" "nbrs_models U = Some ms" "map_of ms (''agenda-'' @ ed) = Some m"
      and f: "utils_generate_personalized_recommendations U up emb (''agenda-'' @ ed) m sE = (Inr found, s3)"
      and g: "utils_filter_startend_time U found (fst tm) (snd tm) s3 = (Inr subs, s4)"
    for emb ms m found s3 subs s4
  proof -
    have "?D = Some (JList (py_slice subs skip (skip + limit)))" if "\<not> np + 1 < p + 1"
      using page_data_personalized [OF page [unfolded v] that] e f g by auto
    from sliced [OF this] show ?thesis .
  qed
  have c2: "int n div limit < skip div limit \<longrightarrow> json_at (content r) [''data''] = Some (JList [])"
    using two by (rule impI)
  have c3: "v \<noteq> Some ''default'' \<and> v \<noteq> Some ''your-votes''
            \<and> v \<noteq> Some ''recommendations'' \<and> v \<noteq> Some ''personalized''
          \<longrightarrow> json_at (content r) [''data''] = Some (JList [])"
    using three by (intro impI, elim conjE)
  have c4: "v = Some ''default'' \<longrightarrow>
            (\<forall>found s3 subs s4.
                utils_query_abstracts U q (''agenda-'' @ ed) sE = (Inr found, s3)
              \<and> utils_filter_startend_time U found (fst tm) (snd tm) s3 = (Inr subs, s4) \<longrightarrow>
                (json_at (content r) [''data''] = Some (JList [])
                \<or> json_at (content r) [''data''] = Some (JList (py_slice subs skip (skip + limit))))
              \<and> (int n < 2 ^ 53 \<and> \<not> int n div limit < skip div limit \<longrightarrow>
                  json_at (content r) [''data''] = Some (JList (py_slice subs skip (skip + limit))))
              \<and> (int (length subs) \<le> skip \<longrightarrow> json_at (content r) [''data''] = Some (JList []))
              \<and> (length subs \<le> n \<and> int n \<le> skip \<longrightarrow> json_at (content r) [''data''] = Some (JList [])))"
  proof (intro impI allI, elim conjE)
    fix found s3 subs s4
    assume "v = Some ''default''"
      "utils_query_abstracts U q (''agenda-'' @ ed) sE = (Inr found, s3)"
      "utils_filter_startend_time U found (fst tm) (snd tm) s3 = (Inr subs, s4)"
    then show "(json_at (content r) [''data''] = Some (JList [])
                \<or> json_at (content r) [''data''] = Some (JList (py_slice subs skip (skip + limit))))
              \<and> (int n < 2 ^ 53 \<and> \<not> int n div limit < skip div limit \<longrightarrow>
                  json_at (content r) [''data''] = Some (JList (py_slice subs skip (skip + limit))))
              \<and> (int (length subs) \<le> skip \<longrightarrow> json_at (content r) [''data''] = Some (JList []))
              \<and> (length subs \<le> n \<and> int n \<le> skip \<longrightarrow> json_at (content r) [''data''] = Some (JList []))"
      by (rule four)
  qed
  have c5: "v = Some ''your-votes'' \<longrightarrow>
            (\<forall>ids subs s4.
                py_iter up = Inr ids
              \<and> io_map (utils_get_abstract U Index (''agenda-'' @ ed)) ids sE = (Inr subs, s4) \<longrightarrow>
                (json_at (content r) [''data''] = Some (JList [])
                \<or> json_at (content r) [''data''] = Some (JList (py_slice subs skip (skip + limit))))
              \<and> (int n < 2 ^ 53 \<and> \<not> int n div limit < skip div limit \<longrightarrow>
                  json_at (content r) [''data''] = Some (JList (py_slice subs skip (skip + limit))))
              \<and> (int (length subs) \<le> skip \<longrightarrow> json_at (content r) [''data''] = Some (JList [])))"
  proof (intro impI allI, elim conjE)
    fix ids subs s4
    assume "v = Some ''your-votes''" "py_iter up = Inr ids"
      "io_map (utils_get_abstract U Index (''agenda-'' @ ed)) ids sE = (Inr subs, s4)"
    then show "(json_at (content r) [''data''] = Some (JList [])
                \<or> json_at (content r) [''data''] = Some (JList (py_slice subs skip (skip + limit))))
              \<and> (int n < 2 ^ 53 \<and> \<not> int n div limit < skip div limit \<longrightarrow>
                  json_at (content r) [''data''] = Some (JList (py_slice subs skip (skip + limit))))
              \<and> (int (length subs) \<le> skip \<longrightarrow> json_at (content r) [''data''] = Some (JList []))"
      by (rule five)
  qed
  have c6: "v = Some ''recommendations'' \<longrightarrow>
            (\<forall>emb ms m found s3 subs s4.
                embeddings U = Some emb \<and> nbrs_models U = Some ms \<and> map_of ms (''agenda-'' @ ed) = Some m
              \<and> utils_generate_recommendations U up emb (''agenda-'' @ ed) m sE = (Inr found, s3)
              \<and> utils_filter_startend_time U found (fst tm) (snd tm) s3 = (Inr subs, s4) \<longrightarrow>
                (json_at (content r) [''data''] = Some (JList [])
                \<or> json_at (content r) [''data''] = Some (JList (py_slice subs skip (skip + limit))))
              \<and> (int n < 2 ^ 53 \<and> \<not> int n div limit < skip div limit \<longrightarrow>
                  json_at (content r) [''data''] = Some (JList (py_slice subs skip (skip + limit))))
              \<and> (int (length subs) \<le> skip \<longrightarrow> json_at (content r) [''data''] = Some (JList [])))"
  proof (intro impI allI, elim conjE)
    fix emb ms m found s3 subs s4
    assume "v = Some ''recommendations''" "embeddings U = Some emb" "nbrs_models U = Some ms"
      "map_of ms (''agenda-'' @ ed) = Some m"
      "utils_generate_recommendations U up emb (''agenda-'' @ ed) m sE = (Inr found, s3)"
      "utils_filter_startend_time U found (fst tm) (snd tm) s3 = (Inr subs, s4)"
    then show "(json_at (content r) [''data''] = Some (JList [])
                \<or> json_at (content r) [''data''] = Some (JList (py_slice subs skip (skip + limit))))
              \<and> (int n < 2 ^ 53 \<and> \<not> int n div limit < skip div limit \<longrightarrow>
                  json_at (content r) [''data''] = Some (JList (py_slice subs skip (skip + limit))))
              \<and> (int (length subs) \<le> skip \<longrightarrow> json_at (content r) [''data''] = Some (JList []))"
      by (rule six)
  qed
  have c7: "v = Some ''personalized'' \<longrightarrow>
            (\<forall>emb ms m found s3 subs s4.
                embeddings U = Some emb \<and> nbrs_models U = Some ms \<and> map_of ms (''agenda-'' @ ed) = Some m
              \<and> utils_generate_personalized_recommendations U up emb (''agenda-'' @ ed) m sE = (Inr found, s3)
              \<and> utils_filter_startend_time U found (fst tm) (snd tm) s3 = (Inr subs, s4) \<longrightarrow>
                (json_at (content r) [''data''] = Some (JList [])
                \<or> json_at (content r) [''data''] = Some (JList (py_slice subs skip (skip + limit))))
              \<and> (int n < 2 ^ 53 \<and> \<not> int n div limit < skip div limit \<longrightarrow>
                  json_at (content r) [''data''] = Some (JList (py_slice subs skip (skip + limit))))
              \<and> (int (length subs) \<le> skip \<longrightarrow> json_at (content r) [''data''] = Some (JList [])))"
  proof (intro impI allI, elim conjE)
    fix emb ms m found s3 subs s4
    assume "v = Some ''personalized''" "embeddings U = Some emb" "nbrs_models U = Some ms"
      "map_of ms (''agenda-'' @ ed) = Some m"
      "utils_generate_personalized_recommendations U up emb (''agenda-'' @ ed) m sE = (Inr found, s3)"
      "utils_filter_startend_time U found (fst tm) (snd tm) s3 = (Inr subs, s4)"
    then show "(json_at (content r) [''data''] = Some (JList [])
                \<or> json_at (content r) [''data''] = Some (JList (py_slice subs skip (skip + limit))))
              \<and> (int n < 2 ^ 53 \<and> \<not> int n div limit < skip div limit \<longrightarrow>
                  json_at (content r) [''data''] = Some (JList (py_slice subs skip (skip + limit))))
              \<and> (int (length subs) \<le> skip \<longrightarrow> json_at (content r) [''data''] = Some (JList []))"
      by (rule seven)
  qed
  show ?thesis
    by (rule conjI [OF one conjI [OF c2 conjI [OF c3 conjI [OF c4 conjI [OF c5 conjI [OF c6 c7]]]]]])
qed

text \<open>
  The theorem at a request for the default view of an edition with two submissions,
  with \<open>skip = 5\<close> and \<open>limit = 10\<close>: the count is two and the search of the request
  finds two submissions, no more than \<open>skip\<close>, so the data is empty.
\<close>

theorem get_abstracts_pages_witness:
  "\<exists>r. get_abstracts demo_env ''2020-1'' None (Some ''default'') None None 5 10 None Map.empty
          = (Inr (Some r), Map.empty)
      \<and> json_at (content r) [''meta'', ''currentPage''] = Some (JInt 1)
      \<and> json_at (content r) [''data''] = Some (JList [])"
proof -
  define r where "r = page_response (page_meta 1 1 10)
      (page_links ''2020-1'' [(''view'', Some (QStr ''default'')), (''query'', None),
         (''starttime'', None), (''endtime'', None)] 5 10) []"
  have g: "get_abstracts demo_env ''2020-1'' None (Some ''default'') None None 5 10 None Map.empty
          = (Inr (Some r), Map.empty)"
    unfolding r_def
    by (simp add: get_abstracts_def get_abstracts_page_def get_abstracts_preference_def
          env_eval py_eval io_eval truediv_eval)
  have pref: "get_abstracts_preference demo_env None (Map.empty :: firebase)
      = (Inr (JList []), Map.empty)"
    by (simp add: get_abstracts_preference_def env_eval io_eval)
  have c: "es_count demo_env (''agenda-'' @ ''2020-1'') (Map.empty :: firebase) = (Inr 2, Map.empty)"
    by (simp add: env_eval io_eval)
  have t: "converted_times demo_env None None (Map.empty :: firebase) = (Inr (None, None), Map.empty)"
    by (simp add: converted_times_def)
  have f: "utils_query_abstracts demo_env None (''agenda-'' @ ''2020-1'') (Map.empty :: firebase)
      = (Inr [JObj [(''title'', JStr ''Spikes''), (''submission_id'', JStr ''rec1'')],
              JObj [(''title'', JStr ''Waves''), (''submission_id'', JStr ''rec2'')]], Map.empty)"
    by (simp add: env_eval io_eval)
  have h: "utils_filter_startend_time demo_env
        [JObj [(''title'', JStr ''Spikes''), (''submission_id'', JStr ''rec1'')],
         JObj [(''title'', JStr ''Waves''), (''submission_id'', JStr ''rec2'')]]
        (fst (None, None)) (snd (None, None)) (Map.empty :: firebase)
      = (Inr [JObj [(''title'', JStr ''Spikes''), (''submission_id'', JStr ''rec1'')],
              JObj [(''title'', JStr ''Waves''), (''submission_id'', JStr ''rec2'')]], Map.empty)"
    by (simp add: env_eval io_eval)
  have b: "(0::int) \<le> 5" "(5::int) < 2 ^ 53" "(0::int) < 10" "(10::int) < 2 ^ 53"
    by simp_all
  note T = get_abstracts_pages [OF g b pref c t]
  from T [THEN conjunct1]
  have one: "json_at (content r) [''meta'', ''currentPage''] = Some (JInt 1)"
    by simp
  from T [THEN conjunct2, THEN conjunct2, THEN conjunct2, THEN conjunct1, THEN mp, OF refl,
      THEN spec, THEN spec, THEN spec, THEN spec, THEN mp, OF conjI [OF f h]]
  have two: "json_at (content r) [''data''] = Some (JList [])"
    by (simp add: py_slice_def)
  from g one two show ?thesis by blast
qed

text \<open>
  C3 as stated fails twice. The page number is computed in floating point:
  for \<open>skip = 2 ^ 60 - 1\<close> and \<open>limit = 2 ^ 60\<close> the quotient rounds to \<open>1.0\<close> and
  the current page reported is 2, where \<open>skip div limit + 1\<close> is 1. And the view
  \<^verbatim>\<open>your-votes\<close> pages through the votes of the user, not through the index: with
  three votes under the key \<^verbatim>\<open>edition\<close> and two submissions in the index,
  \<open>skip = 2\<close> is not below the count, and the data holds one element (the vote
  \<open>rec7\<close> names no submission of the index, so it is \<^verbatim>\<open>null\<close>).
\<close>

theorem pages_beyond_the_claim:
  "map_sum id (map_option (\<lambda>r. json_at (content r) [''meta'', ''currentPage'']))
      (fst (get_abstracts demo_env ''2020-1'' None (Some ''default'') None None
              1152921504606846975 1152921504606846976 None Map.empty))
     = Inr (Some (Some (JInt 2)))
   \<and> (1152921504606846975 :: int) div 1152921504606846976 + 1 = 1
   \<and> map_sum id (map_option (\<lambda>r. json_at (content r) [''data'']))
      (fst (get_abstracts demo_env ''2020-1'' None (Some ''your-votes'') None None 2 40
              (Some ''Bearer ada'')
              (Map.empty((''preferences'', ''ada'') \<mapsto>
                 [(''edition'', JList [JStr ''rec1'', JStr ''rec2'', JStr ''rec7''])]))))
     = Inr (Some (Some (JList [JNull])))
   \<and> fst (es_count demo_env ''agenda-2020-1''
        (Map.empty((''preferences'', ''ada'') \<mapsto>
           [(''edition'', JList [JStr ''rec1'', JStr ''rec2'', JStr ''rec7''])])))
     = Inr 2"
proof (intro conjI)
  show "map_sum id (map_option (\<lambda>r. json_at (content r) [''meta'', ''currentPage'']))
      (fst (get_abstracts demo_env ''2020-1'' None (Some ''default'') None None
              1152921504606846975 1152921504606846976 None Map.empty))
     = Inr (Some (Some (JInt 2)))"
    by (simp add: get_abstracts_def get_abstracts_page_def get_abstracts_preference_def
          env_eval py_eval io_eval page_eval truediv_eval)
  show "(1152921504606846975 :: int) div 1152921504606846976 + 1 = 1" by simp
  show "map_sum id (map_option (\<lambda>r. json_at (content r) [''data'']))
      (fst (get_abstracts demo_env ''2020-1'' None (Some ''your-votes'') None None 2 40
              (Some ''Bearer ada'')
              (Map.empty((''preferences'', ''ada'') \<mapsto>
                 [(''edition'', JList [JStr ''rec1'', JStr ''rec2'', JStr ''rec7''])]))))
     = Inr (Some (Some (JList [JNull])))"
    by (simp add: get_abstracts_def get_abstracts_page_def get_abstracts_preference_def
          env_eval py_eval io_eval page_eval truediv_eval)
  show "fst (es_count demo_env ''agenda-2020-1''
        (Map.empty((''preferences'', ''ada'') \<mapsto>
           [(''edition'', JList [JStr ''rec1'', JStr ''rec2'', JStr ''rec7''])])))
     = Inr 2"
    by (simp add: env_eval)
qed

section \<open>Which exceptions are caught\<close>

text \<open>
  A list comprehension raises what the first failing call raises, in the state that call
  left.
\<close>

lemma io_map_raises_at:
  "io_map f ys s = (Inr rs, t) \<Longrightarrow> f x t = (Inl e, t') \<Longrightarrow> io_map f (ys @ x # zs) s = (Inl e, t')"
proof (induction ys arbitrary: s rs)
  case Nil
  then show ?case by (simp add: io_bind_def)
next
  case (Cons y ys)
  from Cons.prems(1) obtain r1 s1 rs1 where y: "f y s = (Inr r1, s1)"
    and ys: "io_map f ys s1 = (Inr rs1, t)"
    by (auto simp: io_bind_def split: prod.splits sum.splits)
  from Cons.IH [OF ys Cons.prems(2)] y show ?case by (simp add: io_bind_def)
qed

text \<open>
  The two \<^verbatim>\<open>try\<close> blocks of the handlers: the store write of
  \<^verbatim>\<open>update_user_votes\<close>, and the read of the votes in \<^verbatim>\<open>get_abstracts\<close>.
\<close>

lemma set_data_error_404:
  "get_user_info U a s = (Inr (Some ui), s1) \<and> map_of ui ''user_id'' = Some uid
      \<and> get_data U (Some uid) (preference_collection U) s1 = (Inr None, s2)
      \<and> set_data U (JObj [(ed, JList [JStr x])]) (Some uid) (preference_collection U) s2 = (Inl e, s3)
     \<longrightarrow> update_user_votes U ed x (Some ''like'') a s
           = (if e = NotFound \<or> e = TypeError
              then (Inr (Some (JSONResponse_status 404)), s3) else (Inl e, s3))"
  by (simp add: Let_def update_user_votes_def io_bind_def io_try_def store_error_404_def)

lemma update_data_error_404:
  "get_user_info U a s = (Inr (Some ui), s1) \<and> map_of ui ''user_id'' = Some uid
      \<and> get_data U (Some uid) (preference_collection U) s1 = (Inr (Some pref), s2)
      \<and> map_of pref ed = Some (JList ids) \<and> list_all hashable ids
      \<and> update_data U (JObj [(ed, JList (py_dedup [] (ids @ [JStr x])))]) (Some uid)
            (preference_collection U) s2 = (Inl e, s3)
     \<longrightarrow> update_user_votes U ed x (Some ''like'') a s
           = (if e = NotFound \<or> e = TypeError
              then (Inr (Some (JSONResponse_status 404)), s3) else (Inl e, s3))"
  by (simp add: Let_def update_user_votes_def io_bind_def io_try_def store_error_404_def
        py_getitem_def py_add_def py_list_set_def py_iter_def hashable_def)

lemma votes_read_catches_identity:
  "get_user_info U a s = (Inl e, s1)
     \<longrightarrow> get_abstracts_preference U a s = (Inr (JList []), s1)"
  by (simp add: Let_def get_abstracts_preference_def io_bind_def io_try_def)

lemma votes_read_catches_store:
  "get_user_info U a s = (Inr (Some ui), s1)
      \<and> get_data U (map_of ui ''user_id'') (preference_collection U) s1 = (Inl e, s2)
     \<longrightarrow> get_abstracts_preference U a s = (Inr (JList []), s2)"
  by (simp add: Let_def get_abstracts_preference_def io_bind_def io_try_def)

lemma votes_read_returns:
  "\<exists>w s'. get_abstracts_preference U a s = (Inr w, s')"
  by (auto simp: Let_def get_abstracts_preference_def io_bind_def io_try_def io_lift_def py_dict_get_def
        split: prod.splits sum.splits option.splits)

text \<open>
  The calls of each handler that stand outside a \<^verbatim>\<open>try\<close> block, in the order the
  handler makes them: each is let through, in the state the calls before it left.
\<close>

lemma get_user_lets_through:
  "lets_through (get_user U a) s (get_user_info U a) s
   \<and> (get_user_info U a s = (Inr (Some ui), s1) \<longrightarrow>
       lets_through (get_user U a) s (get_data U (map_of ui ''user_id'') (user_collection U)) s1)"
  by (simp add: lets_through_def get_user_def io_bind_def Let_def)

lemma create_user_lets_through:
  "lets_through (create_user U user_data a) s (get_user_info U a) s
   \<and> (get_user_info U a s = (Inr (Some ui), s1) \<longrightarrow>
       lets_through (create_user U user_data a) s (io_lift (py_getitem (json_of_body user_data) ''payload'')) s1
     \<and> (py_getitem (json_of_body user_data) ''payload'' = Inr pl \<longrightarrow>
         lets_through (create_user U user_data a) s (set_data U pl (map_of ui ''user_id'') (user_collection U)) s1))"
  by (simp add: lets_through_def create_user_def io_bind_def io_lift_def Let_def)

lemma update_user_lets_through:
  "lets_through (update_user U user_data a) s (get_user_info U a) s
   \<and> (get_user_info U a s = (Inr (Some ui), s1) \<longrightarrow>
       lets_through (update_user U user_data a) s (update_data U (json_of_body user_data) (map_of ui ''user_id'') (user_collection U)) s1)"
  by (simp add: lets_through_def update_user_def io_bind_def Let_def)

lemma get_user_votes_all_lets_through:
  "lets_through (get_user_votes_all U a) s (get_user_info U a) s
   \<and> (get_user_info U a s = (Inr (Some ui), s1) \<longrightarrow>
       lets_through (get_user_votes_all U a) s (get_data U (map_of ui ''user_id'') (preference_collection U)) s1
     \<and> (get_data U (map_of ui ''user_id'') (preference_collection U) s1 = (Inr (Some (kys @ kv # kzs)), s2) \<and> io_map (\<lambda>kv. io_bind (utils_get_abstract U Edition (''agenda-'' @ fst kv) (snd kv)) (\<lambda>x. io_return (JObj [(''edition'', JStr (fst kv)), (''abstracts'', x)]))) kys s2 = (Inr rs, s3) \<longrightarrow>
         lets_through (get_user_votes_all U a) s (utils_get_abstract U Edition (''agenda-'' @ fst kv) (snd kv)) s3))"
  by (auto simp: lets_through_def get_user_votes_all_def io_bind_Inl io_bind_Inr io_map_raises_at Let_def)

lemma get_user_votes_lets_through:
  "lets_through (get_user_votes U ed a) s (get_user_info U a) s
   \<and> (get_user_info U a s = (Inr (Some ui), s1) \<longrightarrow>
       lets_through (get_user_votes U ed a) s (get_data U (map_of ui ''user_id'') (preference_collection U)) s1
     \<and> (get_data U (map_of ui ''user_id'') (preference_collection U) s1 = (Inr (Some pref), s2) \<longrightarrow>
         lets_through (get_user_votes U ed a) s (io_lift (py_getitem (JObj pref) ed)) s2
       \<and> (py_getitem (JObj pref) ed = Inr lst \<longrightarrow>
           lets_through (get_user_votes U ed a) s (io_lift (py_iter lst)) s2
         \<and> (py_iter lst = Inr (ys @ i # zs)
              \<and> io_map (utils_get_abstract U Index (''agenda-'' @ ed)) ys s2 = (Inr rs, s3) \<longrightarrow>
             lets_through (get_user_votes U ed a) s (utils_get_abstract U Index (''agenda-'' @ ed) i) s3))))"
  by (auto simp: lets_through_def get_user_votes_def io_bind_Inl io_bind_Inr io_lift_def io_map_raises_at Let_def)

lemma update_user_votes_lets_through:
  "lets_through (update_user_votes U ed x act a) s (get_user_info U a) s
   \<and> (get_user_info U a s = (Inr (Some ui), s1) \<longrightarrow>
       lets_through (update_user_votes U ed x act a) s (get_data U (map_of ui ''user_id'') (preference_collection U)) s1
     \<and> (get_data U (map_of ui ''user_id'') (preference_collection U) s1 = (Inr (Some pref), s2) \<and> map_of ui ''user_id'' \<noteq> None \<and> act = Some ''like'' \<longrightarrow>
         lets_through (update_user_votes U ed x act a) s (io_lift (py_getitem (JObj pref) ed)) s2
       \<and> (py_getitem (JObj pref) ed = Inr cur \<longrightarrow>
           lets_through (update_user_votes U ed x act a) s (io_lift (py_add cur (JList [JStr x]))) s2
         \<and> (py_add cur (JList [JStr x]) = Inr j \<longrightarrow>
             lets_through (update_user_votes U ed x act a) s (io_lift (py_list_set j)) s2)))
     \<and> (get_data U (map_of ui ''user_id'') (preference_collection U) s1 = (Inr (Some pref), s2) \<and> map_of ui ''user_id'' \<noteq> None \<and> act = Some ''dislike'' \<longrightarrow>
         lets_through (update_user_votes U ed x act a) s (io_lift (py_getitem (JObj pref) ed)) s2
       \<and> (py_getitem (JObj pref) ed = Inr cur \<longrightarrow>
           lets_through (update_user_votes U ed x act a) s (io_lift (py_sub cur (JList [JStr x]))) s2
         \<and> (py_sub cur (JList [JStr x]) = Inr j \<longrightarrow>
             lets_through (update_user_votes U ed x act a) s (io_lift (py_list_set j)) s2))))"
  by (auto simp: lets_through_def update_user_votes_def io_bind_Inl io_bind_Inr io_lift_def Let_def)

lemma get_affiliations_lets_through:
  "lets_through (get_affiliations U (Some qs) nr) s (utils_query_affiliations U qs (case nr of None \<Rightarrow> 10 | Some k \<Rightarrow> k)) s"
  by (simp add: lets_through_def get_affiliations_def io_bind_def Let_def)

lemma send_confirmation_email_lets_through:
  "SENDGRID_API U \<noteq> [] \<longrightarrow>
     lets_through (send_confirmation_email U ty a) s (get_user_info U a) s
   \<and> (get_user_info U a s = (Inr (Some ui), s1) \<longrightarrow>
       lets_through (send_confirmation_email U ty a) s (load_email_content U) s1
     \<and> (load_email_content U s1 = (Inr c, s2) \<longrightarrow>
         lets_through (send_confirmation_email U ty a) s (io_lift (py_dict_get c ty JNull)) s2
       \<and> (py_dict_get c ty JNull = Inr dt \<longrightarrow>
           lets_through (send_confirmation_email U ty a) s (io_lift (py_getitem dt ''personalizations'')) s2
         \<and> (py_getitem dt ''personalizations'' = Inr ps \<longrightarrow>
             lets_through (send_confirmation_email U ty a) s (io_lift (py_iter ps)) s2
           \<and> (py_iter ps = Inr ds \<longrightarrow>
               lets_through (send_confirmation_email U ty a) s (io_map (\<lambda>d. io_lift (personalize (case map_of ui ''email'' of None \<Rightarrow> JNull | Some x \<Rightarrow> JStr x) d)) ds) s2
             \<and> (io_map (\<lambda>d. io_lift (personalize (case map_of ui ''email'' of None \<Rightarrow> JNull | Some x \<Rightarrow> JStr x) d)) ds s2 = (Inr ds', s3) \<longrightarrow>
                 lets_through (send_confirmation_email U ty a) s (sendgrid_post U (case (dt, ps) of (JObj kvs, JList _) \<Rightarrow> JObj (AList.update ''personalizations'' (JList ds') kvs) | _ \<Rightarrow> dt)) s3))))))"
  by (simp add: lets_through_def send_confirmation_email_def io_bind_def io_lift_def Let_def)

lemma get_agenda_lets_through:
  "lets_through (get_agenda U ed (Some st)) s (utils_get_agenda U (''agenda-'' @ ed) st) s"
  by (simp add: lets_through_def get_agenda_def io_bind_def)

lemma get_abstracts_lets_through:
  "get_abstracts_preference U a s = (Inr up, sA) \<longrightarrow>
     lets_through (get_abstracts U ed q v t1 t2 skip limit a) s (es_count U (''agenda-'' @ ed)) sA
   \<and> (es_count U (''agenda-'' @ ed) sA = (Inr n, sB) \<longrightarrow>
       lets_through (get_abstracts U ed q v t1 t2 skip limit a) s (io_lift (py_int_truediv skip limit)) sB
     \<and> (py_int_truediv skip limit = Inr p \<longrightarrow>
         lets_through (get_abstracts U ed q v t1 t2 skip limit a) s (io_lift (py_int_truediv (int n) limit)) sB
       \<and> (py_int_truediv (int n) limit = Inr np \<longrightarrow>
           (t1 = None \<or> t2 = None \<longrightarrow>
              lets_through (get_abstracts U ed q v t1 t2 skip limit a) s (get_abstracts_page U ed q v t1 t2 skip limit up (p + 1) (np + 1)) sB)
         \<and> (t1 = Some st \<and> t2 = Some et \<longrightarrow>
              lets_through (get_abstracts U ed q v t1 t2 skip limit a) s (utils_convert_utc U st) sB
            \<and> (utils_convert_utc U st sB = (Inr st', sC) \<longrightarrow>
                lets_through (get_abstracts U ed q v t1 t2 skip limit a) s (utils_convert_utc U et) sC
              \<and> (utils_convert_utc U et sC = (Inr et', sD) \<longrightarrow>
                  lets_through (get_abstracts U ed q v t1 t2 skip limit a) s (get_abstracts_page U ed q v (Some st') (Some et') skip limit up (p + 1) (np + 1)) sD))))))"
  by (auto simp: lets_through_def get_abstracts_def io_bind_Inl io_bind_Inr io_lift_def Let_def split: option.splits)

lemma get_abstracts_page_lets_through:
  "\<not> npg < cp \<longrightarrow>
     (v = Some ''default'' \<longrightarrow>
         lets_through (get_abstracts_page U ed q v t1 t2 skip limit up cp npg) s (utils_query_abstracts U q (''agenda-'' @ ed)) s
       \<and> (utils_query_abstracts U q (''agenda-'' @ ed) s = (Inr found, s1) \<longrightarrow>
           lets_through (get_abstracts_page U ed q v t1 t2 skip limit up cp npg) s (utils_filter_startend_time U found t1 t2) s1))
   \<and> (v = Some ''your-votes'' \<longrightarrow>
         lets_through (get_abstracts_page U ed q v t1 t2 skip limit up cp npg) s (io_lift (py_iter up)) s
       \<and> (py_iter up = Inr (ys @ i # zs)
            \<and> io_map (utils_get_abstract U Index (''agenda-'' @ ed)) ys s = (Inr rs, s1) \<longrightarrow>
           lets_through (get_abstracts_page U ed q v t1 t2 skip limit up cp npg) s (utils_get_abstract U Index (''agenda-'' @ ed) i) s1)
       \<and> (py_iter up = Inr ids
            \<and> io_map (utils_get_abstract U Index (''agenda-'' @ ed)) ids s = (Inr subs, s2) \<longrightarrow>
           lets_through (get_abstracts_page U ed q v t1 t2 skip limit up cp npg) s (view_page ed [(''view'', Some (QStr ''your-votes''))] skip limit subs) s2))
   \<and> (v = Some ''recommendations'' \<longrightarrow>
         lets_through (get_abstracts_page U ed q v t1 t2 skip limit up cp npg) s (loaded_embeddings U) s
       \<and> (embeddings U = Some emb \<longrightarrow>
           lets_through (get_abstracts_page U ed q v t1 t2 skip limit up cp npg) s (loaded_nbrs_model U (''agenda-'' @ ed)) s
         \<and> (loaded_nbrs_model U (''agenda-'' @ ed) s = (Inr m, s) \<longrightarrow>
             lets_through (get_abstracts_page U ed q v t1 t2 skip limit up cp npg) s (utils_generate_recommendations U up emb (''agenda-'' @ ed) m) s
           \<and> (utils_generate_recommendations U up emb (''agenda-'' @ ed) m s = (Inr found, s1) \<longrightarrow>
               lets_through (get_abstracts_page U ed q v t1 t2 skip limit up cp npg) s (utils_filter_startend_time U found t1 t2) s1
             \<and> (utils_filter_startend_time U found t1 t2 s1 = (Inr subs, s2) \<longrightarrow>
                 lets_through (get_abstracts_page U ed q v t1 t2 skip limit up cp npg) s (view_page ed [(''view'', Some (QStr ''recommendations'')), (''starttime'', map_option QStr t1), (''endtime'', map_option QStr t2)] skip limit subs) s2)))))
   \<and> (v = Some ''personalized'' \<longrightarrow>
         lets_through (get_abstracts_page U ed q v t1 t2 skip limit up cp npg) s (loaded_embeddings U) s
       \<and> (embeddings U = Some emb \<longrightarrow>
           lets_through (get_abstracts_page U ed q v t1 t2 skip limit up cp npg) s (loaded_nbrs_model U (''agenda-'' @ ed)) s
         \<and> (loaded_nbrs_model U (''agenda-'' @ ed) s = (Inr m, s) \<longrightarrow>
             lets_through (get_abstracts_page U ed q v t1 t2 skip limit up cp npg) s (utils_generate_personalized_recommendations U up emb (''agenda-'' @ ed) m) s
           \<and> (utils_generate_personalized_recommendations U up emb (''agenda-'' @ ed) m s = (Inr found, s1) \<longrightarrow>
               lets_through (get_abstracts_page U ed q v t1 t2 skip limit up cp npg) s (utils_filter_startend_time U found t1 t2) s1
             \<and> (utils_filter_startend_time U found t1 t2 s1 = (Inr subs, s2) \<longrightarrow>
                 lets_through (get_abstracts_page U ed q v t1 t2 skip limit up cp npg) s (view_page ed [(''view'', Some (QStr ''personalized'')), (''starttime'', map_option QStr t1), (''endtime'', map_option QStr t2)] skip limit subs) s2)))))"
  by (auto simp: lets_through_def get_abstracts_page_def loaded_embeddings_def io_bind_Inl io_bind_Inr io_lift_def io_map_raises_at Let_def)

lemma get_abstract_lets_through:
  "lets_through (get_abstract U ed x) s (edition_setting U ed ''airtable_id'') s
   \<and> (edition_setting U ed ''airtable_id'' s = (Inr b, s1) \<longrightarrow>
       lets_through (get_abstract U ed x) s (edition_setting U ed ''table_name'') s1
     \<and> (edition_setting U ed ''table_name'' s1 = (Inr tn, s2) \<longrightarrow>
         (b = JNull \<longrightarrow>
            lets_through (get_abstract U ed x) s (utils_get_abstract U Index (''agenda-'' @ ed) (JStr x)) s2)
       \<and> (b \<noteq> JNull \<longrightarrow>
            lets_through (get_abstract U ed x) s (table_get U b tn x) s2
          \<and> (table_get U b tn x s2 = (Inr rcd, s3) \<longrightarrow>
              lets_through (get_abstract U ed x) s (io_lift (py_dict_get rcd ''fields'' (JObj []))) s3))))"
  by (auto simp: lets_through_def get_abstract_def io_bind_Inl io_bind_Inr io_lift_def Let_def)

lemma create_abstract_lets_through:
  "lets_through (create_abstract U sub ed a) s (get_user_info U a) s
   \<and> (get_user_info U a s = (Inr who, s1) \<longrightarrow>
       lets_through (create_abstract U sub ed a) s (io_lift (dated_submission U sub)) s1
     \<and> (dated_submission U sub = Inr doc \<longrightarrow>
         lets_through (create_abstract U sub ed a) s (edition_setting U ed ''airtable_id'') s1
       \<and> (edition_setting U ed ''airtable_id'' s1 = (Inr b, s2) \<longrightarrow>
           lets_through (create_abstract U sub ed a) s (edition_setting U ed ''table_name'') s2
         \<and> (edition_setting U ed ''table_name'' s2 = (Inr tn, s3) \<and> b \<noteq> JNull \<longrightarrow>
             lets_through (create_abstract U sub ed a) s (table_create U b tn doc) s3
           \<and> (table_create U b tn doc s3 = (Inr r, s4) \<longrightarrow>
               lets_through (create_abstract U sub ed a) s (io_lift (py_getitem r ''id'')) s4
             \<and> (py_getitem r ''id'' = Inr i \<and> who = Some ui \<longrightarrow>
                 lets_through (create_abstract U sub ed a) s (update_data U (JObj [(''submission_id'', i)]) (map_of ui ''user_id'') (user_collection U)) s4))))))"
  by (auto simp: lets_through_def create_abstract_dated io_bind_Inl io_bind_Inr io_lift_def Let_def)

lemma update_abstract_lets_through:
  "lets_through (update_abstract U x sub ed) s (edition_setting U ed ''airtable_id'') s
   \<and> (edition_setting U ed ''airtable_id'' s = (Inr b, s1) \<longrightarrow>
       lets_through (update_abstract U x sub ed) s (edition_setting U ed ''table_name'') s1
     \<and> (edition_setting U ed ''table_name'' s1 = (Inr tn, s2) \<and> b \<noteq> JNull \<longrightarrow>
         lets_through (update_abstract U x sub ed) s (table_update U b tn x (Submission_dict sub)) s2
       \<and> (table_update U b tn x (Submission_dict sub) s2 = (Inr r, s3) \<longrightarrow>
           lets_through (update_abstract U x sub ed) s (io_lift (py_getitem r ''id'')) s3)))"
  by (auto simp: lets_through_def update_abstract_def io_bind_Inl io_bind_Inr io_lift_def Let_def)

lemma lets_through_composes:
  "lets_through h s g t \<and> lets_through g t k u \<longrightarrow> lets_through h s k u"
  by (simp add: lets_through_def)

text \<open>
  C4, as the code has it. Two \<^verbatim>\<open>try\<close> blocks catch, and nothing else does.
  \<^item> In \<^verbatim>\<open>update_user_votes\<close> the exception of the store write (\<open>set_data\<close> for a
    user without preferences, \<open>update_data\<close> otherwise) is answered with 404 when it
    is \<^verbatim>\<open>NotFound\<close> or \<^verbatim>\<open>TypeError\<close>, and is let through when it is any other
    exception.
  \<^item> \<^verbatim>\<open>get_abstracts\<close> catches every exception raised while it reads the votes of
    the user (by \<open>get_user_info\<close>, by \<open>get_data\<close>, by the lookup), and goes on with
    the empty list: reading the votes never raises.
  \<^item> Every other call of every handler is let through: when it raises, the handler
    raises the same exception, in the state the call left. These are, handler by
    handler and in the order of the calls: \<^verbatim>\<open>get_user\<close>, \<^verbatim>\<open>create_user\<close>,
    \<^verbatim>\<open>update_user\<close>, the two \<^verbatim>\<open>get_user_votes\<close>, \<^verbatim>\<open>update_user_votes\<close> (the
    identity, the read of the preferences, the computation of the new list),
    \<^verbatim>\<open>get_affiliations\<close>, \<^verbatim>\<open>send_confirmation_email\<close>, \<^verbatim>\<open>get_agenda\<close>,
    \<^verbatim>\<open>get_abstracts\<close> after the votes are read (the count, the two divisions, the
    conversion of the times, and the calls of each view), \<^verbatim>\<open>get_abstract\<close>,
    \<^verbatim>\<open>create_abstract\<close> and \<^verbatim>\<open>update_abstract\<close>.
\<close>

theorem caught_and_uncaught_exceptions:
  "(get_user_info U a s = (Inr (Some ui), s1) \<and> map_of ui ''user_id'' = Some uid
      \<and> get_data U (Some uid) (preference_collection U) s1 = (Inr None, s2)
      \<and> set_data U (JObj [(ed, JList [JStr x])]) (Some uid) (preference_collection U) s2 = (Inl e, s3)
     \<longrightarrow> update_user_votes U ed x (Some ''like'') a s
           = (if e = NotFound \<or> e = TypeError
              then (Inr (Some (JSONResponse_status 404)), s3) else (Inl e, s3)))
   \<and> (get_user_info U a s = (Inr (Some ui), s1) \<and> map_of ui ''user_id'' = Some uid
      \<and> get_data U (Some uid) (preference_collection U) s1 = (Inr (Some pref), s2)
      \<and> map_of pref ed = Some (JList ids) \<and> list_all hashable ids
      \<and> update_data U (JObj [(ed, JList (py_dedup [] (ids @ [JStr x])))]) (Some uid)
            (preference_collection U) s2 = (Inl e, s3)
     \<longrightarrow> update_user_votes U ed x (Some ''like'') a s
           = (if e = NotFound \<or> e = TypeError
              then (Inr (Some (JSONResponse_status 404)), s3) else (Inl e, s3)))
   \<and> (get_user_info U a s = (Inl e, s1)
     \<longrightarrow> get_abstracts_preference U a s = (Inr (JList []), s1))
   \<and> (get_user_info U a s = (Inr (Some ui), s1)
      \<and> get_data U (map_of ui ''user_id'') (preference_collection U) s1 = (Inl e, s2)
     \<longrightarrow> get_abstracts_preference U a s = (Inr (JList []), s2))
   \<and> (\<exists>w s'. get_abstracts_preference U a s = (Inr w, s'))
   \<and> (lets_through (get_user U a) s (get_user_info U a) s
   \<and> (get_user_info U a s = (Inr (Some ui), s1) \<longrightarrow>
       lets_through (get_user U a) s (get_data U (map_of ui ''user_id'') (user_collection U)) s1))
   \<and> (lets_through (create_user U user_data a) s (get_user_info U a) s
   \<and> (get_user_info U a s = (Inr (Some ui), s1) \<longrightarrow>
       lets_through (create_user U user_data a) s (io_lift (py_getitem (json_of_body user_data) ''payload'')) s1
     \<and> (py_getitem (json_of_body user_data) ''payload'' = Inr pl \<longrightarrow>
         lets_through (create_user U user_data a) s (set_data U pl (map_of ui ''user_id'') (user_collection U)) s1)))
   \<and> (lets_through (update_user U user_data a) s (get_user_info U a) s
   \<and> (get_user_info U a s = (Inr (Some ui), s1) \<longrightarrow>
       lets_through (update_user U user_data a) s (update_data U (json_of_body user_data) (map_of ui ''user_id'') (user_collection U)) s1))
   \<and> (lets_through (get_user_votes_all U a) s (get_user_info U a) s
   \<and> (get_user_info U a s = (Inr (Some ui), s1) \<longrightarrow>
       lets_through (get_user_votes_all U a) s (get_data U (map_of ui ''user_id'') (preference_collection U)) s1
     \<and> (get_data U (map_of ui ''user_id'') (preference_collection U) s1 = (Inr (Some (kys @ kv # kzs)), s2) \<and> io_map (\<lambda>kv. io_bind (utils_get_abstract U Edition (''agenda-'' @ fst kv) (snd kv)) (\<lambda>x. io_return (JObj [(''edition'', JStr (fst kv)), (''abstracts'', x)]))) kys s2 = (Inr rs, s3) \<longrightarrow>
         lets_through (get_user_votes_all U a) s (utils_get_abstract U Edition (''agenda-'' @ fst kv) (snd kv)) s3)))
   \<and> (lets_through (get_user_votes U ed a) s (get_user_info U a) s
   \<and> (get_user_info U a s = (Inr (Some ui), s1) \<longrightarrow>
       lets_through (get_user_votes U ed a) s (get_data U (map_of ui ''user_id'') (preference_collection U)) s1
     \<and> (get_data U (map_of ui ''user_id'') (preference_collection U) s1 = (Inr (Some pref), s2) \<longrightarrow>
         lets_through (get_user_votes U ed a) s (io_lift (py_getitem (JObj pref) ed)) s2
       \<and> (py_getitem (JObj pref) ed = Inr lst \<longrightarrow>
           lets_through (get_user_votes U ed a) s (io_lift (py_iter lst)) s2
         \<and> (py_iter lst = Inr (ys @ i # zs)
              \<and> io_map (utils_get_abstract U Index (''agenda-'' @ ed)) ys s2 = (Inr rs, s3) \<longrightarrow>
             lets_through (get_user_votes U ed a) s (utils_get_abstract U Index (''agenda-'' @ ed) i) s3)))))
   \<and> (lets_through (update_user_votes U ed x act a) s (get_user_info U a) s
   \<and> (get_user_info U a s = (Inr (Some ui), s1) \<longrightarrow>
       lets_through (update_user_votes U ed x act a) s (get_data U (map_of ui ''user_id'') (preference_collection U)) s1
     \<and> (get_data U (map_of ui ''user_id'') (preference_collection U) s1 = (Inr (Some pref), s2) \<and> map_of ui ''user_id'' \<noteq> None \<and> act = Some ''like'' \<longrightarrow>
         lets_through (update_user_votes U ed x act a) s (io_lift (py_getitem (JObj pref) ed)) s2
       \<and> (py_getitem (JObj pref) ed = Inr cur \<longrightarrow>
           lets_through (update_user_votes U ed x act a) s (io_lift (py_add cur (JList [JStr x]))) s2
         \<and> (py_add cur (JList [JStr x]) = Inr j \<longrightarrow>
             lets_through (update_user_votes U ed x act a) s (io_lift (py_list_set j)) s2)))
     \<and> (get_data U (map_of ui ''user_id'') (preference_collection U) s1 = (Inr (Some pref), s2) \<and> map_of ui ''user_id'' \<noteq> None \<and> act = Some ''dislike'' \<longrightarrow>
         lets_through (update_user_votes U ed x act a) s (io_lift (py_getitem (JObj pref) ed)) s2
       \<and> (py_getitem (JObj pref) ed = Inr cur \<longrightarrow>
           lets_through (update_user_votes U ed x act a) s (io_lift (py_sub cur (JList [JStr x]))) s2
         \<and> (py_sub cur (JList [JStr x]) = Inr j \<longrightarrow>
             lets_through (update_user_votes U ed x act a) s (io_lift (py_list_set j)) s2)))))
   \<and> (lets_through (get_affiliations U (Some qs) nr) s (utils_query_affiliations U qs (case nr of None \<Rightarrow> 10 | Some k \<Rightarrow> k)) s)
   \<and> (SENDGRID_API U \<noteq> [] \<longrightarrow>
     lets_through (send_confirmation_email U ty a) s (get_user_info U a) s
   \<and> (get_user_info U a s = (Inr (Some ui), s1) \<longrightarrow>
       lets_through (send_confirmation_email U ty a) s (load_email_content U) s1
     \<and> (load_email_content U s1 = (Inr c, s2) \<longrightarrow>
         lets_through (send_confirmation_email U ty a) s (io_lift (py_dict_get c ty JNull)) s2
       \<and> (py_dict_get c ty JNull = Inr dt \<longrightarrow>
           lets_through (send_confirmation_email U ty a) s (io_lift (py_getitem dt ''personalizations'')) s2
         \<and> (py_getitem dt ''personalizations'' = Inr ps \<longrightarrow>
             lets_through (send_confirmation_email U ty a) s (io_lift (py_iter ps)) s2
           \<and> (py_iter ps = Inr ds \<longrightarrow>
               lets_through (send_confirmation_email U ty a) s (io_map (\<lambda>d. io_lift (personalize (case map_of ui ''email'' of None \<Rightarrow> JNull | Some x \<Rightarrow> JStr x) d)) ds) s2
             \<and> (io_map (\<lambda>d. io_lift (personalize (case map_of ui ''email'' of None \<Rightarrow> JNull | Some x \<Rightarrow> JStr x) d)) ds s2 = (Inr ds', s3) \<longrightarrow>
                 lets_through (send_confirmation_email U ty a) s (sendgrid_post U (case (dt, ps) of (JObj kvs, JList _) \<Rightarrow> JObj (AList.update ''personalizations'' (JList ds') kvs) | _ \<Rightarrow> dt)) s3)))))))
   \<and> (lets_through (get_agenda U ed (Some st)) s (utils_get_agenda U (''agenda-'' @ ed) st) s)
   \<and> (get_abstracts_preference U a s = (Inr up, sA) \<longrightarrow>
     lets_through (get_abstracts U ed q v t1 t2 skip limit a) s (es_count U (''agenda-'' @ ed)) sA
   \<and> (es_count U (''agenda-'' @ ed) sA = (Inr n, sB) \<longrightarrow>
       lets_through (get_abstracts U ed q v t1 t2 skip limit a) s (io_lift (py_int_truediv skip limit)) sB
     \<and> (py_int_truediv skip limit = Inr p \<longrightarrow>
         lets_through (get_abstracts U ed q v t1 t2 skip limit a) s (io_lift (py_int_truediv (int n) limit)) sB
       \<and> (py_int_truediv (int n) limit = Inr np \<longrightarrow>
           (t1 = None \<or> t2 = None \<longrightarrow>
              lets_through (get_abstracts U ed q v t1 t2 skip limit a) s (get_abstracts_page U ed q v t1 t2 skip limit up (p + 1) (np + 1)) sB)
         \<and> (t1 = Some st \<and> t2 = Some et \<longrightarrow>
              lets_through (get_abstracts U ed q v t1 t2 skip limit a) s (utils_convert_utc U st) sB
            \<and> (utils_convert_utc U st sB = (Inr st', sC) \<longrightarrow>
                lets_through (get_abstracts U ed q v t1 t2 skip limit a) s (utils_convert_utc U et) sC
              \<and> (utils_convert_utc U et sC = (Inr et', sD) \<longrightarrow>
                  lets_through (get_abstracts U ed q v t1 t2 skip limit a) s (get_abstracts_page U ed q v (Some st') (Some et') skip limit up (p + 1) (np + 1)) sD)))))))
   \<and> (\<not> npg < cp \<longrightarrow>
     (v = Some ''default'' \<longrightarrow>
         lets_through (get_abstracts_page U ed q v t1 t2 skip limit up cp npg) s (utils_query_abstracts U q (''agenda-'' @ ed)) s
       \<and> (utils_query_abstracts U q (''agenda-'' @ ed) s = (Inr found, s1) \<longrightarrow>
           lets_through (get_abstracts_page U ed q v t1 t2 skip limit up cp npg) s (utils_filter_startend_time U found t1 t2) s1))
   \<and> (v = Some ''your-votes'' \<longrightarrow>
         lets_through (get_abstracts_page U ed q v t1 t2 skip limit up cp npg) s (io_lift (py_iter up)) s
       \<and> (py_iter up = Inr (ys @ i # zs)
            \<and> io_map (utils_get_abstract U Index (''agenda-'' @ ed)) ys s = (Inr rs, s1) \<longrightarrow>
           lets_through (get_abstracts_page U ed q v t1 t2 skip limit up cp npg) s (utils_get_abstract U Index (''agenda-'' @ ed) i) s1)
       \<and> (py_iter up = Inr ids
            \<and> io_map (utils_get_abstract U Index (''agenda-'' @ ed)) ids s = (Inr subs, s2) \<longrightarrow>
           lets_through (get_abstracts_page U ed q v t1 t2 skip limit up cp npg) s (view_page ed [(''view'', Some (QStr ''your-votes''))] skip limit subs) s2))
   \<and> (v = Some ''recommendations'' \<longrightarrow>
         lets_through (get_abstracts_page U ed q v t1 t2 skip limit up cp npg) s (loaded_embeddings U) s
       \<and> (embeddings U = Some emb \<longrightarrow>
           lets_through (get_abstracts_page U ed q v t1 t2 skip limit up cp npg) s (loaded_nbrs_model U (''agenda-'' @ ed)) s
         \<and> (loaded_nbrs_model U (''agenda-'' @ ed) s = (Inr m, s) \<longrightarrow>
             lets_through (get_abstracts_page U ed q v t1 t2 skip limit up cp npg) s (utils_generate_recommendations U up emb (''agenda-'' @ ed) m) s
           \<and> (utils_generate_recommendations U up emb (''agenda-'' @ ed) m s = (Inr found, s1) \<longrightarrow>
               lets_through (get_abstracts_page U ed q v t1 t2 skip limit up cp npg) s (utils_filter_startend_time U found t1 t2) s1
             \<and> (utils_filter_startend_time U found t1 t2 s1 = (Inr subs, s2) \<longrightarrow>
                 lets_through (get_abstracts_page U ed q v t1 t2 skip limit up cp npg) s (view_page ed [(''view'', Some (QStr ''recommendations'')), (''starttime'', map_option QStr t1), (''endtime'', map_option QStr t2)] skip limit subs) s2)))))
   \<and> (v = Some ''personalized'' \<longrightarrow>
         lets_through (get_abstracts_page U ed q v t1 t2 skip limit up cp npg) s (loaded_embeddings U) s
       \<and> (embeddings U = Some emb \<longrightarrow>
           lets_through (get_abstracts_page U ed q v t1 t2 skip limit up cp npg) s (loaded_nbrs_model U (''agenda-'' @ ed)) s
         \<and> (loaded_nbrs_model U (''agenda-'' @ ed) s = (Inr m, s) \<longrightarrow>
             lets_through (get_abstracts_page U ed q v t1 t2 skip limit up cp npg) s (utils_generate_personalized_recommendations U up emb (''agenda-'' @ ed) m) s
           \<and> (utils_generate_personalized_recommendations U up emb (''agenda-'' @ ed) m s = (Inr found, s1) \<longrightarrow>
               lets_through (get_abstracts_page U ed q v t1 t2 skip limit up cp npg) s (utils_filter_startend_time U found t1 t2) s1
             \<and> (utils_filter_startend_time U found t1 t2 s1 = (Inr subs, s2) \<longrightarrow>
                 lets_through (get_abstracts_page U ed q v t1 t2 skip limit up cp npg) s (view_page ed [(''view'', Some (QStr ''personalized'')), (''starttime'', map_option QStr t1), (''endtime'', map_option QStr t2)] skip limit subs) s2))))))
   \<and> (lets_through (get_abstract U ed x) s (edition_setting U ed ''airtable_id'') s
   \<and> (edition_setting U ed ''airtable_id'' s = (Inr b, s1) \<longrightarrow>
       lets_through (get_abstract U ed x) s (edition_setting U ed ''table_name'') s1
     \<and> (edition_setting U ed ''table_name'' s1 = (Inr tn, s2) \<longrightarrow>
         (b = JNull \<longrightarrow>
            lets_through (get_abstract U ed x) s (utils_get_abstract U Index (''agenda-'' @ ed) (JStr x)) s2)
       \<and> (b \<noteq> JNull \<longrightarrow>
            lets_through (get_abstract U ed x) s (table_get U b tn x) s2
          \<and> (table_get U b tn x s2 = (Inr rcd, s3) \<longrightarrow>
              lets_through (get_abstract U ed x) s (io_lift (py_dict_get rcd ''fields'' (JObj []))) s3)))))
   \<and> (lets_through (create_abstract U sub ed a) s (get_user_info U a) s
   \<and> (get_user_info U a s = (Inr who, s1) \<longrightarrow>
       lets_through (create_abstract U sub ed a) s (io_lift (dated_submission U sub)) s1
     \<and> (dated_submission U sub = Inr doc \<longrightarrow>
         lets_through (create_abstract U sub ed a) s (edition_setting U ed ''airtable_id'') s1
       \<and> (edition_setting U ed ''airtable_id'' s1 = (Inr b, s2) \<longrightarrow>
           lets_through (create_abstract U sub ed a) s (edition_setting U ed ''table_name'') s2
         \<and> (edition_setting U ed ''table_name'' s2 = (Inr tn, s3) \<and> b \<noteq> JNull \<longrightarrow>
             lets_through (create_abstract U sub ed a) s (table_create U b tn doc) s3
           \<and> (table_create U b tn doc s3 = (Inr r, s4) \<longrightarrow>
               lets_through (create_abstract U sub ed a) s (io_lift (py_getitem r ''id'')) s4
             \<and> (py_getitem r ''id'' = Inr i \<and> who = Some ui \<longrightarrow>
                 lets_through (create_abstract U sub ed a) s (update_data U (JObj [(''submission_id'', i)]) (map_of ui ''user_id'') (user_collection U)) s4)))))))
   \<and> (lets_through (update_abstract U x sub ed) s (edition_setting U ed ''airtable_id'') s
   \<and> (edition_setting U ed ''airtable_id'' s = (Inr b, s1) \<longrightarrow>
       lets_through (update_abstract U x sub ed) s (edition_setting U ed ''table_name'') s1
     \<and> (edition_setting U ed ''table_name'' s1 = (Inr tn, s2) \<and> b \<noteq> JNull \<longrightarrow>
         lets_through (update_abstract U x sub ed) s (table_update U b tn x (Submission_dict sub)) s2
       \<and> (table_update U b tn x (Submission_dict sub) s2 = (Inr r, s3) \<longrightarrow>
           lets_through (update_abstract U x sub ed) s (io_lift (py_getitem r ''id'')) s3))))
   \<and> (lets_through h s g t \<and> lets_through g t k u \<longrightarrow> lets_through h s k u)"
  by (rule conjI [OF set_data_error_404
      conjI [OF update_data_error_404
      conjI [OF votes_read_catches_identity
      conjI [OF votes_read_catches_store
      conjI [OF votes_read_returns
      conjI [OF get_user_lets_through
      conjI [OF create_user_lets_through
      conjI [OF update_user_lets_through
      conjI [OF get_user_votes_all_lets_through
      conjI [OF get_user_votes_lets_through
      conjI [OF update_user_votes_lets_through
      conjI [OF get_affiliations_lets_through
      conjI [OF send_confirmation_email_lets_through
      conjI [OF get_agenda_lets_through
      conjI [OF get_abstracts_lets_through
      conjI [OF get_abstracts_page_lets_through
      conjI [OF get_abstract_lets_through
      conjI [OF create_abstract_lets_through
      conjI [OF update_abstract_lets_through lets_through_composes]]]]]]]]]]]]]]]]]]])

text \<open>
  The theorem at a store whose \<open>set_data\<close> raises \<^verbatim>\<open>NotFound\<close>, and
  for \<^verbatim>\<open>get_user\<close> at a store whose \<open>get_data\<close> raises another exception.
\<close>

theorem caught_and_uncaught_exceptions_witness:
  "update_user_votes
      (demo_env\<lparr>set_data := \<lambda>d i c. io_raise NotFound\<rparr>)
      ''2020-1'' ''rec1'' (Some ''like'') (Some ''Bearer ada'') Map.empty
     = (Inr (Some (JSONResponse_status 404)), Map.empty)
   \<and> get_user
      (demo_env\<lparr>get_data := \<lambda>i c. io_raise (OtherError ''store unavailable'')\<rparr>)
      (Some ''Bearer ada'') Map.empty
     = (Inl (OtherError ''store unavailable''), Map.empty)"
proof
  show "update_user_votes
      (demo_env\<lparr>set_data := \<lambda>d i c. io_raise NotFound\<rparr>)
      ''2020-1'' ''rec1'' (Some ''like'') (Some ''Bearer ada'') Map.empty
     = (Inr (Some (JSONResponse_status 404)), Map.empty)"
    using caught_and_uncaught_exceptions
      [where U = "demo_env\<lparr>set_data := \<lambda>d i c. io_raise NotFound\<rparr>"
         and a = "Some ''Bearer ada''" and s = Map.empty
         and ui = "[(''user_id'', ''ada''), (''email'', ''ada@example.org'')]"
         and ?s1.0 = Map.empty and uid = "''ada''" and ?s2.0 = Map.empty
         and ed = "''2020-1''" and x = "''rec1''" and e = NotFound and ?s3.0 = Map.empty,
       THEN conjunct1]
    by (simp add: Let_def env_eval io_eval)
  have who: "get_user_info
      (demo_env\<lparr>get_data := \<lambda>i c. io_raise (OtherError ''store unavailable'')\<rparr>)
      (Some ''Bearer ada'') (Map.empty :: firebase)
     = (Inr (Some [(''user_id'', ''ada''), (''email'', ''ada@example.org'')]), Map.empty)"
    by (simp add: env_eval io_eval)
  from caught_and_uncaught_exceptions
      [where U = "demo_env\<lparr>get_data := \<lambda>i c. io_raise (OtherError ''store unavailable'')\<rparr>"
         and a = "Some ''Bearer ada''" and s = Map.empty
         and ui = "[(''user_id'', ''ada''), (''email'', ''ada@example.org'')]"
         and ?s1.0 = Map.empty,
       THEN conjunct2, THEN conjunct2, THEN conjunct2, THEN conjunct2, THEN conjunct2, THEN conjunct1, THEN conjunct2, THEN mp, OF who]
  show "get_user
      (demo_env\<lparr>get_data := \<lambda>i c. io_raise (OtherError ''store unavailable'')\<rparr>)
      (Some ''Bearer ada'') Map.empty
     = (Inl (OtherError ''store unavailable''), Map.empty)"
    by (simp add: lets_through_def env_eval)
qed

text \<open>
  C4 as stated fails twice. An exception raised in another handler is caught: with an
  identity provider that raises, \<^verbatim>\<open>get_abstracts\<close> answers 200. An exception of the
  store client in \<^verbatim>\<open>update_user_votes\<close> is not converted to 404 unless it is
  \<^verbatim>\<open>NotFound\<close> or \<^verbatim>\<open>TypeError\<close>: any other one comes out of the handler.
\<close>

theorem exceptions_caught_elsewhere:
  "map_sum id (map_option status_code)
      (fst (get_abstracts (memory_env failing_identity demo_agenda)
              ''2020-1'' None (Some ''default'') None None 0 40 (Some ''Bearer ada'') Map.empty))
     = Inr (Some 200)
   \<and> update_user_votes
        (demo_env\<lparr>set_data := \<lambda>d i c. io_raise (OtherError ''store unavailable'')\<rparr>)
        ''2020-1'' ''rec1'' (Some ''like'') (Some ''Bearer ada'') Map.empty
     = (Inl (OtherError ''store unavailable''), Map.empty)"
proof
  show "map_sum id (map_option status_code)
      (fst (get_abstracts (memory_env failing_identity demo_agenda)
              ''2020-1'' None (Some ''default'') None None 0 40 (Some ''Bearer ada'') Map.empty))
     = Inr (Some 200)"
    by (simp add: get_abstracts_def get_abstracts_page_def get_abstracts_preference_def failing_identity_def
          env_eval py_eval io_eval page_eval truediv_eval)
  show "update_user_votes
        (demo_env\<lparr>set_data := \<lambda>d i c. io_raise (OtherError ''store unavailable'')\<rparr>)
        ''2020-1'' ''rec1'' (Some ''like'') (Some ''Bearer ada'') Map.empty
     = (Inl (OtherError ''store unavailable''), Map.empty)"
    by (simp add: Let_def update_user_votes_def store_error_404_def env_eval io_eval)
qed

section \<open>Requests without an identity\<close>

text \<open>
  C5, as the code has it. Let \<open>get_user_info\<close> give \<^verbatim>\<open>None\<close>.
  \<^item> \<^verbatim>\<open>get_user\<close>, \<^verbatim>\<open>create_user\<close>, \<^verbatim>\<open>update_user\<close>, both
    \<^verbatim>\<open>get_user_votes\<close> and \<^verbatim>\<open>update_user_votes\<close> answer 401 with no body, having
    called nothing else.
  \<^item> \<^verbatim>\<open>get_abstracts\<close> goes on with the empty list of votes, and every response it
    gives has status 200.
  \<^item> \<^verbatim>\<open>create_abstract\<close> looks at the identity last. With the body to store computed
    and the two settings of the edition read, it answers 400 when the edition has no
    table base, having created nothing; with a table base it creates the record in the
    table store, and once the record is created and carries an id it answers 401, in
    the state the creation left.
  \<^item> \<^verbatim>\<open>update_abstract\<close> reads no credential: it answers 400 or 200 only.
\<close>

theorem missing_identity_answers:
  assumes "get_user_info U a s = (Inr None, s1)"
  shows "get_user U a s = (Inr (Some (JSONResponse_status 401)), s1)
       \<and> create_user U user_data a s = (Inr (Some (JSONResponse_status 401)), s1)
       \<and> update_user U user_data a s = (Inr (Some (JSONResponse_status 401)), s1)
       \<and> get_user_votes_all U a s = (Inr (Some (JSONResponse_status 401)), s1)
       \<and> get_user_votes U ed a s = (Inr (Some (JSONResponse_status 401)), s1)
       \<and> update_user_votes U ed x act a s = (Inr (Some (JSONResponse_status 401)), s1)
       \<and> get_abstracts_preference U a s = (Inr (JList []), s1)
       \<and> (\<forall>r s'. get_abstracts U ed q v t1 t2 skip limit a s = (Inr (Some r), s') \<longrightarrow>
             status_code r = 200)
       \<and> (dated_submission U sub = Inr doc
            \<and> edition_setting U ed ''airtable_id'' s1 = (Inr b, s2)
            \<and> edition_setting U ed ''table_name'' s2 = (Inr tn, s3) \<longrightarrow>
             (b = JNull \<longrightarrow>
                create_abstract U sub ed a s = (Inr (Some (JSONResponse_status 400)), s3))
           \<and> (b \<noteq> JNull \<and> table_create U b tn doc s3 = (Inr rcd, s4)
                \<and> py_getitem rcd ''id'' = Inr i \<longrightarrow>
                create_abstract U sub ed a s = (Inr (Some (JSONResponse_status 401)), s4)))
       \<and> (\<forall>r s'. update_abstract U x sub ed s = (Inr (Some r), s') \<longrightarrow>
             r = JSONResponse_status 400 \<or> r = JSONResponse_status 200)"
proof -
  note b = io_bind_Inr [of "get_user_info U a" s None s1, OF assms]
  have "get_user U a s = (Inr (Some (JSONResponse_status 401)), s1)"
    by (simp add: get_user_def b)
  moreover have "create_user U user_data a s = (Inr (Some (JSONResponse_status 401)), s1)"
    by (simp add: create_user_def b)
  moreover have "update_user U user_data a s = (Inr (Some (JSONResponse_status 401)), s1)"
    by (simp add: update_user_def b)
  moreover have "get_user_votes_all U a s = (Inr (Some (JSONResponse_status 401)), s1)"
    by (simp add: get_user_votes_all_def b)
  moreover have "get_user_votes U ed a s = (Inr (Some (JSONResponse_status 401)), s1)"
    by (simp add: get_user_votes_def b)
  moreover have "update_user_votes U ed x act a s = (Inr (Some (JSONResponse_status 401)), s1)"
    by (simp add: update_user_votes_def b)
  moreover have "get_abstracts_preference U a s = (Inr (JList []), s1)"
    by (simp add: get_abstracts_preference_def io_try_def b)
  moreover have "\<forall>r s'. get_abstracts U ed q v t1 t2 skip limit a s = (Inr (Some r), s') \<longrightarrow>
      status_code r = 200"
    by (auto dest: get_abstracts_shape simp: page_envelope_def)
  moreover have "create_abstract U sub ed a s = (Inr (Some (JSONResponse_status 400)), s3)"
    if "dated_submission U sub = Inr doc"
       "edition_setting U ed ''airtable_id'' s1 = (Inr b, s2)"
       "edition_setting U ed ''table_name'' s2 = (Inr tn, s3)" "b = JNull"
    using that by (simp add: create_abstract_dated b io_bind_Inr)
  moreover have "create_abstract U sub ed a s = (Inr (Some (JSONResponse_status 401)), s4)"
    if "dated_submission U sub = Inr doc"
       "edition_setting U ed ''airtable_id'' s1 = (Inr b, s2)"
       "edition_setting U ed ''table_name'' s2 = (Inr tn, s3)" "b \<noteq> JNull"
       "table_create U b tn doc s3 = (Inr rcd, s4)" "py_getitem rcd ''id'' = Inr i"
    using that by (simp add: create_abstract_dated b io_bind_Inr)
  moreover have "\<forall>r s'. update_abstract U x sub ed s = (Inr (Some r), s') \<longrightarrow>
      r = JSONResponse_status 400 \<or> r = JSONResponse_status 200"
    by (auto dest: update_abstract_shape)
  ultimately show ?thesis by blast
qed

text \<open>
  The theorem at requests with no \<^verbatim>\<open>Authorization\<close> header: to two handlers of the
  environment in memory, and to \<^verbatim>\<open>create_abstract\<close> for an edition kept in the table
  store, where the record \<open>recNew\<close> is there when the 401 is given.
\<close>

theorem missing_identity_answers_witness:
  "get_user demo_env None Map.empty = (Inr (Some (JSONResponse_status 401)), Map.empty)
   \<and> update_user_votes demo_env ''2020-1'' ''rec1'' (Some ''like'') None Map.empty
       = (Inr (Some (JSONResponse_status 401)), Map.empty)
   \<and> create_abstract table_env Submission_default ''2020-1'' None Map.empty
       = (Inr (Some (JSONResponse_status 401)),
          [(''submissions'', ''recNew'') \<mapsto> Submission_dict Submission_default])"
proof -
  have who: "get_user_info table_env None (Map.empty :: firebase) = (Inr None, Map.empty)"
    by (simp add: table_env_def env_eval io_eval)
  have doc: "dated_submission table_env Submission_default = Inr (Submission_dict Submission_default)"
    by (simp add: dated_submission_def Submission_default_def)
  have base: "edition_setting table_env ''2020-1'' ''airtable_id'' (Map.empty :: firebase)
      = (Inr (JStr ''appDemo''), Map.empty)"
    by (simp add: edition_setting_def table_env_def env_eval py_eval io_eval)
  have name: "edition_setting table_env ''2020-1'' ''table_name'' (Map.empty :: firebase)
      = (Inr (JStr ''submissions''), Map.empty)"
    by (simp add: edition_setting_def table_env_def env_eval py_eval io_eval)
  have made: "table_create table_env (JStr ''appDemo'') (JStr ''submissions'')
        (Submission_dict Submission_default) Map.empty
      = (Inr (JObj [(''id'', JStr ''recNew''), (''fields'', JObj (Submission_dict Submission_default))]),
         [(''submissions'', ''recNew'') \<mapsto> Submission_dict Submission_default])"
    by (simp add: table_env_def)
  have key: "py_getitem (JObj [(''id'', JStr ''recNew''),
        (''fields'', JObj (Submission_dict Submission_default))]) ''id'' = Inr (JStr ''recNew'')"
    by (simp add: py_getitem_def)
  from missing_identity_answers [of demo_env None Map.empty Map.empty]
  have one: "get_user demo_env None Map.empty = (Inr (Some (JSONResponse_status 401)), Map.empty)
     \<and> update_user_votes demo_env ''2020-1'' ''rec1'' (Some ''like'') None Map.empty
       = (Inr (Some (JSONResponse_status 401)), Map.empty)"
    by (simp add: demo_identity_none)
  from missing_identity_answers [OF who, where sub = Submission_default and ed = "''2020-1''"
      and doc = "Submission_dict Submission_default" and b = "JStr ''appDemo''"
      and tn = "JStr ''submissions''" and ?s2.0 = Map.empty and ?s3.0 = Map.empty
      and rcd = "JObj [(''id'', JStr ''recNew''), (''fields'', JObj (Submission_dict Submission_default))]"
      and ?s4.0 = "[(''submissions'', ''recNew'') \<mapsto> Submission_dict Submission_default]"
      and i = "JStr ''recNew''"]
    doc base name made key
  have two: "create_abstract table_env Submission_default ''2020-1'' None Map.empty
       = (Inr (Some (JSONResponse_status 401)),
          [(''submissions'', ''recNew'') \<mapsto> Submission_dict Submission_default])"
    by simp
  from one two show ?thesis by simp
qed

text \<open>
  C5 as stated fails: updating an abstract is answered 400 (here: no table base is
  configured for the edition), never 401, and a request to list abstracts with no
  credential is answered 200.
\<close>

theorem identity_not_always_401:
  "update_abstract demo_env ''rec1'' Submission_default ''2020-1'' Map.empty
     = (Inr (Some \<lparr>status_code = 400, content = JNull\<rparr>), Map.empty)
   \<and> map_sum id (map_option status_code)
        (fst (get_abstracts demo_env ''2020-1'' None (Some ''default'') None None 0 40 None Map.empty))
     = Inr (Some 200)"
proof
  show "update_abstract demo_env ''rec1'' Submission_default ''2020-1'' Map.empty
     = (Inr (Some \<lparr>status_code = 400, content = JNull\<rparr>), Map.empty)"
    by (simp add: update_abstract_def edition_setting_def env_eval py_eval io_eval page_eval)
  show "map_sum id (map_option status_code)
        (fst (get_abstracts demo_env ''2020-1'' None (Some ''default'') None None 0 40 None Map.empty))
     = Inr (Some 200)"
    by (simp add: get_abstracts_def get_abstracts_page_def get_abstracts_preference_def env_eval py_eval io_eval
          page_eval truediv_eval)
qed

section \<open>Writing and reading a profile\<close>


section \<open>The body of every response\<close>

text \<open>
  C7, as the code has it. A response of \<^verbatim>\<open>get_affiliations\<close>, \<^verbatim>\<open>get_agenda\<close> and
  \<^verbatim>\<open>get_abstract\<close>, and of \<^verbatim>\<open>get_user\<close> and both \<^verbatim>\<open>get_user_votes\<close> unless it
  is the 401, has status 200 and the body \<^verbatim>\<open>{"data": ...}\<close>; a response of
  \<^verbatim>\<open>get_abstracts\<close> has status 200 and the body
  \<^verbatim>\<open>{"meta": ..., "links": ..., "data": ...}\<close>, or \<^verbatim>\<open>{"meta": ..., "data": ...}\<close>
  (for a page past the last one). The responses with status 400, 401 and 404, and every
  response of \<^verbatim>\<open>create_abstract\<close>, \<^verbatim>\<open>update_abstract\<close> and
  \<^verbatim>\<open>send_confirmation_email\<close>, are given no content; \<^verbatim>\<open>create_user\<close>,
  \<^verbatim>\<open>update_user\<close> and \<^verbatim>\<open>update_user_votes\<close> return a response object only to
  report an error, and \<^verbatim>\<open>migrate\<close> returns none.
\<close>

theorem response_bodies:
  "(get_affiliations U q n s = (Inr (Some r), s') \<longrightarrow> data_envelope r)
   \<and> (get_agenda U ed t s = (Inr (Some r), s') \<longrightarrow> data_envelope r)
   \<and> (get_abstract U ed x s = (Inr (Some r), s') \<longrightarrow> data_envelope r)
   \<and> (get_user U a s = (Inr (Some r), s') \<longrightarrow> data_envelope r \<or> r = JSONResponse_status 401)
   \<and> (get_user_votes_all U a s = (Inr (Some r), s')
        \<longrightarrow> data_envelope r \<or> r = JSONResponse_status 401)
   \<and> (get_user_votes U ed a s = (Inr (Some r), s')
        \<longrightarrow> data_envelope r \<or> r = JSONResponse_status 401)
   \<and> (get_abstracts U ed q v t1 t2 skip limit a s = (Inr (Some r), s') \<longrightarrow> page_envelope r)
   \<and> (create_user U d a s = (Inr (Some r), s') \<longrightarrow> r = JSONResponse_status 401)
   \<and> (update_user U d a s = (Inr (Some r), s') \<longrightarrow> r = JSONResponse_status 401)
   \<and> (update_user_votes U ed x act a s = (Inr (Some r), s') \<longrightarrow>
        r = JSONResponse_status 401 \<or> r = JSONResponse_status 404 \<or> r = JSONResponse_status 400)
   \<and> (create_abstract U sub ed a s = (Inr (Some r), s') \<longrightarrow>
        r = JSONResponse_status 400 \<or> r = JSONResponse_status 200 \<or> r = JSONResponse_status 401)
   \<and> (update_abstract U x sub ed s = (Inr (Some r), s') \<longrightarrow>
        r = JSONResponse_status 400 \<or> r = JSONResponse_status 200)
   \<and> (send_confirmation_email U email_type a s = (Inr (Some r), s') \<longrightarrow> no_body r)
   \<and> migrate U a s = (Inr None, s)"
  using get_affiliations_shape [of U q n s r s'] get_agenda_shape [of U ed t s r s']
    get_abstract_shape [of U ed x s r s'] get_user_shape [of U a s r s']
    get_user_votes_all_shape [of U a s r s'] get_user_votes_shape [of U ed a s r s']
    get_abstracts_shape [of U ed q v t1 t2 skip limit a s r s']
    create_user_shape [of U d a s r s'] update_user_shape [of U d a s r s']
    update_user_votes_shape [of U ed x act a s r s']
    create_abstract_shape [of U sub ed a s r s'] update_abstract_shape [of U x sub ed s r s']
    send_confirmation_email_shape [of U email_type a s r s']
  by (simp add: migrate_def)

text \<open>
  The theorem at two requests on the environment in memory: the profile of a known
  identity, and the first page of the abstracts.
\<close>

theorem response_bodies_witness:
  "get_user demo_env (Some ''Bearer ada'') Map.empty
     = (Inr (Some \<lparr>status_code = 200, content = JObj [(''data'', JObj [])]\<rparr>), Map.empty)
   \<and> data_envelope \<lparr>status_code = 200, content = JObj [(''data'', JObj [])]\<rparr>
   \<and> (\<exists>r. get_abstracts demo_env ''2020-1'' None (Some ''default'') None None 0 40 None Map.empty
            = (Inr (Some r), Map.empty) \<and> page_envelope r)"
proof -
  have u: "get_user demo_env (Some ''Bearer ada'') Map.empty
     = (Inr (Some \<lparr>status_code = 200, content = JObj [(''data'', JObj [])]\<rparr>), Map.empty)"
    by (simp add: get_user_def env_eval io_eval page_eval)
  obtain r where g: "get_abstracts demo_env ''2020-1'' None (Some ''default'') None None 0 40 None Map.empty
            = (Inr (Some r), Map.empty)"
    by (simp add: get_abstracts_def get_abstracts_page_def get_abstracts_preference_def env_eval py_eval io_eval
          page_eval truediv_eval)
  from u g
    response_bodies [of demo_env _ _ Map.empty
        "\<lparr>status_code = 200, content = JObj [(''data'', JObj [])]\<rparr>" Map.empty _ _ _
        "Some ''Bearer ada''"]
    response_bodies [of demo_env None _ Map.empty r Map.empty "''2020-1''" _ _ None
        "Some ''default''" None None 0 40]
  show ?thesis by (simp add: data_envelope_def body_keys_def)
qed

text \<open>
  C7 as stated fails: \<^verbatim>\<open>create_user\<close> with a valid identity returns no response
  object, and the 401 of \<^verbatim>\<open>get_user\<close> is given no content, so neither body has a
  \<^verbatim>\<open>data\<close> field.
\<close>

theorem responses_without_data:
  "fst (create_user demo_env (Some [(''payload'', JObj [(''name'', JStr ''Ada'')])])
          (Some ''Bearer ada'') Map.empty) = Inr None
   \<and> fst (get_user demo_env None Map.empty) = Inr (Some \<lparr>status_code = 401, content = JNull\<rparr>)
   \<and> body_keys \<lparr>status_code = 401, content = JNull\<rparr> = None"
  by (simp add: create_user_def get_user_def json_of_body_def body_keys_def Let_def
        env_eval py_eval io_eval page_eval)

section \<open>Properties of the query string builder\<close>

lemma query_params_loop_spec:
  "query_params_loop base_endpoint kvs = query_params_spec base_endpoint kvs"
proof (induction kvs arbitrary: base_endpoint)
  case Nil
  show ?case by (simp add: query_params_spec_def)
next
  case (Cons kv kvs)
  obtain k v where kv: "kv = (k, v)" by (cases kv)
  show ?case
  proof (cases v)
    case None
    with kv Cons.IH show ?thesis by (simp add: query_params_spec_def)
  next
    case (Some x)
    with kv Cons.IH show ?thesis by (simp add: query_params_spec_def append_param_def)
  qed
qed

lemma present_params_all_None:
  "(\<forall>kv \<in> set kvs. snd kv = None) \<Longrightarrow> present_params kvs = []"
  by (induction kvs rule: present_params.induct) auto

text \<open>
  C8. \<open>query_params_builder\<close> appends exactly the pairs whose value is not \<^verbatim>\<open>None\<close>,
  in the order given, each with the separator \<open>?\<close> when the endpoint accumulated so far
  contains no \<open>?\<close> and \<open>&\<close> otherwise; when \<open>kvs\<close> is \<^verbatim>\<open>None\<close>, or every value in
  it is \<^verbatim>\<open>None\<close>, the base endpoint comes back unchanged.
\<close>

theorem query_params_builder_appends_present:
  "query_params_builder base_endpoint (Some kvs) =
     foldl append_param base_endpoint (present_params kvs)
   \<and> query_params_builder base_endpoint None = base_endpoint
   \<and> ((\<forall>kv \<in> set kvs. snd kv = None) \<longrightarrow>
        query_params_builder base_endpoint (Some kvs) = base_endpoint)"
  using query_params_loop_spec [of base_endpoint kvs] present_params_all_None [of kvs]
  by (simp add: query_params_builder_def query_params_spec_def)

theorem query_params_builder_appends_present_witness:
  "query_params_builder ''/api/abstract/2020-1''
      (Some [(''view'', Some (QStr ''default'')), (''query'', None), (''skip'', Some (QInt 40))])
     = ''/api/abstract/2020-1?view=default&skip=40''
   \<and> query_params_builder ''/api/abstract/2020-1'' (Some [(''query'', None), (''starttime'', None)])
     = ''/api/abstract/2020-1''"
  using query_params_builder_appends_present
    [of "''/api/abstract/2020-1''"
        "[(''view'', Some (QStr ''default'')), (''query'', None), (''skip'', Some (QInt 40))]"]
    query_params_builder_appends_present
    [of "''/api/abstract/2020-1''" "[(''query'', None), (''starttime'', None)]"]
  by (simp add: append_param_def str_int_def digits.simps digit_char_def)

section \<open>A valid identity without a profile\<close>

text \<open>
  C9. When the token is valid (\<open>get_user_info\<close> gives its claims) and the store holds no
  profile document for the identity (\<open>get_data\<close> gives \<^verbatim>\<open>None\<close>), \<^verbatim>\<open>get_user\<close>
  answers 200 with the body \<^verbatim>\<open>{"data": {}}\<close>: no 404 and no exception.
\<close>

theorem get_user_without_profile:
  assumes "get_user_info U a s = (Inr (Some ui), s1)"
      and "get_data U (map_of ui ''user_id'') (user_collection U) s1 = (Inr None, s2)"
  shows "get_user U a s
           = (Inr (Some \<lparr>status_code = 200, content = JObj [(''data'', JObj [])]\<rparr>), s2)"
  using assms by (simp add: get_user_def io_bind_Inr JSONResponse_content_def)

text \<open>The theorem at a known token and an empty store.\<close>

theorem get_user_without_profile_witness:
  "get_user demo_env (Some ''Bearer ada'') Map.empty
     = (Inr (Some \<lparr>status_code = 200, content = JObj [(''data'', JObj [])]\<rparr>), Map.empty)"
  using get_user_without_profile [of demo_env "Some ''Bearer ada''" Map.empty
          "[(''user_id'', ''ada''), (''email'', ''ada@example.org'')]" Map.empty Map.empty]
  by (simp add: demo_identity_ada fb_get_data_def)

section \<open>Casting a vote\<close>

text \<open>
  C10. A user with a valid identity has a preference document whose list for the
  edition holds the submission ids \<open>ids\<close>. Liking \<open>x\<close> returns no error, and replaces
  the list of the edition by a list \<open>l\<close> that holds \<open>x\<close> and whose elements are those
  of \<open>ids\<close> and \<open>x\<close>; when \<open>x\<close> was liked already, the elements are those of
  \<open>ids\<close>. The other editions of the document and the other documents are as before.
\<close>

theorem like_extends_the_set:
  assumes fs: "firebase_store U"
      and ident: "get_user_info U a s = (Inr (Some ui), s1)"
      and uid: "map_of ui ''user_id'' = Some uid"
      and pref: "s1 (preference_collection U, uid) = Some pref"
      and cur: "map_of pref ed = Some (JList (map JStr ids))"
  shows "\<exists>l. update_user_votes U ed x (Some ''like'') a s
              = (Inr None, s1((preference_collection U, uid) \<mapsto> AList.update ed (JList l) pref))
           \<and> map_of (AList.update ed (JList l) pref) ed = Some (JList l)
           \<and> JStr x \<in> set l
           \<and> set l = JStr ` (set ids \<union> {x})
           \<and> (x \<in> set ids \<longrightarrow> set l = JStr ` set ids)"
proof -
  obtain l where l: "py_list_set (JList (map JStr (ids @ [x]))) = Inr l"
      "set l = JStr ` set (ids @ [x])" "distinct l"
    using py_list_set_strings [of "ids @ [x]"] by blast
  have st: "get_data U = fb_get_data" "update_data U = fb_update_data"
    using fs by (simp_all add: firebase_store_def)
  have "update_user_votes U ed x (Some ''like'') a s
          = (Inr None, s1((preference_collection U, uid) \<mapsto> AList.update ed (JList l) pref))"
    using ident uid pref cur l(1)
    by (simp add: update_user_votes_def Let_def st io_bind_def io_try_def fb_get_data_def
          fb_update_data_def py_getitem_def py_add_def dict_update_def)
  moreover have "set l = JStr ` (set ids \<union> {x})" using l(2) by simp
  moreover have "x \<in> set ids \<longrightarrow> set l = JStr ` set ids" using l(2) by auto
  ultimately show ?thesis by (auto simp: map_of_AList_update_same)
qed

text \<open>The theorem for the user \<open>ada\<close>, who liked \<open>rec1\<close> and now likes \<open>rec2\<close>.\<close>

theorem like_extends_the_set_witness:
  "\<exists>l. update_user_votes demo_env ''2020-1'' ''rec2'' (Some ''like'') (Some ''Bearer ada'')
          (Map.empty((''preferences'', ''ada'') \<mapsto> [(''2020-1'', JList [JStr ''rec1''])]))
        = (Inr None, Map.empty((''preferences'', ''ada'') \<mapsto> [(''2020-1'', JList l)]))
      \<and> set l = {JStr ''rec1'', JStr ''rec2''}"
  using like_extends_the_set [of demo_env "Some ''Bearer ada''"
      "Map.empty((''preferences'', ''ada'') \<mapsto> [(''2020-1'', JList [JStr ''rec1''])])"
      "[(''user_id'', ''ada''), (''email'', ''ada@example.org'')]"
      "Map.empty((''preferences'', ''ada'') \<mapsto> [(''2020-1'', JList [JStr ''rec1''])])"
      "''ada''" "[(''2020-1'', JList [JStr ''rec1''])]" "''2020-1''" "[''rec1'']" "''rec2''"]
  by (auto simp: demo_env_firebase_store demo_identity_ada insert_commute)


end
